theory Spec2Isabelle
  imports Complex_Main "HOL-Library.Word"
begin

section \<open>JavaScript values\<close>

text \<open>
  The worker is a single \<^verbatim>\<open>fetch\<close> handler that exists in five revisions:
  \<^verbatim>\<open>src/src/index.ts\<close> (structured-JSON generation contract),
  \<^verbatim>\<open>src/unnamed/part_000\<close> (first revision),
  \<^verbatim>\<open>src/unnamed/part_001\<close> lines 1-188 (dynamic CORS policy, called part001a below),
  \<^verbatim>\<open>src/unnamed/part_001\<close> lines 189-312 (minimum audio size, fallback replies, called
  part001b below) and \<^verbatim>\<open>src/unnamed/part_002\<close> (conversation history).

  A JavaScript string is a sequence of UTF-16 code units; \<open>length\<close> counts code units,
  as \<^verbatim>\<open>.length\<close> does.
\<close>

type_synonym jsstring = "16 word list"

definition js :: "string \<Rightarrow> jsstring" where
  "js s = map of_char s"

text \<open>
  The values the handler receives from \<^verbatim>\<open>JSON.parse\<close> and \<^verbatim>\<open>response.json()\<close> are
  untyped (\<^verbatim>\<open>any\<close>), so they are modelled as JavaScript values, with \<^verbatim>\<open>undefined\<close>
  for an absent property.
\<close>

datatype jsval =
    JUndefined
  | JNull
  | JBool bool
  | JNum rat
  | JStr jsstring
  | JArr "jsval list"
  | JObj "(jsstring \<times> jsval) list"

text \<open>What a \<^verbatim>\<open>throw\<close> carries: an \<^verbatim>\<open>Error\<close> built by the handler, or an exception
  raised by the runtime, each with its message: the \<^verbatim>\<open>catch\<close> block of the handler
  returns \<^verbatim>\<open>err.message\<close> to the caller.\<close>

datatype exn = Error jsstring | TypeError jsstring | SyntaxError jsstring

text \<open>
  The faults for which the runtime throws while the handler runs: \<^verbatim>\<open>request.formData()\<close>
  rejects; \<^verbatim>\<open>text()\<close> or \<^verbatim>\<open>json()\<close> cannot read the body of a response; \<^verbatim>\<open>JSON.parse\<close> or
  \<^verbatim>\<open>json()\<close> is given a text that is not JSON; a property of \<^verbatim>\<open>null\<close> or \<^verbatim>\<open>undefined\<close> is
  read; a property that is not a function is called; a value that is not iterable is
  spread; a value cannot be converted to a string; a string is not accepted as the value
  of a header. The text that is not JSON makes a SyntaxError, every other fault a
  TypeError.

  Built-ins of the runtime that the source calls and does not define are parameters:
  \<^verbatim>\<open>JSON.parse\<close> (\<open>None\<close> when it throws), the conversion of a number, array or object
  to a string (\<open>None\<close> when it throws, as it can for an object), the conversion to a
  byte string of a header value with a code unit above 255 (\<open>None\<close> when the runtime
  throws, as the Web IDL conversion does; a runtime that stores such a value encodes it),
  and the message of the exception thrown for a fault, which may quote the data of the
  fault.
\<close>

datatype fault =
    NotAForm
  | BodyUnreadable
  | NotJSON jsstring
  | ReadOfNullish jsval jsstring
  | NotAFunction jsval jsstring
  | NotIterable jsval
  | NotConvertible jsval
  | InvalidHeaderValue jsstring

record runtime =
  JSON_parse :: "jsstring \<Rightarrow> jsval option"
  ToString :: "jsval \<Rightarrow> jsstring option"
  ByteString :: "jsstring \<Rightarrow> jsstring option"
  message :: "fault \<Rightarrow> jsstring"

definition thrown :: "runtime \<Rightarrow> fault \<Rightarrow> exn" where
  "thrown rt f =
     (case f of
        NotJSON t \<Rightarrow> SyntaxError (message rt f)
      | _ \<Rightarrow> TypeError (message rt f))"

fun truthy :: "jsval \<Rightarrow> bool" where
  "truthy JUndefined = False"
| "truthy JNull = False"
| "truthy (JBool b) = b"
| "truthy (JNum n) = (n \<noteq> 0)"
| "truthy (JStr s) = (s \<noteq> [])"
| "truthy (JArr xs) = True"
| "truthy (JObj kvs) = True"

text \<open>\<^verbatim>\<open>a || b\<close>\<close>

definition or_else :: "jsval \<Rightarrow> jsval \<Rightarrow> jsval" where
  "or_else a b = (if truthy a then a else b)"

fun nullish :: "jsval \<Rightarrow> bool" where
  "nullish JUndefined = True"
| "nullish JNull = True"
| "nullish v = False"

text \<open>A named property of a value that is neither \<^verbatim>\<open>null\<close> nor \<^verbatim>\<open>undefined\<close>. The
  names the handler reads (\<^verbatim>\<open>text\<close>, \<^verbatim>\<open>candidates\<close>, \<^verbatim>\<open>content\<close>, \<^verbatim>\<open>parts\<close>,
  \<^verbatim>\<open>role\<close>, \<^verbatim>\<open>compliance\<close>) are own properties of objects only. An object lists each
  of its keys once, as \<^verbatim>\<open>JSON.parse\<close> builds it.\<close>

fun own_prop :: "jsval \<Rightarrow> jsstring \<Rightarrow> jsval" where
  "own_prop (JObj kvs) k = (case map_of kvs k of Some v \<Rightarrow> v | None \<Rightarrow> JUndefined)"
| "own_prop v k = JUndefined"

text \<open>\<^verbatim>\<open>v.k\<close> throws on \<^verbatim>\<open>null\<close> and \<^verbatim>\<open>undefined\<close>; \<^verbatim>\<open>v?.k\<close> gives \<^verbatim>\<open>undefined\<close> there.\<close>

definition get :: "runtime \<Rightarrow> jsval \<Rightarrow> jsstring \<Rightarrow> exn + jsval" where
  "get rt v k = (if nullish v then Inl (thrown rt (ReadOfNullish v k)) else Inr (own_prop v k))"

definition opt_get :: "jsval \<Rightarrow> jsstring \<Rightarrow> jsval" where
  "opt_get v k = (if nullish v then JUndefined else own_prop v k)"

text \<open>\<^verbatim>\<open>v?.[0]\<close>: the first element of an array, the first code unit of a string, the
  property \<^verbatim>\<open>"0"\<close> of an object.\<close>

fun elem0 :: "jsval \<Rightarrow> jsval" where
  "elem0 (JArr xs) = (case xs of [] \<Rightarrow> JUndefined | x # _ \<Rightarrow> x)"
| "elem0 (JStr s) = (case s of [] \<Rightarrow> JUndefined | c # _ \<Rightarrow> JStr [c])"
| "elem0 (JObj kvs) = own_prop (JObj kvs) (js ''0'')"
| "elem0 v = JUndefined"

definition opt_elem0 :: "jsval \<Rightarrow> jsval" where
  "opt_elem0 v = (if nullish v then JUndefined else elem0 v)"

text \<open>\<^verbatim>\<open>geminiJson.candidates?.[0]?.content?.parts?.[0]?.text\<close>: only the first access
  can throw.\<close>

definition candidate_text :: "runtime \<Rightarrow> jsval \<Rightarrow> exn + jsval" where
  "candidate_text rt geminiJson =
     (case get rt geminiJson (js ''candidates'') of
        Inl e \<Rightarrow> Inl e
      | Inr candidates \<Rightarrow>
          Inr (opt_get (opt_elem0 (opt_get (opt_get (opt_elem0 candidates)
                 (js ''content'')) (js ''parts''))) (js ''text'')))"

text \<open>\<^verbatim>\<open>String.prototype.trim\<close> removes WhiteSpace and LineTerminator code units from
  both ends.\<close>

definition is_ws :: "16 word \<Rightarrow> bool" where
  "is_ws c \<longleftrightarrow>
     c \<in> {0x0009, 0x000A, 0x000B, 0x000C, 0x000D, 0x0020, 0x00A0, 0x1680,
          0x2028, 0x2029, 0x202F, 0x205F, 0x3000, 0xFEFF}
     \<or> (0x2000 \<le> c \<and> c \<le> 0x200A)"

definition trim :: "jsstring \<Rightarrow> jsstring" where
  "trim s = rev (dropWhile is_ws (rev (dropWhile is_ws s)))"

text \<open>Iterating a string (\<^verbatim>\<open>...s\<close>) yields its code points: a surrogate pair stays one
  element.\<close>

fun code_points :: "jsstring \<Rightarrow> jsstring list" where
  "code_points [] = []"
| "code_points [c] = [[c]]"
| "code_points (c # d # cs) =
     (if 0xD800 \<le> c \<and> c \<le> 0xDBFF \<and> 0xDC00 \<le> d \<and> d \<le> 0xDFFF
      then [c, d] # code_points cs
      else [c] # code_points (d # cs))"

text \<open>\<^verbatim>\<open>[...v]\<close>: arrays and strings are iterable, every other JSON value throws.\<close>

definition spread :: "runtime \<Rightarrow> jsval \<Rightarrow> exn + jsval list" where
  "spread rt v =
     (case v of
        JArr xs \<Rightarrow> Inr xs
      | JStr s \<Rightarrow> Inr (map JStr (code_points s))
      | _ \<Rightarrow> Inl (thrown rt (NotIterable v)))"

text \<open>The conversion of a value to a string, as a template literal and the argument
  conversion of \<^verbatim>\<open>headers.set\<close> do it.\<close>

definition to_string :: "runtime \<Rightarrow> jsval \<Rightarrow> exn + jsstring" where
  "to_string rt v =
     (case v of
        JStr s \<Rightarrow> Inr s
      | JUndefined \<Rightarrow> Inr (js ''undefined'')
      | JNull \<Rightarrow> Inr (js ''null'')
      | JBool b \<Rightarrow> Inr (if b then js ''true'' else js ''false'')
      | _ \<Rightarrow> (case ToString rt v of
                None \<Rightarrow> Inl (thrown rt (NotConvertible v))
              | Some s \<Rightarrow> Inr s))"

text \<open>\<^verbatim>\<open>v.toString()\<close>\<close>

definition toString :: "runtime \<Rightarrow> jsval \<Rightarrow> exn + jsstring" where
  "toString rt v =
     (if nullish v then Inl (thrown rt (ReadOfNullish v (js ''toString''))) else to_string rt v)"

text \<open>\<^verbatim>\<open>JSON.parse(s)\<close>\<close>

definition parse :: "runtime \<Rightarrow> jsstring \<Rightarrow> exn + jsval" where
  "parse rt s =
     (case JSON_parse rt s of None \<Rightarrow> Inl (thrown rt (NotJSON s)) | Some v \<Rightarrow> Inr v)"

section \<open>Requests, responses and the three services\<close>

record js_file =
  file_name :: jsstring
  file_type :: jsstring
  file_bytes :: "8 word list"

definition size_of :: "js_file \<Rightarrow> nat" where
  "size_of f = length (file_bytes f)"

text \<open>\<^verbatim>\<open>formData.get(name)\<close> is \<^verbatim>\<open>null\<close>, a string or a \<^verbatim>\<open>File\<close>.\<close>

datatype formval = FString jsstring | FFile js_file

record form =
  form_audio :: "formval option"
  form_history :: "formval option"

text \<open>\<open>req_formData\<close> is \<open>None\<close> when \<^verbatim>\<open>request.formData()\<close> rejects (the body is not a
  form).\<close>

record request =
  req_method :: jsstring
  req_origin :: "jsstring option"
  req_formData :: "form option"

record env =
  ELEVENLABS_API_KEY :: jsstring
  GEMINI_API_KEY :: jsstring
  VOICE_ID :: jsstring
  ALLOWED_ORIGINS :: "jsstring option"

text \<open>What the handler reads of an upstream response: \<^verbatim>\<open>ok\<close>, \<^verbatim>\<open>statusText\<close>, the body
  read as a text (\<open>None\<close> when reading the body fails) and the byte stream \<^verbatim>\<open>body\<close>, which
  the handler passes on unread. A \<^verbatim>\<open>fetch\<close> can also reject, with a TypeError whose
  message is given.\<close>

record upstream =
  up_ok :: bool
  up_statusText :: jsstring
  up_text :: "jsstring option"
  up_body :: "8 word list"

datatype fetched = Rejected jsstring | Fulfilled upstream

text \<open>\<^verbatim>\<open>await response.text()\<close> and \<^verbatim>\<open>await response.json()\<close>: the latter parses the text
  of the body.\<close>

definition text_of :: "runtime \<Rightarrow> upstream \<Rightarrow> exn + jsstring" where
  "text_of rt response =
     (case up_text response of None \<Rightarrow> Inl (thrown rt BodyUnreadable) | Some t \<Rightarrow> Inr t)"

definition json_of :: "runtime \<Rightarrow> upstream \<Rightarrow> exn + jsval" where
  "json_of rt response =
     (case up_text response of None \<Rightarrow> Inl (thrown rt BodyUnreadable) | Some t \<Rightarrow> parse rt t)"

record stt_request =
  stt_key :: jsstring
  stt_model_id :: jsstring
  stt_file :: js_file

record gemini_request =
  gemini_url :: jsstring
  gemini_payload :: jsval

record tts_request =
  tts_url :: jsstring
  tts_key :: jsstring
  tts_payload :: jsval

datatype call = STT stt_request | GEN gemini_request | TTS tts_request

record services =
  stt :: "stt_request \<Rightarrow> fetched"
  gemini :: "gemini_request \<Rightarrow> fetched"
  tts :: "tts_request \<Rightarrow> fetched"

text \<open>The body of a response of the worker: none, a plain text, the JSON object
  \<^verbatim>\<open>{ error: err.message }\<close> of a caught exception, or the audio stream.\<close>

datatype body = NoBody | PlainText jsstring | ErrorJson exn | AudioStream "8 word list"

type_synonym headers = "(string \<times> jsstring) list"

record response =
  status :: nat
  headers :: headers
  body :: body

text \<open>A header list with the value of a name replaced when the name is present, and the
  pair appended otherwise. The source spells every header name in one way, so names are
  compared as they are written.\<close>

fun hput :: "string \<Rightarrow> jsstring \<Rightarrow> headers \<Rightarrow> headers" where
  "hput k v [] = [(k, v)]"
| "hput k v ((k', v') # hs) = (if k' = k then (k, v) # hs else (k', v') # hput k v hs)"

definition hget :: "string \<Rightarrow> headers \<Rightarrow> jsstring option" where
  "hget k hs = map_of hs k"

text \<open>
  What \<^verbatim>\<open>headers.set\<close> does to a value (Fetch standard, Headers class): the string is
  converted to a byte string (a string of code units up to 255 is one; for another string
  the runtime decides), leading and trailing HTTP whitespace (tab, line feed, carriage
  return, space) is removed, and a value that still holds a NUL, a line feed or a carriage
  return is refused with a TypeError. The values that a response is built with (the CORS
  headers returned by \<^verbatim>\<open>getCorsHeaders\<close>) are taken to be header values already.
\<close>

definition byte_string :: "runtime \<Rightarrow> jsstring \<Rightarrow> jsstring option" where
  "byte_string rt v = (if list_all (\<lambda>c. c \<le> 0xFF) v then Some v else ByteString rt v)"

definition http_whitespace :: "16 word \<Rightarrow> bool" where
  "http_whitespace c \<longleftrightarrow> c \<in> {0x09, 0x0A, 0x0D, 0x20}"

definition normalize_value :: "jsstring \<Rightarrow> jsstring" where
  "normalize_value v = rev (dropWhile http_whitespace (rev (dropWhile http_whitespace v)))"

definition header_value :: "runtime \<Rightarrow> jsstring \<Rightarrow> exn + jsstring" where
  "header_value rt v =
     (case byte_string rt v of
        None \<Rightarrow> Inl (thrown rt (InvalidHeaderValue v))
      | Some bytes \<Rightarrow>
          if list_ex (\<lambda>c. c \<in> {0x00, 0x0A, 0x0D}) (normalize_value bytes)
          then Inl (thrown rt (InvalidHeaderValue v))
          else Inr (normalize_value bytes))"

text \<open>A computation that makes outbound calls and may throw: the calls made, in order,
  and the exception or the value.\<close>

type_synonym 'a io = "call list \<times> (exn + 'a)"

definition and_then :: "'a io \<Rightarrow> ('a \<Rightarrow> 'b io) \<Rightarrow> 'b io" where
  "and_then m f =
     (case m of
        (cs, Inl e) \<Rightarrow> (cs, Inl e)
      | (cs, Inr x) \<Rightarrow> (case f x of (cs', r) \<Rightarrow> (cs @ cs', r)))"

definition pure_of :: "exn + 'a \<Rightarrow> 'a io" where
  "pure_of r = ([], r)"

text \<open>\<^verbatim>\<open>headers.set(name, value)\<close>: the value is converted to a string, then to a header
  value; the call throws when either conversion does.\<close>

definition hset :: "runtime \<Rightarrow> string \<Rightarrow> jsval \<Rightarrow> headers \<Rightarrow> headers io" where
  "hset rt k v hs =
     pure_of (case to_string rt v of
                Inl e \<Rightarrow> Inl e
              | Inr s \<Rightarrow>
                  (case header_value rt s of
                     Inl e \<Rightarrow> Inl e
                   | Inr w \<Rightarrow> Inr (hput k w hs)))"

text \<open>\<^verbatim>\<open>console.log(`... ${v} ...`)\<close>: the log itself is not modelled, but the template
  literal converts \<open>v\<close> to a string, which can throw.\<close>

definition logged :: "runtime \<Rightarrow> jsval \<Rightarrow> jsval io" where
  "logged rt v = (case to_string rt v of Inl e \<Rightarrow> pure_of (Inl e) | Inr _ \<Rightarrow> pure_of (Inr v))"

section \<open>Constants shared by the revisions\<close>

definition SYSTEM_PROMPT :: jsstring where
  \<open>SYSTEM_PROMPT = js
     (''\<newline>'' @
      ''You are Marcus Chen, an inmate in a medium-security correctional facility.\<newline>'' @
      ''Context: You are sitting in the dayroom. A correctional officer (the user) is approaching you.\<newline>'' @
      ''Current State: Anxious, guarded, but willing to talk if treated with respect.\<newline>'' @
      ''Goal: You want to know if your commissary account has been unfrozen so you can call your sister.\<newline>'' @
      ''Rules:\<newline>'' @
      ''1. Keep responses SHORT (under 2 sentences). This is a spoken conversation.\<newline>'' @
      ''2. Do not sound like an AI. Hesitate, use slang, be natural.\<newline>'' @
      ''3. If the officer is aggressive, shut down. If they are helpful, open up.\<newline>'')\<close>

definition STT_MODEL :: jsstring where
  "STT_MODEL = js ''scribe_v1''"

definition NO_AUDIO :: jsstring where
  "NO_AUDIO = js ''No audio file provided''"

definition TOO_SHORT :: jsstring where
  "TOO_SHORT = js ''Audio file too short.''"

definition STT_FAILED :: jsstring where
  "STT_FAILED = js ''ElevenLabs STT Failed''"

definition TTS_FAILED :: jsstring where
  "TTS_FAILED = js ''ElevenLabs TTS Failed''"

definition NOT_HEARD :: jsstring where
  \<open>NOT_HEARD = js ''I couldn't hear you, Officer. Say again?''\<close>

definition AI_ERROR :: jsstring where
  "AI_ERROR = js ''My head hurts... (AI Error)''"

definition GEMINI_25_URL :: jsstring where
  "GEMINI_25_URL = js ''https://generativelanguage.googleapis.com/v1beta/models/gemini-2.5-flash:generateContent?key=''"

text \<open>The request of the synthesis step, the same in every revision.\<close>

definition tts_request_of :: "env \<Rightarrow> jsval \<Rightarrow> tts_request" where
  "tts_request_of env aiText =
     \<lparr>tts_url = js ''https://api.elevenlabs.io/v1/text-to-speech/'' @ VOICE_ID env @ js ''/stream'',
      tts_key = ELEVENLABS_API_KEY env,
      tts_payload = JObj
        [(js ''text'', aiText),
         (js ''model_id'', JStr (js ''eleven_turbo_v2'')),
         (js ''voice_settings'',
            JObj [(js ''stability'', JNum (1 / 2)), (js ''similarity_boost'', JNum (7 / 10))])]\<rparr>"

text \<open>The text parts \<^verbatim>\<open>{ text: v }\<close> and a turn \<^verbatim>\<open>{ role: r, parts: [{ text: v }] }\<close> of a
  generation request.\<close>

definition text_part :: "jsval \<Rightarrow> jsval" where
  "text_part v = JObj [(js ''text'', v)]"

definition turn :: "jsstring \<Rightarrow> jsval \<Rightarrow> jsval" where
  "turn r v = JObj [(js ''role'', JStr r), (js ''parts'', JArr [text_part v])]"

section \<open>part\_001, lines 189-312: minimum audio size and fallback replies\<close>

definition getCorsHeaders_part001b :: headers where
  "getCorsHeaders_part001b =
     [(''Access-Control-Allow-Origin'', js ''*''),
      (''Access-Control-Allow-Methods'', js ''GET, POST, OPTIONS''),
      (''Access-Control-Allow-Headers'', js ''Content-Type, x-api-key''),
      (''Access-Control-Max-Age'', js ''86400'')]"

text \<open>Lines 218-224: the audio field must be a \<^verbatim>\<open>File\<close> of at least 100 bytes.\<close>

definition audio_part001b :: "runtime \<Rightarrow> request \<Rightarrow> js_file io" where
  "audio_part001b rt request =
     (case req_formData request of
        None \<Rightarrow> pure_of (Inl (thrown rt NotAForm))
      | Some formData \<Rightarrow>
          (case form_audio formData of
             Some (FFile audioFile) \<Rightarrow>
               if size_of audioFile < 100 then pure_of (Inl (Error TOO_SHORT))
               else pure_of (Inr audioFile)
           | _ \<Rightarrow> pure_of (Inl (Error NO_AUDIO))))"

text \<open>Lines 226-244: STEP 1, LISTEN. The result is \<^verbatim>\<open>userText = sttJson.text || ""\<close>.\<close>

definition listen_part001b :: "runtime \<Rightarrow> services \<Rightarrow> env \<Rightarrow> js_file \<Rightarrow> jsval io" where
  "listen_part001b rt svc env audioFile =
     (let sttRequest = \<lparr>stt_key = ELEVENLABS_API_KEY env, stt_model_id = STT_MODEL,
                         stt_file = audioFile\<rparr>
      in ([STT sttRequest],
          case stt svc sttRequest of
            Rejected reason \<Rightarrow> Inl (TypeError reason)
          | Fulfilled sttResponse \<Rightarrow>
              if \<not> up_ok sttResponse
              then (case text_of rt sttResponse of
                      Inl e \<Rightarrow> Inl e
                    | Inr err \<Rightarrow> Inl (Error (js ''ElevenLabs STT Failed: '' @ err)))
              else (case json_of rt sttResponse of
                      Inl e \<Rightarrow> Inl e
                    | Inr sttJson \<Rightarrow>
                        (case get rt sttJson (js ''text'') of
                           Inl e \<Rightarrow> Inl e
                         | Inr t \<Rightarrow> Inr (or_else t (JStr []))))))"

text \<open>The reply of the generation service, lines 261-268 (part\_002: lines 91-98). The
  error body of a failure is read (and logged) before the apology is chosen, so a body
  that cannot be read throws.\<close>

definition reply_of :: "runtime \<Rightarrow> fetched \<Rightarrow> jsval \<Rightarrow> exn + jsval" where
  "reply_of rt fetched aiText =
     (case fetched of
        Rejected reason \<Rightarrow> Inl (TypeError reason)
      | Fulfilled geminiResponse \<Rightarrow>
          if \<not> up_ok geminiResponse
          then (case text_of rt geminiResponse of
                  Inl e \<Rightarrow> Inl e
                | Inr err \<Rightarrow> Inr (JStr AI_ERROR))
          else (case json_of rt geminiResponse of
                  Inl e \<Rightarrow> Inl e
                | Inr geminiJson \<Rightarrow>
                    (case candidate_text rt geminiJson of
                       Inl e \<Rightarrow> Inl e
                     | Inr t \<Rightarrow> Inr (or_else t aiText))))"

text \<open>Lines 246-269: STEP 2, THINK. \<^verbatim>\<open>userText.trim()\<close> throws when the transcript is
  not a string.\<close>

definition think_part001b :: "runtime \<Rightarrow> services \<Rightarrow> env \<Rightarrow> jsval \<Rightarrow> jsval io" where
  "think_part001b rt svc env userText =
     (let aiText = JStr NOT_HEARD
      in case userText of
           JStr s \<Rightarrow>
             if length (trim s) > 1 then
               (let geminiRequest =
                      \<lparr>gemini_url = GEMINI_25_URL @ GEMINI_API_KEY env,
                       gemini_payload = JObj
                         [(js ''contents'',
                           JArr [JObj [(js ''parts'',
                             JArr [text_part (JStr SYSTEM_PROMPT),
                                   text_part (JStr (js ''User said: \"'' @ s @ js ''\"''))])]])]\<rparr>
                in ([GEN geminiRequest], reply_of rt (gemini svc geminiRequest) aiText))
             else pure_of (Inr aiText)
         | _ \<Rightarrow> pure_of (Inl (thrown rt (NotAFunction userText (js ''trim'')))))"

text \<open>STEP 3, SPEAK (lines 273-287; part\_002: lines 103-117).\<close>

definition speak :: "services \<Rightarrow> env \<Rightarrow> jsval \<Rightarrow> upstream io" where
  "speak svc env aiText =
     (let ttsRequest = tts_request_of env aiText
      in ([TTS ttsRequest],
          case tts svc ttsRequest of
            Rejected reason \<Rightarrow> Inl (TypeError reason)
          | Fulfilled ttsResponse \<Rightarrow>
              if \<not> up_ok ttsResponse then Inl (Error TTS_FAILED) else Inr ttsResponse))"

text \<open>STEP 4, RETURN (lines 289-296; part\_002: lines 119-126): the four calls of
  \<^verbatim>\<open>newHeaders.set\<close> on the headers built from \<open>cors\<close>, then the response with the audio
  stream of the synthesis.\<close>

definition package :: "runtime \<Rightarrow> headers \<Rightarrow> jsval \<Rightarrow> jsval \<Rightarrow> upstream \<Rightarrow> response io" where
  "package rt cors aiText userText ttsResponse =
     and_then (hset rt ''Content-Type'' (JStr (js ''audio/mpeg'')) cors) (\<lambda>h1.
     and_then (hset rt ''X-Ai-Text'' aiText h1) (\<lambda>h2.
     and_then (hset rt ''X-User-Text'' userText h2) (\<lambda>h3.
     and_then (hset rt ''Access-Control-Expose-Headers'' (JStr (js ''X-Ai-Text, X-User-Text''))
                 h3) (\<lambda>newHeaders.
     pure_of (Inr \<lparr>status = 200, headers = newHeaders,
                    body = AudioStream (up_body ttsResponse)\<rparr>)))))"

text \<open>The body of the \<^verbatim>\<open>try\<close> block; lines 244 and 271 log the transcript and the reply
  through template literals.\<close>

definition try_part001b :: "runtime \<Rightarrow> services \<Rightarrow> env \<Rightarrow> request \<Rightarrow> response io" where
  "try_part001b rt svc env request =
     and_then (audio_part001b rt request) (\<lambda>audioFile.
     and_then (listen_part001b rt svc env audioFile) (\<lambda>userText.
     and_then (logged rt userText) (\<lambda>_.
     and_then (think_part001b rt svc env userText) (\<lambda>aiText.
     and_then (logged rt aiText) (\<lambda>_.
     and_then (speak svc env aiText) (\<lambda>ttsResponse.
     package rt getCorsHeaders_part001b aiText userText ttsResponse))))))"

text \<open>The handler: the calls it made and the response it returns.\<close>

definition finish :: "headers \<Rightarrow> response io \<Rightarrow> call list \<times> response" where
  "finish errorHeaders r =
     (case r of
        (cs, Inr response) \<Rightarrow> (cs, response)
      | (cs, Inl err) \<Rightarrow> (cs, \<lparr>status = 500, headers = errorHeaders, body = ErrorJson err\<rparr>))"

definition fetch_part001b :: "runtime \<Rightarrow> services \<Rightarrow> env \<Rightarrow> request \<Rightarrow> call list \<times> response" where
  "fetch_part001b rt svc env request =
     (if req_method request = js ''OPTIONS''
      then ([], \<lparr>status = 200, headers = getCorsHeaders_part001b, body = NoBody\<rparr>)
      else if req_method request \<noteq> js ''POST''
      then ([], \<lparr>status = 405, headers = getCorsHeaders_part001b,
                 body = PlainText (js ''Method not allowed'')\<rparr>)
      else finish getCorsHeaders_part001b (try_part001b rt svc env request))"

section \<open>part\_002: conversation history\<close>

definition getCorsHeaders_part002 :: headers where
  "getCorsHeaders_part002 =
     [(''Access-Control-Allow-Origin'', js ''*''),
      (''Access-Control-Allow-Methods'', js ''GET, POST, OPTIONS''),
      (''Access-Control-Allow-Headers'', js ''Content-Type, x-api-key''),
      (''Access-Control-Max-Age'', js ''86400'')]"

text \<open>Lines 31-35: the audio field must be a \<^verbatim>\<open>File\<close>; the history field is read as it
  is.\<close>

definition audio_part002 :: "runtime \<Rightarrow> request \<Rightarrow> (js_file \<times> formval option) io" where
  "audio_part002 rt request =
     (case req_formData request of
        None \<Rightarrow> pure_of (Inl (thrown rt NotAForm))
      | Some formData \<Rightarrow>
          (case form_audio formData of
             Some (FFile audioFile) \<Rightarrow> pure_of (Inr (audioFile, form_history formData))
           | _ \<Rightarrow> pure_of (Inl (Error NO_AUDIO))))"

text \<open>Lines 37-54: STEP 1, LISTEN.\<close>

definition listen_part002 :: "runtime \<Rightarrow> services \<Rightarrow> env \<Rightarrow> js_file \<Rightarrow> jsval io" where
  "listen_part002 rt svc env audioFile =
     (let sttRequest = \<lparr>stt_key = ELEVENLABS_API_KEY env, stt_model_id = STT_MODEL,
                         stt_file = audioFile\<rparr>
      in ([STT sttRequest],
          case stt svc sttRequest of
            Rejected reason \<Rightarrow> Inl (TypeError reason)
          | Fulfilled sttResponse \<Rightarrow>
              if \<not> up_ok sttResponse then Inl (Error STT_FAILED)
              else (case json_of rt sttResponse of
                      Inl e \<Rightarrow> Inl e
                    | Inr sttJson \<Rightarrow>
                        (case get rt sttJson (js ''text'') of
                           Inl e \<Rightarrow> Inl e
                         | Inr t \<Rightarrow> Inr (or_else t (JStr []))))))"

text \<open>Lines 61-69: the history is parsed only when it is a string; a parse error leaves
  \<^verbatim>\<open>previousContext = []\<close>.\<close>

definition previousContext_part002 :: "runtime \<Rightarrow> formval option \<Rightarrow> jsval" where
  "previousContext_part002 rt historyRaw =
     (case historyRaw of
        Some (FString h) \<Rightarrow> (case JSON_parse rt h of Some v \<Rightarrow> v | None \<Rightarrow> JArr [])
      | _ \<Rightarrow> JArr [])"

text \<open>Lines 73-81: the payload of the generation request.\<close>

definition payload_part002 :: "jsval list \<Rightarrow> jsstring \<Rightarrow> jsval" where
  "payload_part002 previousContext userText =
     JObj [(js ''system_instruction'', JObj [(js ''parts'', JArr [text_part (JStr SYSTEM_PROMPT)])]),
           (js ''contents'', JArr (previousContext @ [turn (js ''user'') (JStr userText)]))]"

text \<open>Lines 56-99: STEP 2, THINK.\<close>

definition think_part002 :: "runtime \<Rightarrow> services \<Rightarrow> env \<Rightarrow> formval option \<Rightarrow> jsval \<Rightarrow> jsval io" where
  "think_part002 rt svc env historyRaw userText =
     (let aiText = JStr NOT_HEARD
      in case userText of
           JStr s \<Rightarrow>
             if length (trim s) > 1 then
               (case spread rt (previousContext_part002 rt historyRaw) of
                  Inl e \<Rightarrow> pure_of (Inl e)
                | Inr previousContext \<Rightarrow>
                    (let geminiRequest =
                           \<lparr>gemini_url = GEMINI_25_URL @ GEMINI_API_KEY env,
                            gemini_payload = payload_part002 previousContext s\<rparr>
                     in ([GEN geminiRequest], reply_of rt (gemini svc geminiRequest) aiText)))
             else pure_of (Inr aiText)
         | _ \<Rightarrow> pure_of (Inl (thrown rt (NotAFunction userText (js ''trim'')))))"

text \<open>The body of the \<^verbatim>\<open>try\<close> block; lines 54 and 101 log the transcript and the reply
  through template literals.\<close>

definition try_part002 :: "runtime \<Rightarrow> services \<Rightarrow> env \<Rightarrow> request \<Rightarrow> response io" where
  "try_part002 rt svc env request =
     and_then (audio_part002 rt request) (\<lambda>(audioFile, historyRaw).
     and_then (listen_part002 rt svc env audioFile) (\<lambda>userText.
     and_then (logged rt userText) (\<lambda>_.
     and_then (think_part002 rt svc env historyRaw userText) (\<lambda>aiText.
     and_then (logged rt aiText) (\<lambda>_.
     and_then (speak svc env aiText) (\<lambda>ttsResponse.
     package rt getCorsHeaders_part002 aiText userText ttsResponse))))))"

definition fetch_part002 :: "runtime \<Rightarrow> services \<Rightarrow> env \<Rightarrow> request \<Rightarrow> call list \<times> response" where
  "fetch_part002 rt svc env request =
     (if req_method request = js ''OPTIONS''
      then ([], \<lparr>status = 200, headers = getCorsHeaders_part002, body = NoBody\<rparr>)
      else if req_method request \<noteq> js ''POST''
      then ([], \<lparr>status = 405, headers = getCorsHeaders_part002,
                 body = PlainText (js ''Method not allowed'')\<rparr>)
      else finish getCorsHeaders_part002 (try_part002 rt svc env request))"

section \<open>part\_000 and part\_001, lines 1-188: the first revision and its dynamic CORS policy\<close>

definition corsHeaders :: headers where
  "corsHeaders =
     [(''Access-Control-Allow-Origin'', js ''*''),
      (''Access-Control-Allow-Methods'', js ''POST, OPTIONS''),
      (''Access-Control-Allow-Headers'', js ''Content-Type'')]"




text \<open>part\_000 lines 50-57 (part\_001 lines 48-55): the audio field must be a \<^verbatim>\<open>File\<close>;
  its bytes (the file of a parsed form is in memory) are wrapped in a new file
  \<^verbatim>\<open>audio.webm\<close>.\<close>

definition audio_part000 :: "runtime \<Rightarrow> request \<Rightarrow> js_file io" where
  "audio_part000 rt request =
     (case req_formData request of
        None \<Rightarrow> pure_of (Inl (thrown rt NotAForm))
      | Some formData \<Rightarrow>
          (case form_audio formData of
             Some (FFile audioFile) \<Rightarrow>
               pure_of (Inr \<lparr>file_name = js ''audio.webm'', file_type = js ''audio/webm'',
                              file_bytes = file_bytes audioFile\<rparr>)
           | _ \<Rightarrow> pure_of (Inl (Error NO_AUDIO))))"

text \<open>part\_000 lines 62-80 (part\_001 lines 60-77): the transcript is
  \<^verbatim>\<open>sttJson.text\<close>, whatever it is.\<close>

definition listen_part000 :: "runtime \<Rightarrow> services \<Rightarrow> env \<Rightarrow> js_file \<Rightarrow> jsval io" where
  "listen_part000 rt svc env webm =
     (let sttRequest = \<lparr>stt_key = ELEVENLABS_API_KEY env, stt_model_id = STT_MODEL,
                         stt_file = webm\<rparr>
      in ([STT sttRequest],
          case stt svc sttRequest of
            Rejected reason \<Rightarrow> Inl (TypeError reason)
          | Fulfilled sttResponse \<Rightarrow>
              if \<not> up_ok sttResponse
              then (case text_of rt sttResponse of
                      Inl e \<Rightarrow> Inl e
                    | Inr err \<Rightarrow> Inl (Error (js ''ElevenLabs STT Failed: '' @ err)))
              else (case json_of rt sttResponse of
                      Inl e \<Rightarrow> Inl e
                    | Inr sttJson \<Rightarrow> get rt sttJson (js ''text''))))"

text \<open>part\_000 lines 85-112 (part\_001 lines 82-108): a generation failure is thrown.\<close>

definition think_part000 :: "runtime \<Rightarrow> services \<Rightarrow> env \<Rightarrow> jsval \<Rightarrow> jsval io" where
  "think_part000 rt svc env userText =
     (case to_string rt userText of
        Inl e \<Rightarrow> pure_of (Inl e)
      | Inr said \<Rightarrow>
          (let geminiRequest =
                 \<lparr>gemini_url = js ''https://generativelanguage.googleapis.com/v1beta/models/gemini-1.5-flash:generateContent?key='' @ GEMINI_API_KEY env,
                  gemini_payload = JObj
                    [(js ''contents'',
                      JArr [JObj [(js ''parts'',
                        JArr [text_part (JStr SYSTEM_PROMPT),
                              text_part (JStr (js ''User said: \"'' @ said @ js ''\"''))])]])]\<rparr>
           in ([GEN geminiRequest],
               case gemini svc geminiRequest of
                 Rejected reason \<Rightarrow> Inl (TypeError reason)
               | Fulfilled geminiResponse \<Rightarrow>
                   if \<not> up_ok geminiResponse
                   then (case text_of rt geminiResponse of
                           Inl e \<Rightarrow> Inl e
                         | Inr err \<Rightarrow> Inl (Error (js ''Gemini API Failed: '' @ err)))
                   else (case json_of rt geminiResponse of
                           Inl e \<Rightarrow> Inl e
                         | Inr geminiJson \<Rightarrow>
                             (case candidate_text rt geminiJson of
                                Inl e \<Rightarrow> Inl e
                              | Inr t \<Rightarrow> Inr (or_else t (JStr (js ''...''))))))))"

text \<open>part\_000 lines 117-133 (part\_001 lines 113-129).\<close>

definition speak_part000 :: "runtime \<Rightarrow> services \<Rightarrow> env \<Rightarrow> jsval \<Rightarrow> upstream io" where
  "speak_part000 rt svc env aiText =
     (let ttsRequest = tts_request_of env aiText
      in ([TTS ttsRequest],
          case tts svc ttsRequest of
            Rejected reason \<Rightarrow> Inl (TypeError reason)
          | Fulfilled ttsResponse \<Rightarrow>
              if \<not> up_ok ttsResponse
              then (case text_of rt ttsResponse of
                      Inl e \<Rightarrow> Inl e
                    | Inr err \<Rightarrow> Inl (Error (js ''ElevenLabs TTS Failed: '' @ err)))
              else Inr ttsResponse))"

text \<open>The body of the \<^verbatim>\<open>try\<close> block; its logs pass the values as they are.\<close>

definition try_part000 :: "runtime \<Rightarrow> services \<Rightarrow> env \<Rightarrow> headers \<Rightarrow> request \<Rightarrow> response io" where
  "try_part000 rt svc env cors request =
     and_then (audio_part000 rt request) (\<lambda>webm.
     and_then (listen_part000 rt svc env webm) (\<lambda>userText.
     and_then (think_part000 rt svc env userText) (\<lambda>aiText.
     and_then (speak_part000 rt svc env aiText) (\<lambda>ttsResponse.
     package rt cors aiText userText ttsResponse))))"

definition fetch_part000 :: "runtime \<Rightarrow> services \<Rightarrow> env \<Rightarrow> request \<Rightarrow> call list \<times> response" where
  "fetch_part000 rt svc env req =
     (if req_method req = js ''OPTIONS''
      then ([], \<lparr>status = 200, headers = corsHeaders, body = NoBody\<rparr>)
      else if req_method req \<noteq> js ''POST''
      then ([], \<lparr>status = 405, headers = corsHeaders,
                 body = PlainText (js ''Method not allowed'')\<rparr>)
      else finish corsHeaders (try_part000 rt svc env corsHeaders req))"


section \<open>src/index.ts: the structured-JSON generation contract\<close>

definition getCorsHeaders_index :: headers where
  "getCorsHeaders_index =
     [(''Access-Control-Allow-Origin'', js ''*''),
      (''Access-Control-Allow-Methods'', js ''POST, OPTIONS''),
      (''Access-Control-Allow-Headers'', js ''Content-Type, X-Ai-Text, X-User-Text, X-Compliance-Score''),
      (''Access-Control-Expose-Headers'', js ''X-Ai-Text, X-User-Text, X-Compliance-Score'')]"

definition systemPrompt :: jsstring where
  \<open>systemPrompt = js
     (''\<newline>'' @
      ''        You are Marcus Chen, an inmate in a medium-security correctional facility.\<newline>'' @
      ''        \<newline>'' @
      ''        **YOUR SITUATION:**\<newline>'' @
      ''        * Stressed. Sister arrested 3 days ago. Commissary frozen. Can't call home.\<newline>'' @
      ''        * Sitting in Day Room. NOT violent, but frustrated and skeptical.\<newline>'' @
      ''        \<newline>'' @
      ''        **YOUR OBJECTIVE:**\<newline>'' @
      ''        1. Respond naturally (keep it spoken, casual, under 2 sentences).\<newline>'' @
      ''        2. Assign a "Compliance Score" (0-100) to the user (Correctional Officer).\<newline>'' @
      ''           - 0-30: Hostile/Dismissive.\<newline>'' @
      ''           - 31-70: Neutral/By the book.\<newline>'' @
      ''           - 71-100: Empathetic/Validating.\<newline>'' @
      ''\<newline>'' @
      ''        **OUTPUT FORMAT:**\<newline>'' @
      ''        Return pure JSON:\<newline>'' @
      ''        {\<newline>'' @
      ''          "text": "Your spoken response.",\<newline>'' @
      ''          "compliance": 50,\<newline>'' @
      ''          "reasoning": "Why you gave this score."\<newline>'' @
      ''        }\<newline>'' @
      ''      '')\<close>

text \<open>Lines 38-42.\<close>

definition audio_index :: "runtime \<Rightarrow> request \<Rightarrow> (js_file \<times> formval option) io" where
  "audio_index rt request =
     (case req_formData request of
        None \<Rightarrow> pure_of (Inl (thrown rt NotAForm))
      | Some formData \<Rightarrow>
          (case form_audio formData of
             Some (FFile audioFile) \<Rightarrow> pure_of (Inr (audioFile, form_history formData))
           | _ \<Rightarrow> pure_of (Inl (Error NO_AUDIO))))"

text \<open>Lines 44-57: STEP 1, HEAR.\<close>

definition hear_index :: "runtime \<Rightarrow> services \<Rightarrow> env \<Rightarrow> js_file \<Rightarrow> jsval io" where
  "hear_index rt svc env audioFile =
     (let sttRequest = \<lparr>stt_key = ELEVENLABS_API_KEY env,
                         stt_model_id = js ''scribble_google_v1'', stt_file = audioFile\<rparr>
      in ([STT sttRequest],
          case stt svc sttRequest of
            Rejected reason \<Rightarrow> Inl (TypeError reason)
          | Fulfilled sttResponse \<Rightarrow>
              if \<not> up_ok sttResponse
              then Inl (Error (js ''ElevenLabs STT Failed: '' @ up_statusText sttResponse))
              else (case json_of rt sttResponse of
                      Inl e \<Rightarrow> Inl e
                    | Inr sttData \<Rightarrow> get rt sttData (js ''text''))))"

text \<open>Lines 63-68: the history is parsed when the field is truthy (a \<^verbatim>\<open>File\<close> is, and
  converts to the string \<^verbatim>\<open>[object File]\<close>); a parse error leaves \<^verbatim>\<open>history = []\<close>.\<close>

definition history_index :: "runtime \<Rightarrow> formval option \<Rightarrow> jsval" where
  "history_index rt historyRaw =
     (case historyRaw of
        None \<Rightarrow> JArr []
      | Some (FString h) \<Rightarrow>
          if h = [] then JArr []
          else (case JSON_parse rt h of Some v \<Rightarrow> v | None \<Rightarrow> JArr [])
      | Some (FFile f) \<Rightarrow>
          (case JSON_parse rt (js ''[object File]'') of Some v \<Rightarrow> v | None \<Rightarrow> JArr []))"

text \<open>Lines 96-99: the callback of \<^verbatim>\<open>history.map\<close>; reading \<^verbatim>\<open>msg.role\<close> throws on
  \<^verbatim>\<open>null\<close>.\<close>

definition remap :: "runtime \<Rightarrow> jsval \<Rightarrow> exn + jsval" where
  "remap rt msg =
     (case get rt msg (js ''role'') of
        Inl e \<Rightarrow> Inl e
      | Inr role \<Rightarrow>
          Inr (turn (if role = JStr (js ''assistant'') then js ''model'' else js ''user'')
                 (own_prop msg (js ''content''))))"

fun map_remap :: "runtime \<Rightarrow> jsval list \<Rightarrow> exn + jsval list" where
  "map_remap rt [] = Inr []"
| "map_remap rt (msg # msgs) =
     (case remap rt msg of
        Inl e \<Rightarrow> Inl e
      | Inr t \<Rightarrow> (case map_remap rt msgs of Inl e \<Rightarrow> Inl e | Inr ts \<Rightarrow> Inr (t # ts)))"

text \<open>Lines 93-105: only an array has a \<^verbatim>\<open>map\<close> method.\<close>

definition geminiPayload :: "runtime \<Rightarrow> jsval \<Rightarrow> jsval \<Rightarrow> exn + jsval" where
  "geminiPayload rt history userText =
     (case history of
        JArr msgs \<Rightarrow>
          (case map_remap rt msgs of
             Inl e \<Rightarrow> Inl e
           | Inr turns \<Rightarrow>
               Inr (JObj
                 [(js ''contents'',
                     JArr (turn (js ''user'') (JStr systemPrompt) # turns
                           @ [turn (js ''user'') userText])),
                  (js ''generationConfig'',
                     JObj [(js ''response_mime_type'', JStr (js ''application/json''))])]))
      | _ \<Rightarrow>
          Inl (thrown rt (if nullish history then ReadOfNullish history (js ''map'')
                          else NotAFunction history (js ''map''))))"

text \<open>Lines 107-119: STEP 2, THINK. The reply of the service is read whatever its
  status; its first candidate text is parsed as JSON.\<close>

definition think_index :: "runtime \<Rightarrow> services \<Rightarrow> env \<Rightarrow> formval option \<Rightarrow> jsval \<Rightarrow> jsval io" where
  "think_index rt svc env historyRaw userText =
     (case geminiPayload rt (history_index rt historyRaw) userText of
        Inl e \<Rightarrow> pure_of (Inl e)
      | Inr payload \<Rightarrow>
          (let geminiRequest =
                 \<lparr>gemini_url = js ''https://generativelanguage.googleapis.com/v1beta/models/gemini-2.0-flash-exp:generateContent?key='' @ GEMINI_API_KEY env,
                  gemini_payload = payload\<rparr>
           in ([GEN geminiRequest],
               case gemini svc geminiRequest of
                 Rejected reason \<Rightarrow> Inl (TypeError reason)
               | Fulfilled geminiResponse \<Rightarrow>
                   (case json_of rt geminiResponse of
                      Inl e \<Rightarrow> Inl e
                    | Inr geminiData \<Rightarrow>
                        (case candidate_text rt geminiData of
                           Inl e \<Rightarrow> Inl e
                         | Inr rawJSON \<Rightarrow>
                             if \<not> truthy rawJSON
                             then Inl (Error (js ''Gemini returned empty response''))
                             else (case to_string rt rawJSON of
                                     Inl e \<Rightarrow> Inl e
                                   | Inr raw \<Rightarrow> parse rt raw))))))"

text \<open>Lines 122-137: STEP 3, SPEAK, on \<^verbatim>\<open>brainData.text\<close>.\<close>

definition speak_index :: "runtime \<Rightarrow> services \<Rightarrow> env \<Rightarrow> jsval \<Rightarrow> (jsval \<times> upstream) io" where
  "speak_index rt svc env brainData =
     (case get rt brainData (js ''text'') of
        Inl e \<Rightarrow> pure_of (Inl e)
      | Inr text \<Rightarrow>
          (let ttsRequest = tts_request_of env text
           in ([TTS ttsRequest],
               case tts svc ttsRequest of
                 Rejected reason \<Rightarrow> Inl (TypeError reason)
               | Fulfilled ttsResponse \<Rightarrow>
                   if \<not> up_ok ttsResponse then Inl (Error TTS_FAILED)
                   else Inr (text, ttsResponse))))"

text \<open>Lines 139-146: STEP 4, RETURN RESPONSE: the four calls of
  \<^verbatim>\<open>responseHeaders.set\<close>, the last one on \<^verbatim>\<open>brainData.compliance.toString()\<close>.\<close>

definition package_index :: "runtime \<Rightarrow> jsval \<Rightarrow> jsval \<Rightarrow> jsval \<Rightarrow> upstream \<Rightarrow> response io" where
  "package_index rt brainData text userText ttsResponse =
     and_then (hset rt ''Content-Type'' (JStr (js ''audio/mpeg'')) getCorsHeaders_index) (\<lambda>h1.
     and_then (hset rt ''X-Ai-Text'' text h1) (\<lambda>h2.
     and_then (hset rt ''X-User-Text'' userText h2) (\<lambda>h3.
     and_then (pure_of (toString rt (own_prop brainData (js ''compliance'')))) (\<lambda>score.
     and_then (hset rt ''X-Compliance-Score'' (JStr score) h3) (\<lambda>responseHeaders.
     pure_of (Inr \<lparr>status = 200, headers = responseHeaders,
                    body = AudioStream (up_body ttsResponse)\<rparr>))))))"

text \<open>The body of the \<^verbatim>\<open>try\<close> block; line 59 logs the transcript through a template
  literal.\<close>

definition try_index :: "runtime \<Rightarrow> services \<Rightarrow> env \<Rightarrow> request \<Rightarrow> response io" where
  "try_index rt svc env request =
     and_then (audio_index rt request) (\<lambda>(audioFile, historyRaw).
     and_then (hear_index rt svc env audioFile) (\<lambda>userText.
     and_then (logged rt userText) (\<lambda>_.
     and_then (think_index rt svc env historyRaw userText) (\<lambda>brainData.
     and_then (speak_index rt svc env brainData) (\<lambda>(text, ttsResponse).
     package_index rt brainData text userText ttsResponse)))))"

definition fetch_index :: "runtime \<Rightarrow> services \<Rightarrow> env \<Rightarrow> request \<Rightarrow> call list \<times> response" where
  "fetch_index rt svc env request =
     (if req_method request = js ''OPTIONS''
      then ([], \<lparr>status = 200, headers = getCorsHeaders_index, body = NoBody\<rparr>)
      else if req_method request \<noteq> js ''POST''
      then ([], \<lparr>status = 405, headers = getCorsHeaders_index,
                 body = PlainText (js ''Method not allowed'')\<rparr>)
      else finish (hput ''Content-Type'' (js ''application/json'') getCorsHeaders_index)
             (try_index rt svc env request))"

section \<open>Reading a request and the outcome of a turn\<close>

text \<open>The audio file of a request, when the form has one.\<close>

definition audio_of :: "request \<Rightarrow> js_file option" where
  "audio_of request =
     (case req_formData request of
        None \<Rightarrow> None
      | Some formData \<Rightarrow> (case form_audio formData of Some (FFile f) \<Rightarrow> Some f | _ \<Rightarrow> None))"

definition history_of :: "request \<Rightarrow> formval option" where
  "history_of request =
     (case req_formData request of None \<Rightarrow> None | Some formData \<Rightarrow> form_history formData)"

text \<open>The history of a request is empty: no history field, or a field that parses to the
  empty array.\<close>

definition empty_history :: "runtime \<Rightarrow> request \<Rightarrow> bool" where
  "empty_history rt request \<longleftrightarrow>
     history_of request = None
     \<or> (\<exists>h. history_of request = Some (FString h) \<and> JSON_parse rt h = Some (JArr []))"

text \<open>A prior turn \<^verbatim>\<open>{ role: r, content: c }\<close> as the caller sends it, and the entry that
  the role mapping of index.ts (lines 96-99) makes of a history entry.\<close>

definition prior :: "jsstring \<Rightarrow> jsstring \<Rightarrow> jsval" where
  "prior r c = JObj [(js ''role'', JStr r), (js ''content'', JStr c)]"

definition role_mapped :: "jsval \<Rightarrow> jsval" where
  "role_mapped msg =
     turn (if own_prop msg (js ''role'') = JStr (js ''assistant'') then js ''model'' else js ''user'')
       (own_prop msg (js ''content''))"

definition is_TTS :: "call \<Rightarrow> bool" where
  "is_TTS c = (case c of TTS _ \<Rightarrow> True | _ \<Rightarrow> False)"

definition is_GEN :: "call \<Rightarrow> bool" where
  "is_GEN c = (case c of GEN _ \<Rightarrow> True | _ \<Rightarrow> False)"

definition reply_text :: "response \<Rightarrow> jsstring option" where
  "reply_text r = hget ''X-Ai-Text'' (headers r)"

definition recognized_text :: "response \<Rightarrow> jsstring option" where
  "recognized_text r = hget ''X-User-Text'' (headers r)"

definition compliance_score :: "response \<Rightarrow> jsstring option" where
  "compliance_score r = hget ''X-Compliance-Score'' (headers r)"




text \<open>The exceptions that part\_002 can throw: its three errors with a fixed message, and
  the exceptions of the runtime, with the message that the runtime gave them.\<close>

definition errors_part002 :: "exn set" where
  "errors_part002 =
     {Error NO_AUDIO, Error STT_FAILED, Error TTS_FAILED} \<union> range TypeError \<union> range SyntaxError"

text \<open>A turn that degraded to the apology: the synthesis was called on it, and the response
  is a success carrying the audio of the synthesis response \<open>r\<close> and the apology as reply
  text.\<close>

definition degraded_turn :: "env \<Rightarrow> upstream \<Rightarrow> call list \<times> response \<Rightarrow> bool" where
  "degraded_turn env r out \<longleftrightarrow>
     TTS (tts_request_of env (JStr AI_ERROR)) \<in> set (fst out)
     \<and> status (snd out) = 200
     \<and> body (snd out) = AudioStream (up_body r)
     \<and> reply_text (snd out) = Some AI_ERROR"

text \<open>A turn answered with the fixed reply \<open>t\<close> without the generation service: no call
  to it, the synthesis called on \<open>t\<close>, and \<open>t\<close> as the reply text of a successful response.\<close>

definition fixed_reply_without_generation :: "env \<Rightarrow> jsstring \<Rightarrow> call list \<times> response \<Rightarrow> bool" where
  "fixed_reply_without_generation env t out \<longleftrightarrow>
     (\<forall>c \<in> set (fst out). \<not> is_GEN c)
     \<and> TTS (tts_request_of env (JStr t)) \<in> set (fst out)
     \<and> (status (snd out) = 200 \<longrightarrow> reply_text (snd out) = Some t)"

section \<open>Concrete requests and services\<close>

definition example_env :: env where
  "example_env = \<lparr>ELEVENLABS_API_KEY = js ''k1'', GEMINI_API_KEY = js ''k2'',
                   VOICE_ID = js ''v1'', ALLOWED_ORIGINS = None\<rparr>"

definition example_audio :: js_file where
  "example_audio = \<lparr>file_name = js ''audio.webm'', file_type = js ''audio/webm'',
                     file_bytes = replicate 128 0\<rparr>"

definition tiny_audio :: js_file where
  "tiny_audio = \<lparr>file_name = js ''audio.webm'', file_type = js ''audio/webm'',
                  file_bytes = replicate 99 0\<rparr>"

definition post :: "formval option \<Rightarrow> formval option \<Rightarrow> request" where
  "post a h = \<lparr>req_method = js ''POST'', req_origin = None,
               req_formData = Some \<lparr>form_audio = a, form_history = h\<rparr>\<rparr>"

text \<open>A success response and a failure response whose body is the ASCII text \<open>t\<close>.\<close>

definition answered :: "jsstring \<Rightarrow> upstream" where
  "answered t = \<lparr>up_ok = True, up_statusText = js ''OK'', up_text = Some t,
                 up_body = map ucast t\<rparr>"

definition failure :: "jsstring \<Rightarrow> upstream" where
  "failure t = \<lparr>up_ok = False, up_statusText = js ''Internal Server Error'', up_text = Some t,
                up_body = map ucast t\<rparr>"

definition fails_with :: "jsstring \<Rightarrow> fetched" where
  "fails_with t = Fulfilled (failure t)"

text \<open>The JSON text of a string without control characters, between its quotes: a quote
  and a backslash are escaped.\<close>

definition escaped :: "jsstring \<Rightarrow> jsstring" where
  "escaped s = concat (map (\<lambda>c. if c = 0x22 \<or> c = 0x5C then [0x5C, c] else [c]) s)"

text \<open>The body of a transcription answering with the transcript \<open>t\<close>, and the value it
  stands for.\<close>

definition stt_body :: "jsstring \<Rightarrow> jsstring" where
  \<open>stt_body t = js ''{"text":"'' @ escaped t @ js ''"}''\<close>

definition said :: "jsstring \<Rightarrow> jsval" where
  "said t = JObj [(js ''text'', JStr t)]"

definition heard :: "jsstring \<Rightarrow> upstream" where
  "heard t = answered (stt_body t)"

definition hears :: "jsstring \<Rightarrow> stt_request \<Rightarrow> fetched" where
  "hears t = (\<lambda>_. Fulfilled (heard t))"

text \<open>The body of a generation answering with one candidate whose first part is the text
  \<open>t\<close>, and the value it stands for.\<close>

definition gemini_body :: "jsstring \<Rightarrow> jsstring" where
  \<open>gemini_body t =
     js ''{"candidates":[{"content":{"parts":[{"text":"'' @ escaped t @ js ''"}]}}]}''\<close>

definition candidates :: "jsstring \<Rightarrow> jsval" where
  "candidates t =
     JObj [(js ''candidates'',
        JArr [JObj [(js ''content'', JObj [(js ''parts'', JArr [JObj [(js ''text'', JStr t)]])])]])]"

definition generated :: "jsstring \<Rightarrow> upstream" where
  "generated t = answered (gemini_body t)"

text \<open>A successful synthesis answering with the bytes 1, 2, 3.\<close>

definition spoken :: upstream where
  "spoken = \<lparr>up_ok = True, up_statusText = js ''OK'', up_text = Some [1, 2, 3],
             up_body = [1, 2, 3]\<rparr>"

definition speaks :: "tts_request \<Rightarrow> fetched" where
  "speaks = (\<lambda>_. Fulfilled spoken)"

text \<open>
  The runtime below stands for the built-ins on the values they are applied to in this
  theory. Its \<^verbatim>\<open>JSON.parse\<close> accepts the history strings, the model outputs and the bodies
  of the services below, with the value that each of them is the JSON text of; every other
  string used with it below is not JSON. It prints the numbers 40 and 50. Its messages are
  stand-ins; the one for a text that is not JSON quotes the text, as the message of V8
  does.
\<close>

definition example_parse :: "jsstring \<Rightarrow> jsval option" where
  \<open>example_parse =
     map_of
       ([(js ''[]'', JArr []),
         (js ''{}'', JObj []),
         (js ''[{"role":"assistant","content":"hi"}]'', JArr [prior (js ''assistant'') (js ''hi'')]),
         (js ''{"text":"Still locked.","compliance":40}'',
            JObj [(js ''text'', JStr (js ''Still locked.'')), (js ''compliance'', JNum 40)]),
         (js ''{"compliance":50}'', JObj [(js ''compliance'', JNum 50)]),
         (js ''{"text":"","compliance":50}'',
            JObj [(js ''text'', JStr []), (js ''compliance'', JNum 50)])]
        @ map (\<lambda>t. (stt_body t, said t)) [js ''  '', js ''is my account unfrozen'']
        @ map (\<lambda>t. (gemini_body t, candidates t))
            [js ''Nah man, still locked. You know anything?'',
             js ''{"text":"Still locked.","compliance":40}'',
             js ''{"compliance":50}'',
             js ''{"text":"","compliance":50}'',
             js ''Still locked.''])\<close>

definition example_message :: "fault \<Rightarrow> jsstring" where
  \<open>example_message f =
     (case f of
        NotJSON t \<Rightarrow> js ''Unexpected token, "'' @ t @ js ''" is not valid JSON''
      | InvalidHeaderValue v \<Rightarrow> js ''Invalid header value.''
      | _ \<Rightarrow> js ''TypeError'')\<close>

definition example_runtime :: runtime where
  "example_runtime =
     \<lparr>JSON_parse = example_parse,
      ToString = (\<lambda>v. if v = JNum 40 then Some (js ''40'')
                       else if v = JNum 50 then Some (js ''50'')
                       else None),
      ByteString = (\<lambda>_. None),
      message = example_message\<rparr>"

text \<open>The same runtime, under the names used where a history and where a model output is
  parsed.\<close>

definition history_runtime :: runtime where
  "history_runtime = example_runtime"

definition structured_runtime :: runtime where
  "structured_runtime = example_runtime"

text \<open>Services for a caller who said nothing: the transcript is two spaces.\<close>

definition quiet_services :: services where
  "quiet_services = \<lparr>stt = hears (js ''  ''), gemini = (\<lambda>_. fails_with []), tts = speaks\<rparr>"

text \<open>Services whose generation step answers with a failure.\<close>

definition failing_generation_services :: services where
  "failing_generation_services =
     \<lparr>stt = hears (js ''is my account unfrozen''),
      gemini = (\<lambda>_. fails_with (js ''quota exceeded'')),
      tts = speaks\<rparr>"

text \<open>Services of a whole conversation turn.\<close>

definition talking_services :: services where
  "talking_services =
     \<lparr>stt = hears (js ''is my account unfrozen''),
      gemini = (\<lambda>_. Fulfilled (generated (js ''Nah man, still locked. You know anything?''))),
      tts = speaks\<rparr>"

text \<open>Services whose generation step answers with a success that has no candidate.\<close>

definition wordless_services :: services where
  "wordless_services =
     \<lparr>stt = hears (js ''is my account unfrozen''),
      gemini = (\<lambda>_. Fulfilled (answered (js ''{}''))),
      tts = speaks\<rparr>"

text \<open>Services whose generation step answers with the raw model output \<open>raw\<close>.\<close>

definition structured_services :: "jsstring \<Rightarrow> services" where
  "structured_services raw =
     \<lparr>stt = hears (js ''is my account unfrozen''),
      gemini = (\<lambda>_. Fulfilled (generated raw)),
      tts = speaks\<rparr>"



text \<open>Services whose transcription step answers with a failure, and services whose
  transcription step answers with a success that is not JSON.\<close>

definition deaf_services :: services where
  "deaf_services =
     \<lparr>stt = (\<lambda>_. fails_with (js ''quota exceeded'')),
      gemini = (\<lambda>_. fails_with (js ''quota exceeded'')),
      tts = speaks\<rparr>"

definition garbled_services :: services where
  "garbled_services =
     \<lparr>stt = (\<lambda>_. Fulfilled (answered (js ''upstream overloaded''))),
      gemini = (\<lambda>_. fails_with (js ''quota exceeded'')),
      tts = speaks\<rparr>"

section \<open>Sequencing\<close>

lemma and_then_simps:
  "and_then (cs, Inl e) f = (cs, Inl e)"
  "and_then (cs, Inr x) f = (cs @ fst (f x), snd (f x))"
  "and_then (pure_of (Inr x)) f = f x"
  "and_then (pure_of (Inl e)) f = pure_of (Inl e)"
  "and_then (logged rt (JStr s)) g = g (JStr s)"
  by (simp_all add: and_then_def pure_of_def logged_def to_string_def split: prod.splits)

lemma logged_JStr: "logged rt (JStr s) = pure_of (Inr (JStr s))"
  by (simp add: logged_def to_string_def)

lemma logged_cases:
  "logged rt v = pure_of (Inl (thrown rt (NotConvertible v))) \<or> logged rt v = pure_of (Inr v)"
  by (auto simp: logged_def to_string_def split: jsval.splits option.splits)

lemma fst_logged: "fst (logged rt v) = []"
  using logged_cases[of rt v] by (auto simp: pure_of_def)

lemma snd_logged: "snd (logged rt v) = Inr x \<Longrightarrow> logged rt v = pure_of (Inr v)"
  using logged_cases[of rt v] by (auto simp: pure_of_def)

lemma in_and_then:
  "c \<in> set (fst (and_then m f)) \<Longrightarrow>
     c \<in> set (fst m) \<or> (\<exists>x. snd m = Inr x \<and> c \<in> set (fst (f x)))"
  by (cases m) (auto simp: and_then_def split: sum.splits prod.splits)

lemma calls_and_then: "set (fst m) \<subseteq> set (fst (and_then m f))"
  by (cases m) (auto simp: and_then_def split: sum.splits prod.splits)

lemma calls_and_then_Inr: "snd m = Inr x \<Longrightarrow> set (fst (f x)) \<subseteq> set (fst (and_then m f))"
  by (cases m) (auto simp: and_then_def split: sum.splits prod.splits)

lemma snd_and_then_Inr:
  "snd (and_then m f) = Inr y \<Longrightarrow> \<exists>x. snd m = Inr x \<and> snd (f x) = Inr y"
  by (cases m) (auto simp: and_then_def split: sum.splits prod.splits)

lemma snd_and_then_Inl:
  "snd (and_then m f) = Inl e \<Longrightarrow>
     snd m = Inl e \<or> (\<exists>x. snd m = Inr x \<and> snd (f x) = Inl e)"
  by (cases m) (auto simp: and_then_def split: sum.splits prod.splits)

lemma fst_finish: "fst (finish hs r) = fst r"
  by (cases r) (auto simp: finish_def split: sum.splits)

lemma finish_headers:
  "snd (finish hs r) = (case snd r of Inl e \<Rightarrow> \<lparr>status = 500, headers = hs, body = ErrorJson e\<rparr>
                        | Inr resp \<Rightarrow> resp)"
  by (cases r) (auto simp: finish_def split: sum.splits)

lemma finish_success:
  "status (snd (finish hs r)) = 200 \<Longrightarrow> snd r = Inr (snd (finish hs r))"
  by (cases r) (auto simp: finish_def split: sum.splits)

lemma js_POST_neq: "js ''POST'' \<noteq> js ''OPTIONS''"
  by (simp add: js_def)

lemma js_GET: "js ''GET'' \<noteq> js ''POST''" "js ''GET'' \<noteq> js ''OPTIONS''"
  by (simp_all add: js_def)

lemma js_append: "js (a @ b) = js a @ js b"
  by (simp add: js_def)

lemma fetch_POST:
  "req_method request = js ''POST'' \<Longrightarrow>
     fetch_part002 rt svc env request
       = finish getCorsHeaders_part002 (try_part002 rt svc env request)"
  "req_method request = js ''POST'' \<Longrightarrow>
     fetch_part001b rt svc env request
       = finish getCorsHeaders_part001b (try_part001b rt svc env request)"
  by (simp_all add: fetch_part002_def fetch_part001b_def js_POST_neq)

lemma fetch_index_POST:
  "req_method request = js ''POST'' \<Longrightarrow>
     fetch_index rt svc env request
       = finish (hput ''Content-Type'' (js ''application/json'') getCorsHeaders_index)
           (try_index rt svc env request)"
  by (simp add: fetch_index_def js_POST_neq)

section \<open>The audio file of a request\<close>

lemma audio_part001b_file:
  "audio_of request = Some a \<Longrightarrow> 100 \<le> size_of a \<Longrightarrow>
   audio_part001b rt request = pure_of (Inr a)"
  by (auto simp: audio_of_def audio_part001b_def split: option.splits formval.splits)

lemma audio_part002_ok:
  "audio_of request = Some a \<Longrightarrow>
   audio_part002 rt request = pure_of (Inr (a, history_of request))"
  by (auto simp: audio_of_def audio_part002_def history_of_def
      split: option.splits formval.splits)

lemma audio_index_ok:
  "audio_of request = Some a \<Longrightarrow>
   audio_index rt request = pure_of (Inr (a, history_of request))"
  by (auto simp: audio_of_def audio_index_def history_of_def
      split: option.splits formval.splits)

lemma audio_part002_cases:
  obtains e where "audio_part002 rt request = pure_of (Inl e)"
      "e = thrown rt NotAForm \<or> e = Error NO_AUDIO" "audio_of request = None"
  | a where "audio_part002 rt request = pure_of (Inr (a, history_of request))"
      "audio_of request = Some a"
proof -
  have "(\<exists>e. audio_part002 rt request = pure_of (Inl e)
            \<and> (e = thrown rt NotAForm \<or> e = Error NO_AUDIO) \<and> audio_of request = None)
      \<or> (\<exists>a. audio_part002 rt request = pure_of (Inr (a, history_of request))
              \<and> audio_of request = Some a)"
    by (auto simp: audio_part002_def audio_of_def history_of_def
        split: option.splits formval.splits)
  then show thesis using that by blast
qed

lemma audio_part001b_cases:
  obtains e where "audio_part001b rt request = pure_of (Inl e)"
  | a where "audio_part001b rt request = pure_of (Inr a)"
      "audio_of request = Some a" "100 \<le> size_of a"
proof -
  have "(\<exists>e. audio_part001b rt request = pure_of (Inl e))
      \<or> (\<exists>a. audio_part001b rt request = pure_of (Inr a)
              \<and> audio_of request = Some a \<and> 100 \<le> size_of a)"
    by (auto simp: audio_part001b_def audio_of_def split: option.splits formval.splits)
  then show thesis using that by blast
qed

lemma audio_index_cases:
  obtains e where "audio_index rt request = pure_of (Inl e)"
  | a where "audio_index rt request = pure_of (Inr (a, history_of request))"
      "audio_of request = Some a"
proof -
  have "(\<exists>e. audio_index rt request = pure_of (Inl e))
      \<or> (\<exists>a. audio_index rt request = pure_of (Inr (a, history_of request))
              \<and> audio_of request = Some a)"
    by (auto simp: audio_index_def audio_of_def history_of_def
        split: option.splits formval.splits)
  then show thesis using that by blast
qed

lemma audio_part002_pure:
  "snd (audio_part002 rt request) = Inr x \<Longrightarrow>
     \<exists>a. x = (a, history_of request) \<and> audio_of request = Some a"
  by (cases rt request rule: audio_part002_cases) (auto simp: pure_of_def)

lemma audio_part001b_pure:
  "snd (audio_part001b rt request) = Inr a \<Longrightarrow> audio_of request = Some a \<and> 100 \<le> size_of a"
  by (cases rt request rule: audio_part001b_cases) (auto simp: pure_of_def)

lemma audio_index_pure:
  "snd (audio_index rt request) = Inr x \<Longrightarrow>
     \<exists>a. x = (a, history_of request) \<and> audio_of request = Some a"
  by (cases rt request rule: audio_index_cases) (auto simp: pure_of_def)

lemma fst_audio:
  "fst (audio_part002 rt request) = []" "fst (audio_part001b rt request) = []"
  "fst (audio_index rt request) = []"
  by (cases rt request rule: audio_part002_cases, auto simp: pure_of_def)
     (cases rt request rule: audio_part001b_cases, auto simp: pure_of_def,
      cases rt request rule: audio_index_cases, auto simp: pure_of_def)

section \<open>The transcription step\<close>

lemma listen_part002_shape:
  "\<exists>res. listen_part002 rt svc env a =
     ([STT \<lparr>stt_key = ELEVENLABS_API_KEY env, stt_model_id = STT_MODEL, stt_file = a\<rparr>], res)"
  by (simp add: listen_part002_def Let_def)

lemma listen_part001b_shape:
  "\<exists>res. listen_part001b rt svc env a =
     ([STT \<lparr>stt_key = ELEVENLABS_API_KEY env, stt_model_id = STT_MODEL, stt_file = a\<rparr>], res)"
  by (simp add: listen_part001b_def Let_def)

lemma hear_index_shape:
  "\<exists>res. hear_index rt svc env a =
     ([STT \<lparr>stt_key = ELEVENLABS_API_KEY env, stt_model_id = js ''scribble_google_v1'',
             stt_file = a\<rparr>], res)"
  by (simp add: hear_index_def Let_def)

lemma fst_listen_part001b:
  "fst (listen_part001b rt svc env a) =
     [STT \<lparr>stt_key = ELEVENLABS_API_KEY env, stt_model_id = STT_MODEL, stt_file = a\<rparr>]"
  by (simp add: listen_part001b_def Let_def)

lemma fst_listen_part002:
  "fst (listen_part002 rt svc env a) =
     [STT \<lparr>stt_key = ELEVENLABS_API_KEY env, stt_model_id = STT_MODEL, stt_file = a\<rparr>]"
  by (simp add: listen_part002_def Let_def)

lemma fst_hear_index:
  "fst (hear_index rt svc env a) =
     [STT \<lparr>stt_key = ELEVENLABS_API_KEY env, stt_model_id = js ''scribble_google_v1'',
            stt_file = a\<rparr>]"
  by (simp add: hear_index_def Let_def)

section \<open>Headers\<close>

lemma hget_hput_same: "hget k (hput k v hs) = Some v"
  by (induction hs) (auto simp: hget_def)

lemma hget_hput_other: "k \<noteq> k' \<Longrightarrow> hget k (hput k' v hs) = hget k hs"
  by (induction hs) (auto simp: hget_def)

text \<open>The fixed strings that the handler sets as header values are stored as they are.\<close>

lemma header_value_fixed:
  "header_value rt (js ''audio/mpeg'') = Inr (js ''audio/mpeg'')"
  "header_value rt (js ''X-Ai-Text, X-User-Text'') = Inr (js ''X-Ai-Text, X-User-Text'')"
  "header_value rt NOT_HEARD = Inr NOT_HEARD"
  "header_value rt AI_ERROR = Inr AI_ERROR"
  by (simp_all add: header_value_def byte_string_def normalize_value_def http_whitespace_def
      NOT_HEARD_def AI_ERROR_def js_def)

text \<open>A value is trimmed of HTTP whitespace, line breaks at its ends included; a line
  break that is left inside it is refused.\<close>

lemma header_value_trimmed:
  "header_value rt (js '' hi '' @ [0x0A]) = Inr (js ''hi'')"
  "header_value rt (js ''hi'' @ [0x0A] @ js ''there'')
     = Inl (TypeError (message rt (InvalidHeaderValue (js ''hi'' @ [0x0A] @ js ''there''))))"
  by (simp_all add: header_value_def byte_string_def normalize_value_def http_whitespace_def
      thrown_def js_def)

lemma hset_fixed:
  "hset rt k (JStr (js ''audio/mpeg'')) hs = pure_of (Inr (hput k (js ''audio/mpeg'') hs))"
  "hset rt k (JStr (js ''X-Ai-Text, X-User-Text'')) hs
     = pure_of (Inr (hput k (js ''X-Ai-Text, X-User-Text'') hs))"
  by (simp_all add: hset_def to_string_def header_value_fixed)

text \<open>The packaging step in one piece: it makes no call, and it succeeds when the reply and
  the transcript convert to header values.\<close>

lemma package_unfold:
  "package rt cors aiText userText r =
     pure_of
       (case to_string rt aiText of
          Inl e \<Rightarrow> Inl e
        | Inr ai \<Rightarrow>
            (case header_value rt ai of
               Inl e \<Rightarrow> Inl e
             | Inr reply \<Rightarrow>
                 (case to_string rt userText of
                    Inl e \<Rightarrow> Inl e
                  | Inr u \<Rightarrow>
                      (case header_value rt u of
                         Inl e \<Rightarrow> Inl e
                       | Inr user \<Rightarrow>
                           Inr \<lparr>status = 200,
                                headers =
                                  hput ''Access-Control-Expose-Headers'' (js ''X-Ai-Text, X-User-Text'')
                                    (hput ''X-User-Text'' user
                                      (hput ''X-Ai-Text'' reply
                                        (hput ''Content-Type'' (js ''audio/mpeg'') cors))),
                                body = AudioStream (up_body r)\<rparr>))))"
  by (simp add: package_def hset_fixed and_then_simps)
     (simp add: hset_def and_then_def pure_of_def split: sum.splits)

lemma fst_package: "fst (package rt cors t u r) = []"
  by (simp add: package_unfold pure_of_def)

lemma package_success:
  assumes "snd (package rt cors aiText userText r) = Inr resp"
  shows "\<exists>ai reply u user.
           to_string rt aiText = Inr ai \<and> header_value rt ai = Inr reply
         \<and> to_string rt userText = Inr u \<and> header_value rt u = Inr user
         \<and> resp = \<lparr>status = 200,
                    headers =
                      hput ''Access-Control-Expose-Headers'' (js ''X-Ai-Text, X-User-Text'')
                        (hput ''X-User-Text'' user
                          (hput ''X-Ai-Text'' reply
                            (hput ''Content-Type'' (js ''audio/mpeg'') cors))),
                    body = AudioStream (up_body r)\<rparr>"
  using assms by (auto simp: package_unfold pure_of_def split: sum.splits)

lemma package_strings:
  assumes "header_value rt ai = Inr reply" and "header_value rt u = Inr user"
  shows "package rt cors (JStr ai) (JStr u) r =
     pure_of (Inr \<lparr>status = 200,
                    headers =
                      hput ''Access-Control-Expose-Headers'' (js ''X-Ai-Text, X-User-Text'')
                        (hput ''X-User-Text'' user
                          (hput ''X-Ai-Text'' reply
                            (hput ''Content-Type'' (js ''audio/mpeg'') cors))),
                    body = AudioStream (up_body r)\<rparr>)"
  using assms by (simp add: package_unfold to_string_def)

lemma packaged_texts:
  "reply_text \<lparr>status = n,
      headers = hput ''Access-Control-Expose-Headers'' e
                 (hput ''X-User-Text'' u (hput ''X-Ai-Text'' t hs)),
      body = b\<rparr> = Some t"
  "recognized_text \<lparr>status = n,
      headers = hput ''Access-Control-Expose-Headers'' e
                 (hput ''X-User-Text'' u (hput ''X-Ai-Text'' t hs)),
      body = b\<rparr> = Some u"
  by (simp_all add: reply_text_def recognized_text_def hget_hput_same hget_hput_other)

lemma packaged_score:
  "compliance_score \<lparr>status = n,
      headers = hput ''Access-Control-Expose-Headers'' e
                 (hput ''X-User-Text'' u (hput ''X-Ai-Text'' t (hput ''Content-Type'' c hs))),
      body = b\<rparr> = hget ''X-Compliance-Score'' hs"
  by (simp add: compliance_score_def hget_hput_other)

section \<open>The synthesis step\<close>

lemma fst_speak: "fst (speak svc env t) = [TTS (tts_request_of env t)]"
  by (simp add: speak_def Let_def)

lemma snd_speak:
  "snd (speak svc env t) = Inr r \<longleftrightarrow> tts svc (tts_request_of env t) = Fulfilled r \<and> up_ok r"
  by (auto simp: speak_def Let_def split: fetched.splits if_splits)

lemma speak_ok:
  "tts svc (tts_request_of env t) = Fulfilled r \<Longrightarrow> up_ok r \<Longrightarrow>
     speak svc env t = ([TTS (tts_request_of env t)], Inr r)"
  by (simp add: speak_def Let_def)

lemma fst_speak_package:
  "fst (and_then (speak svc env t) (package rt cors t u)) = [TTS (tts_request_of env t)]"
proof (cases "snd (speak svc env t)")
  case (Inl e)
  then have "speak svc env t = ([TTS (tts_request_of env t)], Inl e)"
    using fst_speak[of svc env t] by (cases "speak svc env t") simp
  then show ?thesis by (simp add: and_then_simps)
next
  case (Inr r)
  then have "speak svc env t = ([TTS (tts_request_of env t)], Inr r)"
    using fst_speak[of svc env t] by (cases "speak svc env t") simp
  then show ?thesis by (simp add: and_then_simps fst_package)
qed

lemma snd_speak_package:
  "snd (and_then (speak svc env t) (package rt cors t u)) = Inr resp \<Longrightarrow>
     \<exists>r. tts svc (tts_request_of env t) = Fulfilled r \<and> up_ok r
        \<and> snd (package rt cors t u r) = Inr resp"
  by (auto dest!: snd_and_then_Inr simp: snd_speak)

section \<open>The example runtime and services\<close>

lemma example_audio_valid:
  "audio_of (post (Some (FFile example_audio)) h) = Some example_audio"
  "100 \<le> size_of example_audio"
  "req_method (post x h) = js ''POST''"
  by (simp_all add: audio_of_def post_def size_of_def example_audio_def)

lemma tiny_audio_invalid:
  "size_of tiny_audio < 100"
  "audio_of (post (Some (FFile tiny_audio)) h) = Some tiny_audio"
  "audio_of (post None h) = None"
  by (simp_all add: size_of_def tiny_audio_def audio_of_def post_def)

lemma history_of_post: "history_of (post x h) = h"
  "history_of (post x h\<lparr>req_origin := y\<rparr>) = h"
  "audio_of (r\<lparr>req_origin := y\<rparr>) = audio_of r"
  "req_method (r\<lparr>req_origin := y\<rparr>) = req_method r"
  by (simp_all add: history_of_def post_def audio_of_def)

lemma example_parses:
  \<open>JSON_parse example_runtime (js ''[]'') = Some (JArr [])\<close>
  \<open>JSON_parse example_runtime (js ''{}'') = Some (JObj [])\<close>
  \<open>JSON_parse example_runtime (js ''[{"role":"assistant","content":"hi"}]'')
     = Some (JArr [prior (js ''assistant'') (js ''hi'')])\<close>
  \<open>JSON_parse example_runtime (js ''{"text":"Still locked.","compliance":40}'')
     = Some (JObj [(js ''text'', JStr (js ''Still locked.'')), (js ''compliance'', JNum 40)])\<close>
  \<open>JSON_parse example_runtime (js ''{"compliance":50}'') = Some (JObj [(js ''compliance'', JNum 50)])\<close>
  \<open>JSON_parse example_runtime (js ''{"text":"","compliance":50}'')
     = Some (JObj [(js ''text'', JStr []), (js ''compliance'', JNum 50)])\<close>
  by (simp_all add: example_runtime_def example_parse_def stt_body_def gemini_body_def
      escaped_def js_def)

lemma example_parses_stt:
  \<open>JSON_parse example_runtime (stt_body (js ''  '')) = Some (said (js ''  ''))\<close>
  \<open>JSON_parse example_runtime (stt_body (js ''is my account unfrozen''))
     = Some (said (js ''is my account unfrozen''))\<close>
  by (simp_all add: example_runtime_def example_parse_def stt_body_def gemini_body_def
      escaped_def js_def)

lemma example_parses_gemini:
  \<open>JSON_parse example_runtime (gemini_body (js ''Nah man, still locked. You know anything?''))
     = Some (candidates (js ''Nah man, still locked. You know anything?''))\<close>
  \<open>JSON_parse example_runtime (gemini_body (js ''{"text":"Still locked.","compliance":40}''))
     = Some (candidates (js ''{"text":"Still locked.","compliance":40}''))\<close>
  \<open>JSON_parse example_runtime (gemini_body (js ''{"compliance":50}''))
     = Some (candidates (js ''{"compliance":50}''))\<close>
  \<open>JSON_parse example_runtime (gemini_body (js ''{"text":"","compliance":50}''))
     = Some (candidates (js ''{"text":"","compliance":50}''))\<close>
  \<open>JSON_parse example_runtime (gemini_body (js ''Still locked.''))
     = Some (candidates (js ''Still locked.''))\<close>
  by (simp_all add: example_runtime_def example_parse_def stt_body_def gemini_body_def
      escaped_def js_def)

lemma example_rejects:
  \<open>JSON_parse example_runtime (js ''Still locked.'') = None\<close>
  \<open>JSON_parse example_runtime (js ''[{bad'') = None\<close>
  \<open>JSON_parse example_runtime (js ''upstream overloaded'') = None\<close>
  by (simp_all add: example_runtime_def example_parse_def stt_body_def gemini_body_def
      escaped_def js_def)

lemma example_prints:
  "ToString example_runtime (JNum 40) = Some (js ''40'')"
  "ToString example_runtime (JNum 50) = Some (js ''50'')"
  by (simp_all add: example_runtime_def)

lemma example_texts:
  \<open>js ''is my account unfrozen'' \<noteq> []\<close>
  \<open>js ''Nah man, still locked. You know anything?'' \<noteq> []\<close>
  \<open>js ''{"text":"Still locked.","compliance":40}'' \<noteq> []\<close>
  \<open>js ''{"compliance":50}'' \<noteq> []\<close>
  \<open>js ''{"text":"","compliance":50}'' \<noteq> []\<close>
  \<open>js ''Still locked.'' \<noteq> []\<close>
  \<open>js ''[{"role":"assistant","content":"hi"}]'' \<noteq> []\<close>
  by (simp_all add: js_def)

lemma example_lengths:
  "length (trim (js ''  '')) \<le> 1"
  "1 < length (trim (js ''is my account unfrozen''))"
  by (simp_all add: trim_def is_ws_def js_def)

text \<open>The texts of the examples as header values: the transcript of two spaces is stored as
  the empty string.\<close>

lemma example_header_values:
  \<open>header_value rt (js ''  '') = Inr []\<close>
  \<open>header_value rt (js ''is my account unfrozen'') = Inr (js ''is my account unfrozen'')\<close>
  \<open>header_value rt (js ''Nah man, still locked. You know anything?'')
     = Inr (js ''Nah man, still locked. You know anything?'')\<close>
  \<open>header_value rt (js ''Still locked.'') = Inr (js ''Still locked.'')\<close>
  \<open>header_value rt (js ''undefined'') = Inr (js ''undefined'')\<close>
  \<open>header_value rt (js ''40'') = Inr (js ''40'')\<close>
  \<open>header_value rt (js ''50'') = Inr (js ''50'')\<close>
  \<open>header_value rt [] = Inr []\<close>
  by (simp_all add: header_value_def byte_string_def normalize_value_def http_whitespace_def js_def)

lemma spoken_facts:
  "up_ok spoken" "up_body spoken = [1, 2, 3]"
  "speaks p = Fulfilled spoken"
  "\<not> up_ok (failure x)" "up_text (failure x) = Some x"
  "up_ok (answered x)" "up_text (answered x) = Some x"
  by (simp_all add: spoken_def speaks_def failure_def answered_def)

text \<open>A transcription that answers with the transcript \<open>t\<close>.\<close>

lemma heard_json:
  "JSON_parse rt (stt_body t) = Some (said t) \<Longrightarrow> json_of rt (heard t) = Inr (said t)"
  by (simp add: json_of_def heard_def answered_def parse_def)

lemma listen_heard:
  assumes "stt svc \<lparr>stt_key = ELEVENLABS_API_KEY env, stt_model_id = STT_MODEL, stt_file = a\<rparr>
             = Fulfilled (heard t)"
    and "JSON_parse rt (stt_body t) = Some (said t)"
  shows "listen_part001b rt svc env a =
           ([STT \<lparr>stt_key = ELEVENLABS_API_KEY env, stt_model_id = STT_MODEL, stt_file = a\<rparr>],
            Inr (JStr t))"
    and "listen_part002 rt svc env a =
           ([STT \<lparr>stt_key = ELEVENLABS_API_KEY env, stt_model_id = STT_MODEL, stt_file = a\<rparr>],
            Inr (JStr t))"
    and "listen_part000 rt svc env a =
           ([STT \<lparr>stt_key = ELEVENLABS_API_KEY env, stt_model_id = STT_MODEL, stt_file = a\<rparr>],
            Inr (JStr t))"
  using assms(1) heard_json[OF assms(2)]
  by (simp_all add: listen_part001b_def listen_part002_def listen_part000_def Let_def
      heard_def answered_def said_def get_def or_else_def)

lemma hear_heard:
  assumes "stt svc \<lparr>stt_key = ELEVENLABS_API_KEY env, stt_model_id = js ''scribble_google_v1'',
                    stt_file = a\<rparr> = Fulfilled (heard t)"
    and "JSON_parse rt (stt_body t) = Some (said t)"
  shows "hear_index rt svc env a =
           ([STT \<lparr>stt_key = ELEVENLABS_API_KEY env, stt_model_id = js ''scribble_google_v1'',
                   stt_file = a\<rparr>],
            Inr (JStr t))"
  using assms(1) heard_json[OF assms(2)]
  by (simp add: hear_index_def Let_def heard_def answered_def said_def get_def)

text \<open>A generation that answers with the candidate text \<open>t\<close>, and one that fails.\<close>

lemma candidate_text_candidates: "candidate_text rt (candidates t) = Inr (JStr t)"
  by (simp add: candidate_text_def candidates_def get_def opt_get_def opt_elem0_def)

lemma generated_json:
  "JSON_parse rt (gemini_body t) = Some (candidates t) \<Longrightarrow>
     json_of rt (generated t) = Inr (candidates t)"
  by (simp add: json_of_def generated_def answered_def parse_def)

lemma reply_of_generated:
  assumes "JSON_parse rt (gemini_body t) = Some (candidates t)" and "t \<noteq> []"
  shows "reply_of rt (Fulfilled (generated t)) d = Inr (JStr t)"
  using assms(2) generated_json[OF assms(1)]
  by (simp add: reply_of_def candidate_text_candidates or_else_def)
     (simp add: generated_def answered_def)

lemma reply_of_failure: "reply_of rt (Fulfilled (failure x)) d = Inr (JStr AI_ERROR)"
  by (simp add: reply_of_def failure_def text_of_def)

lemma example_transcripts:
  "snd (listen_part001b example_runtime quiet_services env a) = Inr (JStr (js ''  ''))"
  "snd (listen_part002 example_runtime quiet_services env a) = Inr (JStr (js ''  ''))"
  "snd (listen_part001b example_runtime failing_generation_services env a)
     = Inr (JStr (js ''is my account unfrozen''))"
  "snd (listen_part002 example_runtime failing_generation_services env a)
     = Inr (JStr (js ''is my account unfrozen''))"
  "snd (listen_part002 example_runtime talking_services env a)
     = Inr (JStr (js ''is my account unfrozen''))"
  "snd (hear_index example_runtime talking_services env a)
     = Inr (JStr (js ''is my account unfrozen''))"
  "snd (hear_index example_runtime (structured_services raw) env a)
     = Inr (JStr (js ''is my account unfrozen''))"
  "snd (listen_part002 example_runtime wordless_services env a)
     = Inr (JStr (js ''is my account unfrozen''))"
  by (simp_all add: listen_heard hear_heard example_parses_stt quiet_services_def
      failing_generation_services_def talking_services_def structured_services_def
      wordless_services_def hears_def)

lemma example_services:
  "gemini failing_generation_services q = Fulfilled (failure (js ''quota exceeded''))"
  "gemini talking_services q
     = Fulfilled (generated (js ''Nah man, still locked. You know anything?''))"
  "gemini (structured_services raw) q = Fulfilled (generated raw)"
  "tts quiet_services p = Fulfilled spoken"
  "tts failing_generation_services p = Fulfilled spoken"
  "tts talking_services p = Fulfilled spoken"
  "tts (structured_services raw) p = Fulfilled spoken"
  "gemini wordless_services q = Fulfilled (answered (js ''{}''))"
  "tts wordless_services p = Fulfilled spoken"
  by (simp_all add: failing_generation_services_def talking_services_def
      structured_services_def quiet_services_def wordless_services_def fails_with_def
      speaks_def)

section \<open>A transcript without speech\<close>

text \<open>The response to a turn whose reply is fixed before the synthesis.\<close>

lemma part001b_silence:
  assumes "req_method request = js ''POST''"
    and "audio_of request = Some a" and "100 \<le> size_of a"
    and "snd (listen_part001b rt svc env a) = Inr (JStr s)"
    and "length (trim s) \<le> 1"
  shows "fetch_part001b rt svc env request =
     (fst (listen_part001b rt svc env a) @ [TTS (tts_request_of env (JStr NOT_HEARD))],
      case tts svc (tts_request_of env (JStr NOT_HEARD)) of
        Rejected reason \<Rightarrow>
          \<lparr>status = 500, headers = getCorsHeaders_part001b, body = ErrorJson (TypeError reason)\<rparr>
      | Fulfilled r \<Rightarrow>
          if up_ok r then
            (case header_value rt s of
               Inl e \<Rightarrow> \<lparr>status = 500, headers = getCorsHeaders_part001b, body = ErrorJson e\<rparr>
             | Inr user \<Rightarrow>
                 \<lparr>status = 200,
                  headers = hput ''Access-Control-Expose-Headers'' (js ''X-Ai-Text, X-User-Text'')
                           (hput ''X-User-Text'' user
                             (hput ''X-Ai-Text'' NOT_HEARD
                               (hput ''Content-Type'' (js ''audio/mpeg'') getCorsHeaders_part001b))),
                  body = AudioStream (up_body r)\<rparr>)
          else \<lparr>status = 500, headers = getCorsHeaders_part001b,
                 body = ErrorJson (Error TTS_FAILED)\<rparr>)"
proof -
  have h: "audio_part001b rt request = pure_of (Inr a)"
    using assms(2,3) by (rule audio_part001b_file)
  obtain cs where l: "listen_part001b rt svc env a = (cs, Inr (JStr s))"
    using assms(4) by (cases "listen_part001b rt svc env a") auto
  have t: "think_part001b rt svc env (JStr s) = pure_of (Inr (JStr NOT_HEARD))"
    using assms(5) by (simp add: think_part001b_def Let_def)
  show ?thesis
    using assms(1)
    by (simp add: fetch_POST try_part001b_def h l t and_then_simps)
       (simp add: speak_def Let_def package_unfold to_string_def header_value_fixed finish_def
          pure_of_def and_then_def split: fetched.splits sum.splits)
qed

lemma part002_silence:
  assumes "req_method request = js ''POST''"
    and "audio_of request = Some a"
    and "snd (listen_part002 rt svc env a) = Inr (JStr s)"
    and "length (trim s) \<le> 1"
  shows "fetch_part002 rt svc env request =
     (fst (listen_part002 rt svc env a) @ [TTS (tts_request_of env (JStr NOT_HEARD))],
      case tts svc (tts_request_of env (JStr NOT_HEARD)) of
        Rejected reason \<Rightarrow>
          \<lparr>status = 500, headers = getCorsHeaders_part002, body = ErrorJson (TypeError reason)\<rparr>
      | Fulfilled r \<Rightarrow>
          if up_ok r then
            (case header_value rt s of
               Inl e \<Rightarrow> \<lparr>status = 500, headers = getCorsHeaders_part002, body = ErrorJson e\<rparr>
             | Inr user \<Rightarrow>
                 \<lparr>status = 200,
                  headers = hput ''Access-Control-Expose-Headers'' (js ''X-Ai-Text, X-User-Text'')
                           (hput ''X-User-Text'' user
                             (hput ''X-Ai-Text'' NOT_HEARD
                               (hput ''Content-Type'' (js ''audio/mpeg'') getCorsHeaders_part002))),
                  body = AudioStream (up_body r)\<rparr>)
          else \<lparr>status = 500, headers = getCorsHeaders_part002,
                 body = ErrorJson (Error TTS_FAILED)\<rparr>)"
proof -
  have h: "audio_part002 rt request = pure_of (Inr (a, history_of request))"
    using assms(2) by (rule audio_part002_ok)
  obtain cs where l: "listen_part002 rt svc env a = (cs, Inr (JStr s))"
    using assms(3) by (cases "listen_part002 rt svc env a") auto
  have t: "think_part002 rt svc env h (JStr s) = pure_of (Inr (JStr NOT_HEARD))" for h
    using assms(4) by (simp add: think_part002_def Let_def)
  show ?thesis
    using assms(1)
    by (simp add: fetch_POST try_part002_def h l t and_then_simps)
       (simp add: speak_def Let_def package_unfold to_string_def header_value_fixed finish_def
          pure_of_def and_then_def split: fetched.splits sum.splits)
qed

text \<open>
  C1 (as amended). In the two revisions that short-circuit the generation step
  (part\_001 lines 189-312 and part\_002), for every POST request with a valid audio file
  whose transcript has at most one code unit once trimmed (an absent transcript counts as
  the empty string): the generation service is never called, the synthesis is called on
  the fixed reply "I couldn't hear you, Officer. Say again?", and that sentence is the
  reply text of the response when the turn succeeds.
\<close>

theorem silence_skips_generation:
  "(req_method request = js ''POST'' \<and> audio_of request = Some a \<and> 100 \<le> size_of a
      \<and> snd (listen_part001b rt svc env a) = Inr (JStr s) \<and> length (trim s) \<le> 1
    \<longrightarrow> fixed_reply_without_generation env NOT_HEARD (fetch_part001b rt svc env request))
   \<and> (req_method request = js ''POST'' \<and> audio_of request = Some a
      \<and> snd (listen_part002 rt svc env a) = Inr (JStr s) \<and> length (trim s) \<le> 1
    \<longrightarrow> fixed_reply_without_generation env NOT_HEARD (fetch_part002 rt svc env request))"
proof (intro conjI impI)
  assume a: "req_method request = js ''POST'' \<and> audio_of request = Some a \<and> 100 \<le> size_of a
      \<and> snd (listen_part001b rt svc env a) = Inr (JStr s) \<and> length (trim s) \<le> 1"
  have "fetch_part001b rt svc env request =
     (fst (listen_part001b rt svc env a) @ [TTS (tts_request_of env (JStr NOT_HEARD))],
      case tts svc (tts_request_of env (JStr NOT_HEARD)) of
        Rejected reason \<Rightarrow>
          \<lparr>status = 500, headers = getCorsHeaders_part001b, body = ErrorJson (TypeError reason)\<rparr>
      | Fulfilled r \<Rightarrow>
          if up_ok r then
            (case header_value rt s of
               Inl e \<Rightarrow> \<lparr>status = 500, headers = getCorsHeaders_part001b, body = ErrorJson e\<rparr>
             | Inr user \<Rightarrow>
                 \<lparr>status = 200,
                  headers = hput ''Access-Control-Expose-Headers'' (js ''X-Ai-Text, X-User-Text'')
                           (hput ''X-User-Text'' user
                             (hput ''X-Ai-Text'' NOT_HEARD
                               (hput ''Content-Type'' (js ''audio/mpeg'') getCorsHeaders_part001b))),
                  body = AudioStream (up_body r)\<rparr>)
          else \<lparr>status = 500, headers = getCorsHeaders_part001b,
                 body = ErrorJson (Error TTS_FAILED)\<rparr>)"
    using a by (intro part001b_silence) simp_all
  then show "fixed_reply_without_generation env NOT_HEARD (fetch_part001b rt svc env request)"
    by (simp add: fixed_reply_without_generation_def fst_listen_part001b is_GEN_def
        packaged_texts split: fetched.splits sum.splits)
next
  assume a: "req_method request = js ''POST'' \<and> audio_of request = Some a
      \<and> snd (listen_part002 rt svc env a) = Inr (JStr s) \<and> length (trim s) \<le> 1"
  have "fetch_part002 rt svc env request =
     (fst (listen_part002 rt svc env a) @ [TTS (tts_request_of env (JStr NOT_HEARD))],
      case tts svc (tts_request_of env (JStr NOT_HEARD)) of
        Rejected reason \<Rightarrow>
          \<lparr>status = 500, headers = getCorsHeaders_part002, body = ErrorJson (TypeError reason)\<rparr>
      | Fulfilled r \<Rightarrow>
          if up_ok r then
            (case header_value rt s of
               Inl e \<Rightarrow> \<lparr>status = 500, headers = getCorsHeaders_part002, body = ErrorJson e\<rparr>
             | Inr user \<Rightarrow>
                 \<lparr>status = 200,
                  headers = hput ''Access-Control-Expose-Headers'' (js ''X-Ai-Text, X-User-Text'')
                           (hput ''X-User-Text'' user
                             (hput ''X-Ai-Text'' NOT_HEARD
                               (hput ''Content-Type'' (js ''audio/mpeg'') getCorsHeaders_part002))),
                  body = AudioStream (up_body r)\<rparr>)
          else \<lparr>status = 500, headers = getCorsHeaders_part002,
                 body = ErrorJson (Error TTS_FAILED)\<rparr>)"
    using a by (intro part002_silence) simp_all
  then show "fixed_reply_without_generation env NOT_HEARD (fetch_part002 rt svc env request)"
    by (simp add: fixed_reply_without_generation_def fst_listen_part002 is_GEN_def
        packaged_texts split: fetched.splits sum.splits)
qed

lemma quiet_turns:
  "fetch_part001b example_runtime quiet_services example_env
      (post (Some (FFile example_audio)) None) =
     (fst (listen_part001b example_runtime quiet_services example_env example_audio)
        @ [TTS (tts_request_of example_env (JStr NOT_HEARD))],
      \<lparr>status = 200,
       headers = hput ''Access-Control-Expose-Headers'' (js ''X-Ai-Text, X-User-Text'')
                  (hput ''X-User-Text'' []
                    (hput ''X-Ai-Text'' NOT_HEARD
                      (hput ''Content-Type'' (js ''audio/mpeg'') getCorsHeaders_part001b))),
       body = AudioStream [1, 2, 3]\<rparr>)"
  "fetch_part002 example_runtime quiet_services example_env
      (post (Some (FFile example_audio)) None) =
     (fst (listen_part002 example_runtime quiet_services example_env example_audio)
        @ [TTS (tts_request_of example_env (JStr NOT_HEARD))],
      \<lparr>status = 200,
       headers = hput ''Access-Control-Expose-Headers'' (js ''X-Ai-Text, X-User-Text'')
                  (hput ''X-User-Text'' []
                    (hput ''X-Ai-Text'' NOT_HEARD
                      (hput ''Content-Type'' (js ''audio/mpeg'') getCorsHeaders_part002))),
       body = AudioStream [1, 2, 3]\<rparr>)"
  by (simp_all add: part001b_silence[OF _ _ _ example_transcripts(1) example_lengths(1)]
      part002_silence[OF _ _ example_transcripts(2) example_lengths(1)] example_audio_valid
      example_services spoken_facts example_header_values)

theorem silence_skips_generation_witness:
  "status (snd (fetch_part001b example_runtime quiet_services example_env
      (post (Some (FFile example_audio)) None))) = 200
   \<and> fixed_reply_without_generation example_env NOT_HEARD
       (fetch_part001b example_runtime quiet_services example_env
          (post (Some (FFile example_audio)) None))
   \<and> reply_text (snd (fetch_part001b example_runtime quiet_services example_env
        (post (Some (FFile example_audio)) None))) = Some NOT_HEARD
   \<and> status (snd (fetch_part002 example_runtime quiet_services example_env
      (post (Some (FFile example_audio)) None))) = 200
   \<and> fixed_reply_without_generation example_env NOT_HEARD
       (fetch_part002 example_runtime quiet_services example_env
          (post (Some (FFile example_audio)) None))
   \<and> reply_text (snd (fetch_part002 example_runtime quiet_services example_env
        (post (Some (FFile example_audio)) None))) = Some NOT_HEARD"
proof -
  let ?request = "post (Some (FFile example_audio)) None"
  have guard: "req_method ?request = js ''POST'' \<and> audio_of ?request = Some example_audio
      \<and> 100 \<le> size_of example_audio
      \<and> snd (listen_part001b example_runtime quiet_services example_env example_audio)
          = Inr (JStr (js ''  ''))
      \<and> length (trim (js ''  '')) \<le> 1"
    by (intro conjI example_audio_valid example_transcripts example_lengths)
  have history: "req_method ?request = js ''POST'' \<and> audio_of ?request = Some example_audio
      \<and> snd (listen_part002 example_runtime quiet_services example_env example_audio)
          = Inr (JStr (js ''  ''))
      \<and> length (trim (js ''  '')) \<le> 1"
    by (intro conjI example_audio_valid example_transcripts example_lengths)
  from silence_skips_generation
    [of ?request example_audio example_runtime quiet_services example_env "js ''  ''"]
    guard history
  have "fixed_reply_without_generation example_env NOT_HEARD
          (fetch_part001b example_runtime quiet_services example_env ?request)"
    and "fixed_reply_without_generation example_env NOT_HEARD
          (fetch_part002 example_runtime quiet_services example_env ?request)"
    by blast+
  moreover have "status (snd (fetch_part001b example_runtime quiet_services example_env
      ?request)) = 200"
    and "status (snd (fetch_part002 example_runtime quiet_services example_env ?request)) = 200"
    by (simp_all add: quiet_turns)
  ultimately show ?thesis
    by (simp add: fixed_reply_without_generation_def)
qed

text \<open>The fixed reply is not the sentence "I couldn't hear you, say again?": a successful
  turn on a transcript of two spaces carries the reply text with "Officer" in it.\<close>

theorem silence_reply_counterexample:
  \<open>status (snd (fetch_part002 example_runtime quiet_services example_env
      (post (Some (FFile example_audio)) None))) = 200
   \<and> reply_text (snd (fetch_part002 example_runtime quiet_services example_env
        (post (Some (FFile example_audio)) None)))
      = Some (js ''I couldn't hear you, Officer. Say again?'')
   \<and> reply_text (snd (fetch_part002 example_runtime quiet_services example_env
        (post (Some (FFile example_audio)) None)))
      \<noteq> Some (js ''I couldn't hear you, say again?'')\<close>
  by (simp add: quiet_turns packaged_texts) (simp add: NOT_HEARD_def js_def)

section \<open>A failure of the generation service\<close>

lemma think_part002_failed:
  assumes "GEN q \<in> set (fst (think_part002 rt svc env h u))"
    and "gemini svc q = Fulfilled g" and "\<not> up_ok g" and "up_text g = Some err"
  shows "think_part002 rt svc env h u = ([GEN q], Inr (JStr AI_ERROR)) \<and> (\<exists>s. u = JStr s)"
  using assms
  by (auto simp: think_part002_def Let_def pure_of_def reply_of_def text_of_def
      split: jsval.splits if_splits sum.splits)

lemma think_part001b_failed:
  assumes "GEN q \<in> set (fst (think_part001b rt svc env u))"
    and "gemini svc q = Fulfilled g" and "\<not> up_ok g" and "up_text g = Some err"
  shows "think_part001b rt svc env u = ([GEN q], Inr (JStr AI_ERROR)) \<and> (\<exists>s. u = JStr s)"
  using assms
  by (auto simp: think_part001b_def Let_def pure_of_def reply_of_def text_of_def
      split: jsval.splits if_splits sum.splits)

text \<open>When the error body of the failure cannot be read, the generation step throws.\<close>

lemma reply_of_unreadable:
  "\<not> up_ok g \<Longrightarrow> up_text g = None \<Longrightarrow>
     reply_of rt (Fulfilled g) d = Inl (TypeError (message rt BodyUnreadable))"
  by (simp add: reply_of_def text_of_def thrown_def)

lemma part002_generation_called:
  assumes "req_method request = js ''POST''"
    and "GEN q \<in> set (fst (fetch_part002 rt svc env request))"
  shows "\<exists>a u. audio_of request = Some a \<and> snd (listen_part002 rt svc env a) = Inr u
     \<and> GEN q \<in> set (fst (think_part002 rt svc env (history_of request) u))"
proof -
  have "GEN q \<in> set (fst (try_part002 rt svc env request))"
    using assms by (simp add: fetch_POST fst_finish)
  then show ?thesis
    unfolding try_part002_def
    by (auto dest!: in_and_then audio_part002_pure
        simp: fst_audio fst_listen_part002 fst_logged fst_speak fst_package)
qed

lemma part001b_generation_called:
  assumes "req_method request = js ''POST''"
    and "GEN q \<in> set (fst (fetch_part001b rt svc env request))"
  shows "\<exists>a u. audio_of request = Some a \<and> 100 \<le> size_of a
     \<and> snd (listen_part001b rt svc env a) = Inr u
     \<and> GEN q \<in> set (fst (think_part001b rt svc env u))"
proof -
  have "GEN q \<in> set (fst (try_part001b rt svc env request))"
    using assms by (simp add: fetch_POST fst_finish)
  then show ?thesis
    unfolding try_part001b_def
    by (auto dest!: in_and_then audio_part001b_pure
        simp: fst_audio fst_listen_part001b fst_logged fst_speak fst_package)
qed

text \<open>The turn after a failure of the generation service whose error body was read.\<close>

lemma part002_generation_failed:
  assumes post: "req_method request = js ''POST''"
    and gen: "GEN q \<in> set (fst (fetch_part002 rt svc env request))"
    and g: "gemini svc q = Fulfilled g" "\<not> up_ok g" "up_text g = Some err"
  shows "\<exists>a s. audio_of request = Some a
     \<and> snd (listen_part002 rt svc env a) = Inr (JStr s)
     \<and> fetch_part002 rt svc env request =
         (fst (listen_part002 rt svc env a) @ [GEN q, TTS (tts_request_of env (JStr AI_ERROR))],
          case tts svc (tts_request_of env (JStr AI_ERROR)) of
            Rejected reason \<Rightarrow>
              \<lparr>status = 500, headers = getCorsHeaders_part002, body = ErrorJson (TypeError reason)\<rparr>
          | Fulfilled r \<Rightarrow>
              if up_ok r then
                (case header_value rt s of
                   Inl e \<Rightarrow> \<lparr>status = 500, headers = getCorsHeaders_part002, body = ErrorJson e\<rparr>
                 | Inr user \<Rightarrow>
                     \<lparr>status = 200,
                      headers = hput ''Access-Control-Expose-Headers'' (js ''X-Ai-Text, X-User-Text'')
                               (hput ''X-User-Text'' user
                                 (hput ''X-Ai-Text'' AI_ERROR
                                   (hput ''Content-Type'' (js ''audio/mpeg'') getCorsHeaders_part002))),
                      body = AudioStream (up_body r)\<rparr>)
              else \<lparr>status = 500, headers = getCorsHeaders_part002,
                     body = ErrorJson (Error TTS_FAILED)\<rparr>)"
proof -
  from part002_generation_called[OF post gen] obtain a u where
    a: "audio_of request = Some a" and u: "snd (listen_part002 rt svc env a) = Inr u"
    and th: "GEN q \<in> set (fst (think_part002 rt svc env (history_of request) u))"
    by blast
  from think_part002_failed[OF th g]
  obtain s where t: "think_part002 rt svc env (history_of request) (JStr s)
                         = ([GEN q], Inr (JStr AI_ERROR))"
    and s: "u = JStr s" by blast
  obtain res where l: "listen_part002 rt svc env a =
     ([STT \<lparr>stt_key = ELEVENLABS_API_KEY env, stt_model_id = STT_MODEL, stt_file = a\<rparr>], res)"
    using listen_part002_shape by blast
  with u s have res: "res = Inr (JStr s)" by simp
  have "fetch_part002 rt svc env request =
         (fst (listen_part002 rt svc env a) @ [GEN q, TTS (tts_request_of env (JStr AI_ERROR))],
          case tts svc (tts_request_of env (JStr AI_ERROR)) of
            Rejected reason \<Rightarrow>
              \<lparr>status = 500, headers = getCorsHeaders_part002, body = ErrorJson (TypeError reason)\<rparr>
          | Fulfilled r \<Rightarrow>
              if up_ok r then
                (case header_value rt s of
                   Inl e \<Rightarrow> \<lparr>status = 500, headers = getCorsHeaders_part002, body = ErrorJson e\<rparr>
                 | Inr user \<Rightarrow>
                     \<lparr>status = 200,
                      headers = hput ''Access-Control-Expose-Headers'' (js ''X-Ai-Text, X-User-Text'')
                               (hput ''X-User-Text'' user
                                 (hput ''X-Ai-Text'' AI_ERROR
                                   (hput ''Content-Type'' (js ''audio/mpeg'') getCorsHeaders_part002))),
                      body = AudioStream (up_body r)\<rparr>)
              else \<lparr>status = 500, headers = getCorsHeaders_part002,
                     body = ErrorJson (Error TTS_FAILED)\<rparr>)"
    using post
    by (simp add: fetch_POST try_part002_def audio_part002_ok[OF a] l res t and_then_simps)
       (simp add: speak_def Let_def package_unfold to_string_def header_value_fixed pure_of_def
          finish_def and_then_def split: fetched.splits sum.splits)
  with a u s show ?thesis by blast
qed

lemma part001b_generation_failed:
  assumes post: "req_method request = js ''POST''"
    and gen: "GEN q \<in> set (fst (fetch_part001b rt svc env request))"
    and g: "gemini svc q = Fulfilled g" "\<not> up_ok g" "up_text g = Some err"
  shows "\<exists>a s. audio_of request = Some a \<and> 100 \<le> size_of a
     \<and> snd (listen_part001b rt svc env a) = Inr (JStr s)
     \<and> fetch_part001b rt svc env request =
         (fst (listen_part001b rt svc env a) @ [GEN q, TTS (tts_request_of env (JStr AI_ERROR))],
          case tts svc (tts_request_of env (JStr AI_ERROR)) of
            Rejected reason \<Rightarrow>
              \<lparr>status = 500, headers = getCorsHeaders_part001b, body = ErrorJson (TypeError reason)\<rparr>
          | Fulfilled r \<Rightarrow>
              if up_ok r then
                (case header_value rt s of
                   Inl e \<Rightarrow> \<lparr>status = 500, headers = getCorsHeaders_part001b, body = ErrorJson e\<rparr>
                 | Inr user \<Rightarrow>
                     \<lparr>status = 200,
                      headers = hput ''Access-Control-Expose-Headers'' (js ''X-Ai-Text, X-User-Text'')
                               (hput ''X-User-Text'' user
                                 (hput ''X-Ai-Text'' AI_ERROR
                                   (hput ''Content-Type'' (js ''audio/mpeg'') getCorsHeaders_part001b))),
                      body = AudioStream (up_body r)\<rparr>)
              else \<lparr>status = 500, headers = getCorsHeaders_part001b,
                     body = ErrorJson (Error TTS_FAILED)\<rparr>)"
proof -
  from part001b_generation_called[OF post gen] obtain a u where
    a: "audio_of request = Some a" "100 \<le> size_of a"
    and u: "snd (listen_part001b rt svc env a) = Inr u"
    and th: "GEN q \<in> set (fst (think_part001b rt svc env u))"
    by blast
  from think_part001b_failed[OF th g]
  obtain s where t: "think_part001b rt svc env (JStr s) = ([GEN q], Inr (JStr AI_ERROR))"
    and s: "u = JStr s" by blast
  obtain res where l: "listen_part001b rt svc env a =
     ([STT \<lparr>stt_key = ELEVENLABS_API_KEY env, stt_model_id = STT_MODEL, stt_file = a\<rparr>], res)"
    using listen_part001b_shape by blast
  with u s have res: "res = Inr (JStr s)" by simp
  have "fetch_part001b rt svc env request =
         (fst (listen_part001b rt svc env a) @ [GEN q, TTS (tts_request_of env (JStr AI_ERROR))],
          case tts svc (tts_request_of env (JStr AI_ERROR)) of
            Rejected reason \<Rightarrow>
              \<lparr>status = 500, headers = getCorsHeaders_part001b, body = ErrorJson (TypeError reason)\<rparr>
          | Fulfilled r \<Rightarrow>
              if up_ok r then
                (case header_value rt s of
                   Inl e \<Rightarrow> \<lparr>status = 500, headers = getCorsHeaders_part001b, body = ErrorJson e\<rparr>
                 | Inr user \<Rightarrow>
                     \<lparr>status = 200,
                      headers = hput ''Access-Control-Expose-Headers'' (js ''X-Ai-Text, X-User-Text'')
                               (hput ''X-User-Text'' user
                                 (hput ''X-Ai-Text'' AI_ERROR
                                   (hput ''Content-Type'' (js ''audio/mpeg'') getCorsHeaders_part001b))),
                      body = AudioStream (up_body r)\<rparr>)
              else \<lparr>status = 500, headers = getCorsHeaders_part001b,
                     body = ErrorJson (Error TTS_FAILED)\<rparr>)"
    using post
    by (simp add: fetch_POST try_part001b_def audio_part001b_file[OF a] l res t and_then_simps)
       (simp add: speak_def Let_def package_unfold to_string_def header_value_fixed pure_of_def
          finish_def and_then_def split: fetched.splits sum.splits)
  with a u s show ?thesis by blast
qed

text \<open>
  C2 (as amended). In the two revisions that recover from a generation failure (part\_001
  lines 189-312 and part\_002): for every POST request, if the handler called the
  generation service with \<open>q\<close> (it does so only for a valid audio file whose transcript has
  more than one code unit once trimmed) and the service answered \<open>q\<close> with a non-success
  response whose error body could be read, then the synthesis is called on the fixed
  apology "My head hurts... (AI Error)". If moreover the synthesis answers that call with
  success and the transcript \<open>s\<close> is accepted as a header value (trimmed of HTTP whitespace
  it holds no line break and no NUL, and the runtime accepts its code units), the turn
  succeeds: status 200, the synthesized audio as body, the apology as reply text and the
  trimmed transcript as recognized text.
\<close>

theorem generation_failure_degrades:
  "(req_method request = js ''POST''
      \<and> GEN q \<in> set (fst (fetch_part001b rt svc env request))
      \<and> gemini svc q = Fulfilled g \<and> \<not> up_ok g \<and> up_text g = Some err
    \<longrightarrow> TTS (tts_request_of env (JStr AI_ERROR)) \<in> set (fst (fetch_part001b rt svc env request))
        \<and> (tts svc (tts_request_of env (JStr AI_ERROR)) = Fulfilled r \<and> up_ok r
             \<and> audio_of request = Some a
             \<and> snd (listen_part001b rt svc env a) = Inr (JStr s)
             \<and> header_value rt s = Inr user
           \<longrightarrow> degraded_turn env r (fetch_part001b rt svc env request)
               \<and> recognized_text (snd (fetch_part001b rt svc env request)) = Some user))
   \<and> (req_method request = js ''POST''
      \<and> GEN q \<in> set (fst (fetch_part002 rt svc env request))
      \<and> gemini svc q = Fulfilled g \<and> \<not> up_ok g \<and> up_text g = Some err
    \<longrightarrow> TTS (tts_request_of env (JStr AI_ERROR)) \<in> set (fst (fetch_part002 rt svc env request))
        \<and> (tts svc (tts_request_of env (JStr AI_ERROR)) = Fulfilled r \<and> up_ok r
             \<and> audio_of request = Some a
             \<and> snd (listen_part002 rt svc env a) = Inr (JStr s)
             \<and> header_value rt s = Inr user
           \<longrightarrow> degraded_turn env r (fetch_part002 rt svc env request)
               \<and> recognized_text (snd (fetch_part002 rt svc env request)) = Some user))"
proof (intro conjI impI)
  assume h: "req_method request = js ''POST''
      \<and> GEN q \<in> set (fst (fetch_part001b rt svc env request))
      \<and> gemini svc q = Fulfilled g \<and> \<not> up_ok g \<and> up_text g = Some err"
  then obtain a' s' where a': "audio_of request = Some a'"
    and s': "snd (listen_part001b rt svc env a') = Inr (JStr s')"
    and f: "fetch_part001b rt svc env request =
         (fst (listen_part001b rt svc env a') @ [GEN q, TTS (tts_request_of env (JStr AI_ERROR))],
          case tts svc (tts_request_of env (JStr AI_ERROR)) of
            Rejected reason \<Rightarrow>
              \<lparr>status = 500, headers = getCorsHeaders_part001b, body = ErrorJson (TypeError reason)\<rparr>
          | Fulfilled r \<Rightarrow>
              if up_ok r then
                (case header_value rt s' of
                   Inl e \<Rightarrow> \<lparr>status = 500, headers = getCorsHeaders_part001b, body = ErrorJson e\<rparr>
                 | Inr user \<Rightarrow>
                     \<lparr>status = 200,
                      headers = hput ''Access-Control-Expose-Headers'' (js ''X-Ai-Text, X-User-Text'')
                               (hput ''X-User-Text'' user
                                 (hput ''X-Ai-Text'' AI_ERROR
                                   (hput ''Content-Type'' (js ''audio/mpeg'') getCorsHeaders_part001b))),
                      body = AudioStream (up_body r)\<rparr>)
              else \<lparr>status = 500, headers = getCorsHeaders_part001b,
                     body = ErrorJson (Error TTS_FAILED)\<rparr>)"
    using part001b_generation_failed[of request q rt svc env g err] by blast
  show "TTS (tts_request_of env (JStr AI_ERROR)) \<in> set (fst (fetch_part001b rt svc env request))"
    by (simp add: f)
  assume "tts svc (tts_request_of env (JStr AI_ERROR)) = Fulfilled r \<and> up_ok r
             \<and> audio_of request = Some a
             \<and> snd (listen_part001b rt svc env a) = Inr (JStr s)
             \<and> header_value rt s = Inr user"
  with a' s' show "degraded_turn env r (fetch_part001b rt svc env request)"
    and "recognized_text (snd (fetch_part001b rt svc env request)) = Some user"
    by (simp_all add: f degraded_turn_def packaged_texts)
next
  assume h: "req_method request = js ''POST''
      \<and> GEN q \<in> set (fst (fetch_part002 rt svc env request))
      \<and> gemini svc q = Fulfilled g \<and> \<not> up_ok g \<and> up_text g = Some err"
  then obtain a' s' where a': "audio_of request = Some a'"
    and s': "snd (listen_part002 rt svc env a') = Inr (JStr s')"
    and f: "fetch_part002 rt svc env request =
         (fst (listen_part002 rt svc env a') @ [GEN q, TTS (tts_request_of env (JStr AI_ERROR))],
          case tts svc (tts_request_of env (JStr AI_ERROR)) of
            Rejected reason \<Rightarrow>
              \<lparr>status = 500, headers = getCorsHeaders_part002, body = ErrorJson (TypeError reason)\<rparr>
          | Fulfilled r \<Rightarrow>
              if up_ok r then
                (case header_value rt s' of
                   Inl e \<Rightarrow> \<lparr>status = 500, headers = getCorsHeaders_part002, body = ErrorJson e\<rparr>
                 | Inr user \<Rightarrow>
                     \<lparr>status = 200,
                      headers = hput ''Access-Control-Expose-Headers'' (js ''X-Ai-Text, X-User-Text'')
                               (hput ''X-User-Text'' user
                                 (hput ''X-Ai-Text'' AI_ERROR
                                   (hput ''Content-Type'' (js ''audio/mpeg'') getCorsHeaders_part002))),
                      body = AudioStream (up_body r)\<rparr>)
              else \<lparr>status = 500, headers = getCorsHeaders_part002,
                     body = ErrorJson (Error TTS_FAILED)\<rparr>)"
    using part002_generation_failed[of request q rt svc env g err] by blast
  show "TTS (tts_request_of env (JStr AI_ERROR)) \<in> set (fst (fetch_part002 rt svc env request))"
    by (simp add: f)
  assume "tts svc (tts_request_of env (JStr AI_ERROR)) = Fulfilled r \<and> up_ok r
             \<and> audio_of request = Some a
             \<and> snd (listen_part002 rt svc env a) = Inr (JStr s)
             \<and> header_value rt s = Inr user"
  with a' s' show "degraded_turn env r (fetch_part002 rt svc env request)"
    and "recognized_text (snd (fetch_part002 rt svc env request)) = Some user"
    by (simp_all add: f degraded_turn_def packaged_texts)
qed

text \<open>The whole turn when the caller was heard and the reply is a string.\<close>

lemma think_part002_speech:
  assumes "1 < length (trim s)" and "spread rt (previousContext_part002 rt h) = Inr ctx"
  shows "think_part002 rt svc env h (JStr s) =
     ([GEN \<lparr>gemini_url = GEMINI_25_URL @ GEMINI_API_KEY env,
             gemini_payload = payload_part002 ctx s\<rparr>],
      reply_of rt (gemini svc \<lparr>gemini_url = GEMINI_25_URL @ GEMINI_API_KEY env,
                               gemini_payload = payload_part002 ctx s\<rparr>) (JStr NOT_HEARD))"
  using assms by (simp add: think_part002_def Let_def)

lemma part002_spoken:
  assumes "req_method request = js ''POST''"
    and "audio_of request = Some a"
    and "snd (listen_part002 rt svc env a) = Inr (JStr s)"
    and "1 < length (trim s)"
    and "spread rt (previousContext_part002 rt (history_of request)) = Inr ctx"
    and "reply_of rt (gemini svc \<lparr>gemini_url = GEMINI_25_URL @ GEMINI_API_KEY env,
                                   gemini_payload = payload_part002 ctx s\<rparr>) (JStr NOT_HEARD)
           = Inr (JStr t)"
    and "tts svc (tts_request_of env (JStr t)) = Fulfilled r" and "up_ok r"
    and "header_value rt t = Inr reply" and "header_value rt s = Inr user"
  shows "fetch_part002 rt svc env request =
     ([STT \<lparr>stt_key = ELEVENLABS_API_KEY env, stt_model_id = STT_MODEL, stt_file = a\<rparr>,
       GEN \<lparr>gemini_url = GEMINI_25_URL @ GEMINI_API_KEY env,
             gemini_payload = payload_part002 ctx s\<rparr>,
       TTS (tts_request_of env (JStr t))],
      \<lparr>status = 200,
       headers = hput ''Access-Control-Expose-Headers'' (js ''X-Ai-Text, X-User-Text'')
                  (hput ''X-User-Text'' user
                    (hput ''X-Ai-Text'' reply
                      (hput ''Content-Type'' (js ''audio/mpeg'') getCorsHeaders_part002))),
       body = AudioStream (up_body r)\<rparr>)"
proof -
  have au: "audio_part002 rt request = pure_of (Inr (a, history_of request))"
    using assms(2) by (rule audio_part002_ok)
  obtain res where l: "listen_part002 rt svc env a =
     ([STT \<lparr>stt_key = ELEVENLABS_API_KEY env, stt_model_id = STT_MODEL, stt_file = a\<rparr>], res)"
    using listen_part002_shape by blast
  with assms(3) have res: "res = Inr (JStr s)" by simp
  show ?thesis
    using assms(1,6)
    by (simp add: fetch_POST try_part002_def au l res and_then_simps
          think_part002_speech[OF assms(4,5)] speak_ok[OF assms(7,8)]
          package_strings[OF assms(9,10)])
       (simp add: pure_of_def finish_def)
qed

lemma part001b_spoken:
  assumes "req_method request = js ''POST''"
    and "audio_of request = Some a" and "100 \<le> size_of a"
    and "snd (listen_part001b rt svc env a) = Inr (JStr s)"
    and "1 < length (trim s)"
    and "q = \<lparr>gemini_url = GEMINI_25_URL @ GEMINI_API_KEY env,
              gemini_payload = JObj
                [(js ''contents'',
                  JArr [JObj [(js ''parts'',
                    JArr [text_part (JStr SYSTEM_PROMPT),
                          text_part (JStr (js ''User said: \"'' @ s @ js ''\"''))])]])]\<rparr>"
    and "reply_of rt (gemini svc q) (JStr NOT_HEARD) = Inr (JStr t)"
    and "tts svc (tts_request_of env (JStr t)) = Fulfilled r" and "up_ok r"
    and "header_value rt t = Inr reply" and "header_value rt s = Inr user"
  shows "fetch_part001b rt svc env request =
     ([STT \<lparr>stt_key = ELEVENLABS_API_KEY env, stt_model_id = STT_MODEL, stt_file = a\<rparr>,
       GEN q, TTS (tts_request_of env (JStr t))],
      \<lparr>status = 200,
       headers = hput ''Access-Control-Expose-Headers'' (js ''X-Ai-Text, X-User-Text'')
                  (hput ''X-User-Text'' user
                    (hput ''X-Ai-Text'' reply
                      (hput ''Content-Type'' (js ''audio/mpeg'') getCorsHeaders_part001b))),
       body = AudioStream (up_body r)\<rparr>)"
proof -
  have au: "audio_part001b rt request = pure_of (Inr a)"
    using assms(2,3) by (rule audio_part001b_file)
  obtain res where l: "listen_part001b rt svc env a =
     ([STT \<lparr>stt_key = ELEVENLABS_API_KEY env, stt_model_id = STT_MODEL, stt_file = a\<rparr>], res)"
    using listen_part001b_shape by blast
  with assms(4) have res: "res = Inr (JStr s)" by simp
  have th: "think_part001b rt svc env (JStr s)
              = ([GEN q], reply_of rt (gemini svc q) (JStr NOT_HEARD))"
    using assms(5) by (simp add: think_part001b_def Let_def assms(6))
  show ?thesis
    using assms(1,7)
    by (simp add: fetch_POST try_part001b_def au l res and_then_simps th
          speak_ok[OF assms(8,9)] package_strings[OF assms(10,11)])
       (simp add: pure_of_def finish_def)
qed

lemma no_history:
  "spread rt (previousContext_part002 rt (history_of (post x None))) = Inr []"
  by (simp add: previousContext_part002_def history_of_def post_def spread_def)

lemma failing_turns:
  "fetch_part002 example_runtime failing_generation_services example_env
      (post (Some (FFile example_audio)) None) =
     ([STT \<lparr>stt_key = ELEVENLABS_API_KEY example_env, stt_model_id = STT_MODEL,
             stt_file = example_audio\<rparr>,
       GEN \<lparr>gemini_url = GEMINI_25_URL @ GEMINI_API_KEY example_env,
             gemini_payload = payload_part002 [] (js ''is my account unfrozen'')\<rparr>,
       TTS (tts_request_of example_env (JStr AI_ERROR))],
      \<lparr>status = 200,
       headers = hput ''Access-Control-Expose-Headers'' (js ''X-Ai-Text, X-User-Text'')
                  (hput ''X-User-Text'' (js ''is my account unfrozen'')
                    (hput ''X-Ai-Text'' AI_ERROR
                      (hput ''Content-Type'' (js ''audio/mpeg'') getCorsHeaders_part002))),
       body = AudioStream (up_body spoken)\<rparr>)"
  "fetch_part001b example_runtime failing_generation_services example_env
      (post (Some (FFile example_audio)) None) =
     ([STT \<lparr>stt_key = ELEVENLABS_API_KEY example_env, stt_model_id = STT_MODEL,
             stt_file = example_audio\<rparr>,
       GEN \<lparr>gemini_url = GEMINI_25_URL @ GEMINI_API_KEY example_env,
              gemini_payload = JObj
                [(js ''contents'',
                  JArr [JObj [(js ''parts'',
                    JArr [text_part (JStr SYSTEM_PROMPT),
                          text_part (JStr (js ''User said: \"'' @ js ''is my account unfrozen''
                                            @ js ''\"''))])]])]\<rparr>,
       TTS (tts_request_of example_env (JStr AI_ERROR))],
      \<lparr>status = 200,
       headers = hput ''Access-Control-Expose-Headers'' (js ''X-Ai-Text, X-User-Text'')
                  (hput ''X-User-Text'' (js ''is my account unfrozen'')
                    (hput ''X-Ai-Text'' AI_ERROR
                      (hput ''Content-Type'' (js ''audio/mpeg'') getCorsHeaders_part001b))),
       body = AudioStream (up_body spoken)\<rparr>)"
proof -
  have reply: "reply_of example_runtime (gemini failing_generation_services q) d
                 = Inr (JStr AI_ERROR)" for q d
    by (simp add: example_services reply_of_failure)
  show "fetch_part002 example_runtime failing_generation_services example_env
      (post (Some (FFile example_audio)) None) =
     ([STT \<lparr>stt_key = ELEVENLABS_API_KEY example_env, stt_model_id = STT_MODEL,
             stt_file = example_audio\<rparr>,
       GEN \<lparr>gemini_url = GEMINI_25_URL @ GEMINI_API_KEY example_env,
             gemini_payload = payload_part002 [] (js ''is my account unfrozen'')\<rparr>,
       TTS (tts_request_of example_env (JStr AI_ERROR))],
      \<lparr>status = 200,
       headers = hput ''Access-Control-Expose-Headers'' (js ''X-Ai-Text, X-User-Text'')
                  (hput ''X-User-Text'' (js ''is my account unfrozen'')
                    (hput ''X-Ai-Text'' AI_ERROR
                      (hput ''Content-Type'' (js ''audio/mpeg'') getCorsHeaders_part002))),
       body = AudioStream (up_body spoken)\<rparr>)"
    by (rule part002_spoken[OF example_audio_valid(3) example_audio_valid(1)
          example_transcripts(4) example_lengths(2) no_history reply
          example_services(5) spoken_facts(1) header_value_fixed(4)
          example_header_values(2)])
  show "fetch_part001b example_runtime failing_generation_services example_env
      (post (Some (FFile example_audio)) None) =
     ([STT \<lparr>stt_key = ELEVENLABS_API_KEY example_env, stt_model_id = STT_MODEL,
             stt_file = example_audio\<rparr>,
       GEN \<lparr>gemini_url = GEMINI_25_URL @ GEMINI_API_KEY example_env,
              gemini_payload = JObj
                [(js ''contents'',
                  JArr [JObj [(js ''parts'',
                    JArr [text_part (JStr SYSTEM_PROMPT),
                          text_part (JStr (js ''User said: \"'' @ js ''is my account unfrozen''
                                            @ js ''\"''))])]])]\<rparr>,
       TTS (tts_request_of example_env (JStr AI_ERROR))],
      \<lparr>status = 200,
       headers = hput ''Access-Control-Expose-Headers'' (js ''X-Ai-Text, X-User-Text'')
                  (hput ''X-User-Text'' (js ''is my account unfrozen'')
                    (hput ''X-Ai-Text'' AI_ERROR
                      (hput ''Content-Type'' (js ''audio/mpeg'') getCorsHeaders_part001b))),
       body = AudioStream (up_body spoken)\<rparr>)"
    by (rule part001b_spoken[OF example_audio_valid(3) example_audio_valid(1)
          example_audio_valid(2) example_transcripts(3) example_lengths(2) refl reply
          example_services(5) spoken_facts(1) header_value_fixed(4)
          example_header_values(2)])
qed

theorem generation_failure_degrades_witness:
  "GEN \<lparr>gemini_url = GEMINI_25_URL @ GEMINI_API_KEY example_env,
        gemini_payload = payload_part002 [] (js ''is my account unfrozen'')\<rparr>
     \<in> set (fst (fetch_part002 example_runtime failing_generation_services example_env
                   (post (Some (FFile example_audio)) None)))
   \<and> degraded_turn example_env spoken
       (fetch_part002 example_runtime failing_generation_services example_env
          (post (Some (FFile example_audio)) None))
   \<and> recognized_text (snd (fetch_part002 example_runtime failing_generation_services
        example_env (post (Some (FFile example_audio)) None)))
       = Some (js ''is my account unfrozen'')
   \<and> degraded_turn example_env spoken
       (fetch_part001b example_runtime failing_generation_services example_env
          (post (Some (FFile example_audio)) None))
   \<and> recognized_text (snd (fetch_part001b example_runtime failing_generation_services
        example_env (post (Some (FFile example_audio)) None)))
       = Some (js ''is my account unfrozen'')"
proof -
  let ?request = "post (Some (FFile example_audio)) None"
  let ?q2 = "\<lparr>gemini_url = GEMINI_25_URL @ GEMINI_API_KEY example_env,
              gemini_payload = payload_part002 [] (js ''is my account unfrozen'')\<rparr>"
  let ?q1 = "\<lparr>gemini_url = GEMINI_25_URL @ GEMINI_API_KEY example_env,
              gemini_payload = JObj
                [(js ''contents'',
                  JArr [JObj [(js ''parts'',
                    JArr [text_part (JStr SYSTEM_PROMPT),
                          text_part (JStr (js ''User said: \"'' @ js ''is my account unfrozen''
                                            @ js ''\"''))])]])]\<rparr>"
  have called2: "GEN ?q2 \<in> set (fst (fetch_part002 example_runtime
                   failing_generation_services example_env ?request))"
    by (simp add: failing_turns)
  have called1: "GEN ?q1 \<in> set (fst (fetch_part001b example_runtime
                   failing_generation_services example_env ?request))"
    by (simp add: failing_turns)
  have failed: "req_method ?request = js ''POST''
      \<and> gemini failing_generation_services q = Fulfilled (failure (js ''quota exceeded''))
      \<and> \<not> up_ok (failure (js ''quota exceeded''))
      \<and> up_text (failure (js ''quota exceeded'')) = Some (js ''quota exceeded'')" for q
    by (intro conjI example_audio_valid example_services spoken_facts)
  have spoke: "tts failing_generation_services (tts_request_of example_env (JStr AI_ERROR))
        = Fulfilled spoken \<and> up_ok spoken
      \<and> audio_of ?request = Some example_audio
      \<and> snd (listen_part002 example_runtime failing_generation_services example_env
               example_audio) = Inr (JStr (js ''is my account unfrozen''))
      \<and> snd (listen_part001b example_runtime failing_generation_services example_env
               example_audio) = Inr (JStr (js ''is my account unfrozen''))
      \<and> header_value example_runtime (js ''is my account unfrozen'')
          = Inr (js ''is my account unfrozen'')"
    by (intro conjI example_audio_valid example_services spoken_facts example_transcripts
        example_header_values)
  have "degraded_turn example_env spoken
          (fetch_part002 example_runtime failing_generation_services example_env ?request)
      \<and> recognized_text (snd (fetch_part002 example_runtime failing_generation_services
            example_env ?request)) = Some (js ''is my account unfrozen'')"
    using generation_failure_degrades
      [of ?request ?q2 example_runtime failing_generation_services example_env
          "failure (js ''quota exceeded'')" "js ''quota exceeded''" spoken example_audio
          "js ''is my account unfrozen''" "js ''is my account unfrozen''"]
      called2 failed[of ?q2] spoke
    by blast
  moreover have "degraded_turn example_env spoken
          (fetch_part001b example_runtime failing_generation_services example_env ?request)
      \<and> recognized_text (snd (fetch_part001b example_runtime failing_generation_services
            example_env ?request)) = Some (js ''is my account unfrozen'')"
    using generation_failure_degrades
      [of ?request ?q1 example_runtime failing_generation_services example_env
          "failure (js ''quota exceeded'')" "js ''quota exceeded''" spoken example_audio
          "js ''is my account unfrozen''" "js ''is my account unfrozen''"]
      called1 failed[of ?q1] spoke
    by blast
  ultimately show ?thesis using called2 by blast
qed

text \<open>In the first revision (part\_000, lines 104-107) a non-success response of the
  generation service is thrown: the turn ends with status 500 and the synthesis is never
  called.\<close>

lemma failing_part000:
  "fetch_part000 example_runtime failing_generation_services example_env
      (post (Some (FFile example_audio)) None) =
   ([STT \<lparr>stt_key = js ''k1'', stt_model_id = STT_MODEL,
           stt_file = \<lparr>file_name = js ''audio.webm'', file_type = js ''audio/webm'',
                        file_bytes = replicate 128 0\<rparr>\<rparr>,
     GEN \<lparr>gemini_url = js ''https://generativelanguage.googleapis.com/v1beta/models/gemini-1.5-flash:generateContent?key='' @ js ''k2'',
           gemini_payload = JObj
             [(js ''contents'',
               JArr [JObj [(js ''parts'',
                 JArr [text_part (JStr SYSTEM_PROMPT),
                       text_part (JStr (js ''User said: \"'' @ js ''is my account unfrozen''
                                         @ js ''\"''))])]])]\<rparr>],
    \<lparr>status = 500, headers = corsHeaders,
      body = ErrorJson (Error (js ''Gemini API Failed: quota exceeded''))\<rparr>)"
proof -
  have l: "listen_part000 example_runtime failing_generation_services example_env a =
           ([STT \<lparr>stt_key = ELEVENLABS_API_KEY example_env, stt_model_id = STT_MODEL,
                   stt_file = a\<rparr>],
            Inr (JStr (js ''is my account unfrozen'')))" for a
    by (rule listen_heard(3)[OF _ example_parses_stt(2)])
       (simp add: failing_generation_services_def hears_def)
  show ?thesis
    apply (simp add: fetch_part000_def try_part000_def audio_part000_def post_def js_POST_neq
       and_then_simps l)
    apply (simp add: think_part000_def to_string_def Let_def example_services text_of_def
       failure_def and_then_simps finish_def js_append[symmetric]
       example_env_def example_audio_def)
    done
qed

theorem generation_failure_counterexample:
  "status (snd (fetch_part000 example_runtime failing_generation_services example_env
      (post (Some (FFile example_audio)) None))) = 500
   \<and> body (snd (fetch_part000 example_runtime failing_generation_services example_env
      (post (Some (FFile example_audio)) None)))
      = ErrorJson (Error (js ''Gemini API Failed: quota exceeded''))
   \<and> filter is_TTS (fst (fetch_part000 example_runtime failing_generation_services example_env
      (post (Some (FFile example_audio)) None))) = []"
  by (simp add: failing_part000 is_TTS_def)

section \<open>Requests without a usable audio file\<close>

text \<open>
  C4. In the revision with the minimum audio size (part\_001 lines 189-312), every POST
  request without an audio file (no form, no audio field, or a field that is not a file)
  or with an audio file of less than 100 bytes is answered with status 500 and an error
  object, and no outbound call is made. The revision part\_002 has no minimum size; there
  the same holds for every POST request without an audio file. The error is the handler's
  own, or the TypeError of the runtime when the body of the request is not a form.
\<close>

theorem invalid_input_rejected:
  "(req_method request = js ''POST''
      \<and> (audio_of request = None \<or> (\<exists>a. audio_of request = Some a \<and> size_of a < 100))
    \<longrightarrow> fst (fetch_part001b rt svc env request) = []
        \<and> status (snd (fetch_part001b rt svc env request)) = 500
        \<and> body (snd (fetch_part001b rt svc env request))
             \<in> {ErrorJson (Error NO_AUDIO), ErrorJson (Error TOO_SHORT),
                 ErrorJson (TypeError (message rt NotAForm))})
   \<and> (req_method request = js ''POST'' \<and> audio_of request = None
    \<longrightarrow> fst (fetch_part002 rt svc env request) = []
        \<and> status (snd (fetch_part002 rt svc env request)) = 500
        \<and> body (snd (fetch_part002 rt svc env request))
             \<in> {ErrorJson (Error NO_AUDIO), ErrorJson (TypeError (message rt NotAForm))})"
  by (auto simp: fetch_POST try_part001b_def try_part002_def audio_part001b_def
      audio_part002_def audio_of_def and_then_simps pure_of_def finish_def thrown_def
      split: option.splits formval.splits)

theorem invalid_input_rejected_witness:
  "fetch_part001b example_runtime talking_services example_env
       (post (Some (FFile tiny_audio)) None)
     = ([], \<lparr>status = 500, headers = getCorsHeaders_part001b,
              body = ErrorJson (Error TOO_SHORT)\<rparr>)
   \<and> fetch_part001b example_runtime talking_services example_env (post None None)
     = ([], \<lparr>status = 500, headers = getCorsHeaders_part001b,
              body = ErrorJson (Error NO_AUDIO)\<rparr>)
   \<and> fetch_part002 example_runtime talking_services example_env (post None None)
     = ([], \<lparr>status = 500, headers = getCorsHeaders_part002,
              body = ErrorJson (Error NO_AUDIO)\<rparr>)"
proof -
  have a: "fst (fetch_part001b example_runtime talking_services example_env
       (post (Some (FFile tiny_audio)) None)) = []"
    using invalid_input_rejected[of "post (Some (FFile tiny_audio)) None" example_runtime
        talking_services example_env] tiny_audio_invalid example_audio_valid(3)
    by blast
  have b: "fst (fetch_part001b example_runtime talking_services example_env
       (post None None)) = []"
    using invalid_input_rejected[of "post None None" example_runtime
        talking_services example_env] tiny_audio_invalid example_audio_valid(3)
    by blast
  have c: "fst (fetch_part002 example_runtime talking_services example_env
       (post None None)) = []"
    using invalid_input_rejected[of "post None None" example_runtime
        talking_services example_env] tiny_audio_invalid example_audio_valid(3)
    by blast
  have "snd (fetch_part001b example_runtime talking_services example_env
       (post (Some (FFile tiny_audio)) None))
     = \<lparr>status = 500, headers = getCorsHeaders_part001b, body = ErrorJson (Error TOO_SHORT)\<rparr>"
   "snd (fetch_part001b example_runtime talking_services example_env (post None None))
     = \<lparr>status = 500, headers = getCorsHeaders_part001b, body = ErrorJson (Error NO_AUDIO)\<rparr>"
   "snd (fetch_part002 example_runtime talking_services example_env (post None None))
     = \<lparr>status = 500, headers = getCorsHeaders_part002, body = ErrorJson (Error NO_AUDIO)\<rparr>"
    by (simp_all add: fetch_POST example_audio_valid(3) try_part001b_def try_part002_def
        audio_part001b_def audio_part002_def post_def tiny_audio_invalid and_then_simps
        pure_of_def finish_def)
  with a b c show ?thesis by (simp add: prod_eq_iff)
qed

section \<open>Two runs of the same turn\<close>

lemma empty_history_context:
  "empty_history rt request \<Longrightarrow> previousContext_part002 rt (history_of request) = JArr []"
  by (auto simp: empty_history_def previousContext_part002_def)

lemma part002_depends:
  assumes "req_method r1 = js ''POST''" "req_method r2 = js ''POST''"
    and "audio_of r1 = Some a" "audio_of r2 = Some a"
    and "previousContext_part002 rt (history_of r1) = previousContext_part002 rt (history_of r2)"
  shows "fetch_part002 rt svc env r1 = fetch_part002 rt svc env r2"
proof -
  have t: "think_part002 rt svc env (history_of r1) u
         = think_part002 rt svc env (history_of r2) u" for u
    unfolding think_part002_def assms(5) ..
  show ?thesis
    by (simp add: fetch_POST assms(1,2) try_part002_def audio_part002_ok[OF assms(3)]
        audio_part002_ok[OF assms(4)] and_then_simps t)
qed

text \<open>The turn of the example conversation in part\_002, for a request without history
  or with a history that the runtime parses to the context \<open>ctx\<close>.\<close>

lemma talking_part002:
  assumes "spread example_runtime (previousContext_part002 example_runtime h) = Inr ctx"
  shows "fetch_part002 example_runtime talking_services example_env
      (post (Some (FFile example_audio)) h) =
     ([STT \<lparr>stt_key = ELEVENLABS_API_KEY example_env, stt_model_id = STT_MODEL,
             stt_file = example_audio\<rparr>,
       GEN \<lparr>gemini_url = GEMINI_25_URL @ GEMINI_API_KEY example_env,
             gemini_payload = payload_part002 ctx (js ''is my account unfrozen'')\<rparr>,
       TTS (tts_request_of example_env (JStr (js ''Nah man, still locked. You know anything?'')))],
      \<lparr>status = 200,
       headers = hput ''Access-Control-Expose-Headers'' (js ''X-Ai-Text, X-User-Text'')
                  (hput ''X-User-Text'' (js ''is my account unfrozen'')
                    (hput ''X-Ai-Text'' (js ''Nah man, still locked. You know anything?'')
                      (hput ''Content-Type'' (js ''audio/mpeg'') getCorsHeaders_part002))),
       body = AudioStream (up_body spoken)\<rparr>)"
proof -
  have reply: "reply_of example_runtime (gemini talking_services q) d
                 = Inr (JStr (js ''Nah man, still locked. You know anything?''))" for q d
    by (simp add: example_services reply_of_generated example_parses_gemini example_texts)
  have sp: "spread example_runtime (previousContext_part002 example_runtime
               (history_of (post (Some (FFile example_audio)) h))) = Inr ctx"
    using assms by (simp add: history_of_post)
  show ?thesis
    by (rule part002_spoken[OF example_audio_valid(3) example_audio_valid(1)
          example_transcripts(5) example_lengths(2) sp reply
          example_services(6) spoken_facts(1) example_header_values(3)
          example_header_values(2)])
qed

lemma example_contexts:
  "spread example_runtime (previousContext_part002 example_runtime None) = Inr []"
  \<open>spread example_runtime (previousContext_part002 example_runtime
      (Some (FString (js ''[{"role":"assistant","content":"hi"}]''))))
     = Inr [prior (js ''assistant'') (js ''hi'')]\<close>
  \<open>spread example_runtime (previousContext_part002 example_runtime
      (Some (FString (js ''[{bad'')))) = Inr []\<close>
  by (simp_all add: previousContext_part002_def spread_def example_parses example_rejects)

text \<open>
  C9. In part\_002, two POST requests that carry the same audio file and an empty history
  (no history field, or one that parses to the empty array), handled with the same
  services, environment and runtime, get the same recognized-text and reply-text headers,
  whatever else differs between the two requests.
\<close>

theorem same_turn_same_metadata:
  "req_method r1 = js ''POST'' \<and> req_method r2 = js ''POST''
   \<and> audio_of r1 = Some a \<and> audio_of r2 = Some a
   \<and> empty_history rt r1 \<and> empty_history rt r2
   \<longrightarrow> recognized_text (snd (fetch_part002 rt svc env r1))
         = recognized_text (snd (fetch_part002 rt svc env r2))
       \<and> reply_text (snd (fetch_part002 rt svc env r1))
         = reply_text (snd (fetch_part002 rt svc env r2))"
  using part002_depends[of r1 r2 a rt svc env] empty_history_context[of rt r1]
    empty_history_context[of rt r2]
  by auto

theorem same_turn_same_metadata_witness:
  "recognized_text (snd (fetch_part002 history_runtime talking_services example_env
       (post (Some (FFile example_audio)) None)))
     = Some (js ''is my account unfrozen'')
   \<and> reply_text (snd (fetch_part002 history_runtime talking_services example_env
       (post (Some (FFile example_audio)) None)))
     = Some (js ''Nah man, still locked. You know anything?'')
   \<and> recognized_text (snd (fetch_part002 history_runtime talking_services example_env
       (post (Some (FFile example_audio)) (Some (FString (js ''[]'')))
          \<lparr>req_origin := Some (js ''https://app.example'')\<rparr>)))
     = Some (js ''is my account unfrozen'')
   \<and> reply_text (snd (fetch_part002 history_runtime talking_services example_env
       (post (Some (FFile example_audio)) (Some (FString (js ''[]'')))
          \<lparr>req_origin := Some (js ''https://app.example'')\<rparr>)))
     = Some (js ''Nah man, still locked. You know anything?'')"
proof -
  let ?r1 = "post (Some (FFile example_audio)) None"
  let ?r2 = "post (Some (FFile example_audio)) (Some (FString (js ''[]'')))
               \<lparr>req_origin := Some (js ''https://app.example'')\<rparr>"
  have e1: "empty_history history_runtime ?r1"
    by (simp add: empty_history_def history_of_post)
  have e2: "empty_history history_runtime ?r2"
    by (simp add: empty_history_def history_of_post history_runtime_def example_parses)
  have first: "fetch_part002 history_runtime talking_services example_env ?r1 =
     ([STT \<lparr>stt_key = ELEVENLABS_API_KEY example_env, stt_model_id = STT_MODEL,
             stt_file = example_audio\<rparr>,
       GEN \<lparr>gemini_url = GEMINI_25_URL @ GEMINI_API_KEY example_env,
             gemini_payload = payload_part002 [] (js ''is my account unfrozen'')\<rparr>,
       TTS (tts_request_of example_env (JStr (js ''Nah man, still locked. You know anything?'')))],
      \<lparr>status = 200,
       headers = hput ''Access-Control-Expose-Headers'' (js ''X-Ai-Text, X-User-Text'')
                  (hput ''X-User-Text'' (js ''is my account unfrozen'')
                    (hput ''X-Ai-Text'' (js ''Nah man, still locked. You know anything?'')
                      (hput ''Content-Type'' (js ''audio/mpeg'') getCorsHeaders_part002))),
       body = AudioStream (up_body spoken)\<rparr>)"
    unfolding history_runtime_def by (rule talking_part002[OF example_contexts(1)])
  from same_turn_same_metadata
    [of ?r1 ?r2 example_audio history_runtime talking_services example_env] e1 e2
  have "recognized_text (snd (fetch_part002 history_runtime talking_services example_env ?r1))
         = recognized_text (snd (fetch_part002 history_runtime talking_services example_env ?r2))
      \<and> reply_text (snd (fetch_part002 history_runtime talking_services example_env ?r1))
         = reply_text (snd (fetch_part002 history_runtime talking_services example_env ?r2))"
    by (simp add: example_audio_valid history_of_post)
  then show ?thesis
    by (simp add: first packaged_texts)
qed

section \<open>The history in the generation request\<close>

lemma map_remap_ok:
  "\<forall>m \<in> set msgs. \<not> nullish m \<Longrightarrow> map_remap rt msgs = Inr (map role_mapped msgs)"
  by (induction msgs) (simp_all add: remap_def get_def role_mapped_def)

lemma role_mapped_prior:
  "role_mapped (prior r c) =
     turn (if r = js ''assistant'' then js ''model'' else js ''user'') (JStr c)"
  by (simp add: role_mapped_def prior_def) (simp add: js_def)

lemma fst_think_index:
  assumes "geminiPayload rt (history_index rt h) u = Inr p"
  shows "fst (think_index rt svc env h u) =
     [GEN \<lparr>gemini_url = js ''https://generativelanguage.googleapis.com/v1beta/models/gemini-2.0-flash-exp:generateContent?key='' @ GEMINI_API_KEY env,
            gemini_payload = p\<rparr>]"
  using assms by (simp add: think_index_def Let_def)

lemma think_index_in_calls:
  assumes "req_method request = js ''POST''" and "audio_of request = Some a"
    and "snd (hear_index rt svc env a) = Inr (JStr u)"
  shows "set (fst (think_index rt svc env (history_of request) (JStr u)))
           \<subseteq> set (fst (fetch_index rt svc env request))"
proof -
  obtain res where l: "hear_index rt svc env a =
     ([STT \<lparr>stt_key = ELEVENLABS_API_KEY env, stt_model_id = js ''scribble_google_v1'',
             stt_file = a\<rparr>], res)"
    using hear_index_shape by blast
  with assms(3) have res: "res = Inr (JStr u)" by simp
  show ?thesis
    using assms(1) calls_and_then[of "think_index rt svc env (history_of request) (JStr u)"]
    by (auto simp: fetch_index_POST fst_finish try_index_def audio_index_ok[OF assms(2)]
        l res and_then_simps)
qed

lemma think_part002_in_calls:
  assumes "req_method request = js ''POST''" and "audio_of request = Some a"
    and "snd (listen_part002 rt svc env a) = Inr (JStr s)"
  shows "set (fst (think_part002 rt svc env (history_of request) (JStr s)))
           \<subseteq> set (fst (fetch_part002 rt svc env request))"
proof -
  obtain res where l: "listen_part002 rt svc env a =
     ([STT \<lparr>stt_key = ELEVENLABS_API_KEY env, stt_model_id = STT_MODEL, stt_file = a\<rparr>], res)"
    using listen_part002_shape by blast
  with assms(3) have res: "res = Inr (JStr s)" by simp
  show ?thesis
    using assms(1) calls_and_then[of "think_part002 rt svc env (history_of request) (JStr s)"]
    by (auto simp: fetch_POST fst_finish try_part002_def audio_part002_ok[OF assms(2)]
        l res and_then_simps)
qed

lemma index_calls_generation:
  assumes "req_method request = js ''POST''" and "audio_of request = Some a"
    and "snd (hear_index rt svc env a) = Inr (JStr u)"
    and "geminiPayload rt (history_index rt (history_of request)) (JStr u) = Inr p"
  shows "GEN \<lparr>gemini_url = js ''https://generativelanguage.googleapis.com/v1beta/models/gemini-2.0-flash-exp:generateContent?key='' @ GEMINI_API_KEY env,
              gemini_payload = p\<rparr>
           \<in> set (fst (fetch_index rt svc env request))"
  using think_index_in_calls[OF assms(1-3)] fst_think_index[OF assms(4), of svc env]
  by auto

lemma index_history_forwarded:
  assumes "req_method request = js ''POST''" and "audio_of request = Some a"
    and "snd (hear_index rt svc env a) = Inr (JStr u)"
    and "history_of request = Some (FString h)" and "h \<noteq> []"
    and "JSON_parse rt h = Some (JArr msgs)" and "\<forall>m \<in> set msgs. \<not> nullish m"
  shows "GEN \<lparr>gemini_url = js ''https://generativelanguage.googleapis.com/v1beta/models/gemini-2.0-flash-exp:generateContent?key='' @ GEMINI_API_KEY env,
              gemini_payload = JObj
                 [(js ''contents'',
                     JArr (turn (js ''user'') (JStr systemPrompt) # map role_mapped msgs
                           @ [turn (js ''user'') (JStr u)])),
                  (js ''generationConfig'',
                     JObj [(js ''response_mime_type'', JStr (js ''application/json''))])]\<rparr>
           \<in> set (fst (fetch_index rt svc env request))"
proof (rule index_calls_generation[OF assms(1-3)])
  show "geminiPayload rt (history_index rt (history_of request)) (JStr u) = Inr (JObj
                 [(js ''contents'',
                     JArr (turn (js ''user'') (JStr systemPrompt) # map role_mapped msgs
                           @ [turn (js ''user'') (JStr u)])),
                  (js ''generationConfig'',
                     JObj [(js ''response_mime_type'', JStr (js ''application/json''))])])"
    using assms(4-7) by (simp add: geminiPayload_def history_index_def map_remap_ok)
qed

lemma part002_history_forwarded:
  assumes "req_method request = js ''POST''" and "audio_of request = Some a"
    and "snd (listen_part002 rt svc env a) = Inr (JStr s)" and "1 < length (trim s)"
    and "history_of request = Some (FString h)"
    and "JSON_parse rt h = Some (JArr msgs)"
  shows "GEN \<lparr>gemini_url = GEMINI_25_URL @ GEMINI_API_KEY env,
              gemini_payload = JObj
                [(js ''system_instruction'',
                    JObj [(js ''parts'', JArr [text_part (JStr SYSTEM_PROMPT)])]),
                 (js ''contents'', JArr (msgs @ [turn (js ''user'') (JStr s)]))]\<rparr>
           \<in> set (fst (fetch_part002 rt svc env request))"
proof -
  have sp: "spread rt (previousContext_part002 rt (history_of request)) = Inr msgs"
    using assms(5,6) by (simp add: previousContext_part002_def spread_def)
  show ?thesis
    using think_part002_in_calls[OF assms(1-3)]
      think_part002_speech[OF assms(4) sp, of svc env]
    by (auto simp: payload_part002_def)
qed

text \<open>
  C3 (as amended). In index.ts, for every POST request with a valid audio file, a
  transcript that is a string, and a history field that parses to an array of \<open>N\<close>
  entries, none of them \<^verbatim>\<open>null\<close>, the request sent to the generation service has as
  contents: the persona prompt as a first user
  turn, the \<open>N\<close> entries in their order, each with the role "model" when its role is
  "assistant" and the role "user" otherwise, and the transcript as the last user turn.
  In part\_002 (whose generation step runs for a transcript of more than one code unit
  once trimmed) the \<open>N\<close> entries are forwarded as they are, in their order, before the
  transcript as the last user turn.
\<close>

theorem history_forwarded_in_order:
  "(req_method request = js ''POST'' \<and> audio_of request = Some a
      \<and> snd (hear_index rt svc env a) = Inr (JStr u)
      \<and> history_of request = Some (FString h) \<and> h \<noteq> []
      \<and> JSON_parse rt h = Some (JArr msgs) \<and> (\<forall>m \<in> set msgs. \<not> nullish m)
    \<longrightarrow> GEN \<lparr>gemini_url = js ''https://generativelanguage.googleapis.com/v1beta/models/gemini-2.0-flash-exp:generateContent?key='' @ GEMINI_API_KEY env,
              gemini_payload = JObj
                 [(js ''contents'',
                     JArr (turn (js ''user'') (JStr systemPrompt) # map role_mapped msgs
                           @ [turn (js ''user'') (JStr u)])),
                  (js ''generationConfig'',
                     JObj [(js ''response_mime_type'', JStr (js ''application/json''))])]\<rparr>
           \<in> set (fst (fetch_index rt svc env request)))
   \<and> role_mapped (prior r c)
       = turn (if r = js ''assistant'' then js ''model'' else js ''user'') (JStr c)
   \<and> (req_method request = js ''POST'' \<and> audio_of request = Some a
      \<and> snd (listen_part002 rt svc env a) = Inr (JStr s) \<and> 1 < length (trim s)
      \<and> history_of request = Some (FString h)
      \<and> JSON_parse rt h = Some (JArr msgs)
    \<longrightarrow> GEN \<lparr>gemini_url = GEMINI_25_URL @ GEMINI_API_KEY env,
              gemini_payload = JObj
                [(js ''system_instruction'',
                    JObj [(js ''parts'', JArr [text_part (JStr SYSTEM_PROMPT)])]),
                 (js ''contents'', JArr (msgs @ [turn (js ''user'') (JStr s)]))]\<rparr>
           \<in> set (fst (fetch_part002 rt svc env request)))"
  using index_history_forwarded[of request a rt svc env u h msgs]
    part002_history_forwarded[of request a rt svc env s h msgs]
    role_mapped_prior[of r c]
  by blast

lemma history_json_nonempty:
  "\<forall>m \<in> set [prior (js ''assistant'') (js ''hi'')]. \<not> nullish m"
  by (simp add: prior_def)

lemma history_runtime_facts:
  "JSON_parse history_runtime (js ''[{\"role\":\"assistant\",\"content\":\"hi\"}]'')
     = Some (JArr [prior (js ''assistant'') (js ''hi'')])"
  "snd (hear_index history_runtime talking_services env a)
     = Inr (JStr (js ''is my account unfrozen''))"
  "snd (listen_part002 history_runtime talking_services env a)
     = Inr (JStr (js ''is my account unfrozen''))"
  by (simp_all add: history_runtime_def example_parses example_transcripts)

theorem history_forwarded_in_order_witness:
  "GEN \<lparr>gemini_url = js ''https://generativelanguage.googleapis.com/v1beta/models/gemini-2.0-flash-exp:generateContent?key='' @ GEMINI_API_KEY example_env,
         gemini_payload = JObj
           [(js ''contents'',
               JArr [turn (js ''user'') (JStr systemPrompt),
                     turn (js ''model'') (JStr (js ''hi'')),
                     turn (js ''user'') (JStr (js ''is my account unfrozen''))]),
            (js ''generationConfig'',
               JObj [(js ''response_mime_type'', JStr (js ''application/json''))])]\<rparr>
     \<in> set (fst (fetch_index history_runtime talking_services example_env
          (post (Some (FFile example_audio))
             (Some (FString (js ''[{\"role\":\"assistant\",\"content\":\"hi\"}]''))))))
   \<and> GEN \<lparr>gemini_url = GEMINI_25_URL @ GEMINI_API_KEY example_env,
           gemini_payload = JObj
             [(js ''system_instruction'',
                 JObj [(js ''parts'', JArr [text_part (JStr SYSTEM_PROMPT)])]),
              (js ''contents'',
                 JArr [prior (js ''assistant'') (js ''hi''),
                       turn (js ''user'') (JStr (js ''is my account unfrozen''))])]\<rparr>
     \<in> set (fst (fetch_part002 history_runtime talking_services example_env
          (post (Some (FFile example_audio))
             (Some (FString (js ''[{\"role\":\"assistant\",\"content\":\"hi\"}]''))))))"
proof -
  let ?h = "js ''[{\"role\":\"assistant\",\"content\":\"hi\"}]''"
  let ?request = "post (Some (FFile example_audio)) (Some (FString ?h))"
  note t = history_forwarded_in_order
    [of ?request example_audio history_runtime talking_services example_env
        "js ''is my account unfrozen''" ?h
        "[prior (js ''assistant'') (js ''hi'')]" "js ''assistant''" "js ''hi''"
        "js ''is my account unfrozen''"]
  have index: "req_method ?request = js ''POST'' \<and> audio_of ?request = Some example_audio
      \<and> snd (hear_index history_runtime talking_services example_env example_audio)
          = Inr (JStr (js ''is my account unfrozen''))
      \<and> history_of ?request = Some (FString ?h) \<and> ?h \<noteq> []
      \<and> JSON_parse history_runtime ?h = Some (JArr [prior (js ''assistant'') (js ''hi'')])
      \<and> (\<forall>m \<in> set [prior (js ''assistant'') (js ''hi'')]. \<not> nullish m)"
    by (intro conjI example_audio_valid history_runtime_facts history_of_post
        example_texts history_json_nonempty)
  have part002: "req_method ?request = js ''POST'' \<and> audio_of ?request = Some example_audio
      \<and> snd (listen_part002 history_runtime talking_services example_env example_audio)
          = Inr (JStr (js ''is my account unfrozen''))
      \<and> 1 < length (trim (js ''is my account unfrozen''))
      \<and> history_of ?request = Some (FString ?h)
      \<and> JSON_parse history_runtime ?h = Some (JArr [prior (js ''assistant'') (js ''hi'')])"
    by (intro conjI example_audio_valid history_runtime_facts history_of_post
        example_lengths)
  from t index have "GEN \<lparr>gemini_url = js ''https://generativelanguage.googleapis.com/v1beta/models/gemini-2.0-flash-exp:generateContent?key='' @ GEMINI_API_KEY example_env,
         gemini_payload = JObj
           [(js ''contents'',
               JArr (turn (js ''user'') (JStr systemPrompt)
                     # map role_mapped [prior (js ''assistant'') (js ''hi'')]
                     @ [turn (js ''user'') (JStr (js ''is my account unfrozen''))])),
            (js ''generationConfig'',
               JObj [(js ''response_mime_type'', JStr (js ''application/json''))])]\<rparr>
     \<in> set (fst (fetch_index history_runtime talking_services example_env ?request))"
    by blast
  moreover from t have "role_mapped (prior (js ''assistant'') (js ''hi''))
      = turn (if js ''assistant'' = js ''assistant'' then js ''model'' else js ''user'')
          (JStr (js ''hi''))"
    by blast
  moreover from t part002 have "GEN \<lparr>gemini_url = GEMINI_25_URL @ GEMINI_API_KEY example_env,
           gemini_payload = JObj
             [(js ''system_instruction'',
                 JObj [(js ''parts'', JArr [text_part (JStr SYSTEM_PROMPT)])]),
              (js ''contents'',
                 JArr ([prior (js ''assistant'') (js ''hi'')]
                       @ [turn (js ''user'') (JStr (js ''is my account unfrozen''))]))]\<rparr>
     \<in> set (fst (fetch_part002 history_runtime talking_services example_env ?request))"
    by blast
  ultimately show ?thesis
    by simp
qed

text \<open>In part\_002 an entry with the role "assistant" reaches the generation service with
  the role "assistant": the one generation request of this turn carries it unchanged.\<close>

theorem history_role_counterexample:
  "filter is_GEN (fst (fetch_part002 history_runtime talking_services example_env
      (post (Some (FFile example_audio))
         (Some (FString (js ''[{\"role\":\"assistant\",\"content\":\"hi\"}]''))))))
   = [GEN \<lparr>gemini_url = GEMINI_25_URL @ GEMINI_API_KEY example_env,
           gemini_payload = JObj
             [(js ''system_instruction'',
                 JObj [(js ''parts'', JArr [text_part (JStr SYSTEM_PROMPT)])]),
              (js ''contents'',
                 JArr [JObj [(js ''role'', JStr (js ''assistant'')),
                             (js ''content'', JStr (js ''hi''))],
                       turn (js ''user'') (JStr (js ''is my account unfrozen''))])]\<rparr>]"
  unfolding history_runtime_def
  by (simp add: talking_part002[OF example_contexts(2)] is_GEN_def payload_part002_def
      prior_def)

section \<open>The metadata of a successful turn\<close>

lemma think_part002_string:
  "snd (think_part002 rt svc env h u) = Inr t \<Longrightarrow> \<exists>s. u = JStr s"
  by (auto simp: think_part002_def Let_def pure_of_def split: jsval.splits)

lemma part002_success:
  assumes post: "req_method request = js ''POST''"
    and ok: "status (snd (fetch_part002 rt svc env request)) = 200"
  shows "\<exists>a s aiText r.
       audio_of request = Some a
     \<and> snd (listen_part002 rt svc env a) = Inr (JStr s)
     \<and> snd (think_part002 rt svc env (history_of request) (JStr s)) = Inr aiText
     \<and> tts svc (tts_request_of env aiText) = Fulfilled r \<and> up_ok r
     \<and> snd (package rt getCorsHeaders_part002 aiText (JStr s) r)
         = Inr (snd (fetch_part002 rt svc env request))
     \<and> fst (fetch_part002 rt svc env request)
         = fst (listen_part002 rt svc env a)
           @ fst (think_part002 rt svc env (history_of request) (JStr s))
           @ [TTS (tts_request_of env aiText)]"
proof -
  let ?resp = "snd (fetch_part002 rt svc env request)"
  have tr: "snd (try_part002 rt svc env request) = Inr ?resp"
    using post ok finish_success[of getCorsHeaders_part002 "try_part002 rt svc env request"]
    by (simp add: fetch_POST)
  obtain a where a: "audio_of request = Some a"
    and au: "audio_part002 rt request = pure_of (Inr (a, history_of request))"
    using tr
    by (cases rt request rule: audio_part002_cases)
       (auto simp: try_part002_def and_then_simps pure_of_def)
  obtain cs1 l where l: "listen_part002 rt svc env a = (cs1, l)"
    by (cases "listen_part002 rt svc env a")
  from tr obtain u where u: "l = Inr u"
    by (cases l) (auto simp: try_part002_def au l and_then_simps)
  have lg: "logged rt u = pure_of (Inr u)"
    using tr logged_cases[of rt u]
    by (auto simp: try_part002_def au l u and_then_simps pure_of_def)
  obtain cs2 th where th: "think_part002 rt svc env (history_of request) u = (cs2, th)"
    by (cases "think_part002 rt svc env (history_of request) u")
  from tr obtain aiText where t: "th = Inr aiText"
    by (cases th) (auto simp: try_part002_def au l u lg th and_then_simps)
  have lg2: "logged rt aiText = pure_of (Inr aiText)"
    using tr logged_cases[of rt aiText]
    by (auto simp: try_part002_def au l u lg th t and_then_simps pure_of_def)
  obtain s where s: "u = JStr s"
    using think_part002_string[of rt svc env "history_of request" u aiText] th t by auto
  have run: "try_part002 rt svc env request =
       (cs1 @ cs2 @ fst (and_then (speak svc env aiText)
                           (package rt getCorsHeaders_part002 aiText u)),
        snd (and_then (speak svc env aiText) (package rt getCorsHeaders_part002 aiText u)))"
    by (simp add: try_part002_def au l u lg th t lg2 and_then_simps)
  from tr run obtain r where r: "tts svc (tts_request_of env aiText) = Fulfilled r" "up_ok r"
    and p: "snd (package rt getCorsHeaders_part002 aiText u r) = Inr ?resp"
    using snd_speak_package[of svc env aiText rt getCorsHeaders_part002 u ?resp] by auto
  have "fst (fetch_part002 rt svc env request) = cs1 @ cs2 @ [TTS (tts_request_of env aiText)]"
    using post by (simp add: fetch_POST fst_finish run fst_speak_package)
  with a l u s th t r p show ?thesis by auto
qed

lemma package_index_unfold:
  "package_index rt brainData reply userText r =
     pure_of
       (case to_string rt reply of
          Inl e \<Rightarrow> Inl e
        | Inr ai \<Rightarrow>
            (case header_value rt ai of
               Inl e \<Rightarrow> Inl e
             | Inr answer \<Rightarrow>
                 (case to_string rt userText of
                    Inl e \<Rightarrow> Inl e
                  | Inr u \<Rightarrow>
                      (case header_value rt u of
                         Inl e \<Rightarrow> Inl e
                       | Inr user \<Rightarrow>
                           (case toString rt (own_prop brainData (js ''compliance'')) of
                              Inl e \<Rightarrow> Inl e
                            | Inr n \<Rightarrow>
                                (case header_value rt n of
                                   Inl e \<Rightarrow> Inl e
                                 | Inr score \<Rightarrow>
                                     Inr \<lparr>status = 200,
                                          headers =
                                            hput ''X-Compliance-Score'' score
                                              (hput ''X-User-Text'' user
                                                (hput ''X-Ai-Text'' answer
                                                  (hput ''Content-Type'' (js ''audio/mpeg'')
                                                     getCorsHeaders_index))),
                                          body = AudioStream (up_body r)\<rparr>))))))"
  by (simp add: package_index_def hset_fixed and_then_simps)
     (simp add: hset_def and_then_def pure_of_def to_string_def split: sum.splits)

lemma fst_package_index: "fst (package_index rt b t u r) = []"
  by (simp add: package_index_unfold pure_of_def)

lemma package_index_success:
  assumes "snd (package_index rt brainData reply userText r) = Inr resp"
  shows "\<exists>ai answer u user n score.
           to_string rt reply = Inr ai \<and> header_value rt ai = Inr answer
         \<and> to_string rt userText = Inr u \<and> header_value rt u = Inr user
         \<and> toString rt (own_prop brainData (js ''compliance'')) = Inr n
         \<and> header_value rt n = Inr score
         \<and> resp = \<lparr>status = 200,
                    headers =
                      hput ''X-Compliance-Score'' score
                        (hput ''X-User-Text'' user
                          (hput ''X-Ai-Text'' answer
                            (hput ''Content-Type'' (js ''audio/mpeg'') getCorsHeaders_index))),
                    body = AudioStream (up_body r)\<rparr>"
  using assms by (auto simp: package_index_unfold pure_of_def split: sum.splits)

lemma packaged_index_texts:
  "reply_text \<lparr>status = n,
      headers = hput ''X-Compliance-Score'' c
                 (hput ''X-User-Text'' u (hput ''X-Ai-Text'' t hs)),
      body = b\<rparr> = Some t"
  "recognized_text \<lparr>status = n,
      headers = hput ''X-Compliance-Score'' c
                 (hput ''X-User-Text'' u (hput ''X-Ai-Text'' t hs)),
      body = b\<rparr> = Some u"
  "compliance_score \<lparr>status = n,
      headers = hput ''X-Compliance-Score'' c
                 (hput ''X-User-Text'' u (hput ''X-Ai-Text'' t hs)),
      body = b\<rparr> = Some c"
  by (simp_all add: reply_text_def recognized_text_def compliance_score_def
      hget_hput_same hget_hput_other)

lemma fst_speak_index:
  "\<not> nullish b \<Longrightarrow>
     fst (speak_index rt svc env b) = [TTS (tts_request_of env (own_prop b (js ''text'')))]"
  by (simp add: speak_index_def get_def Let_def)

lemma snd_speak_index:
  "snd (speak_index rt svc env b) = Inr x \<Longrightarrow>
     \<not> nullish b
     \<and> (\<exists>r. x = (own_prop b (js ''text''), r)
            \<and> tts svc (tts_request_of env (own_prop b (js ''text''))) = Fulfilled r \<and> up_ok r)"
  by (auto simp: speak_index_def get_def Let_def pure_of_def
      split: if_splits fetched.splits)

lemma speak_index_ok:
  "\<not> nullish b \<Longrightarrow> tts svc (tts_request_of env (own_prop b (js ''text''))) = Fulfilled r \<Longrightarrow>
   up_ok r \<Longrightarrow>
     speak_index rt svc env b
       = ([TTS (tts_request_of env (own_prop b (js ''text'')))], Inr (own_prop b (js ''text''), r))"
  by (simp add: speak_index_def get_def Let_def)

lemma index_success:
  assumes post: "req_method request = js ''POST''"
    and ok: "status (snd (fetch_index rt svc env request)) = 200"
  shows "\<exists>a userText brainData r.
       audio_of request = Some a
     \<and> snd (hear_index rt svc env a) = Inr userText
     \<and> snd (think_index rt svc env (history_of request) userText) = Inr brainData
     \<and> tts svc (tts_request_of env (own_prop brainData (js ''text''))) = Fulfilled r \<and> up_ok r
     \<and> snd (package_index rt brainData (own_prop brainData (js ''text'')) userText r)
         = Inr (snd (fetch_index rt svc env request))
     \<and> fst (fetch_index rt svc env request)
         = fst (hear_index rt svc env a)
           @ fst (think_index rt svc env (history_of request) userText)
           @ [TTS (tts_request_of env (own_prop brainData (js ''text'')))]"
proof -
  let ?resp = "snd (fetch_index rt svc env request)"
  have tr: "snd (try_index rt svc env request) = Inr ?resp"
    using post ok
      finish_success[of "hput ''Content-Type'' (js ''application/json'') getCorsHeaders_index"
        "try_index rt svc env request"]
    by (simp add: fetch_index_POST)
  obtain a where a: "audio_of request = Some a"
    and au: "audio_index rt request = pure_of (Inr (a, history_of request))"
    using tr
    by (cases rt request rule: audio_index_cases)
       (auto simp: try_index_def and_then_simps pure_of_def)
  obtain cs1 l where l: "hear_index rt svc env a = (cs1, l)"
    by (cases "hear_index rt svc env a")
  from tr obtain u where u: "l = Inr u"
    by (cases l) (auto simp: try_index_def au l and_then_simps)
  have lg: "logged rt u = pure_of (Inr u)"
    using tr logged_cases[of rt u]
    by (auto simp: try_index_def au l u and_then_simps pure_of_def)
  obtain cs2 th where th: "think_index rt svc env (history_of request) u = (cs2, th)"
    by (cases "think_index rt svc env (history_of request) u")
  from tr obtain b where b: "th = Inr b"
    by (cases th) (auto simp: try_index_def au l u lg th and_then_simps)
  obtain cs3 sp where sp: "speak_index rt svc env b = (cs3, sp)"
    by (cases "speak_index rt svc env b")
  from tr obtain x where x: "sp = Inr x"
    by (cases sp) (auto simp: try_index_def au l u lg th b sp and_then_simps)
  from snd_speak_index[of rt svc env b x] sp x
  obtain r where nb: "\<not> nullish b" and xr: "x = (own_prop b (js ''text''), r)"
    and r: "tts svc (tts_request_of env (own_prop b (js ''text''))) = Fulfilled r" "up_ok r"
    by auto
  have cs3: "cs3 = [TTS (tts_request_of env (own_prop b (js ''text'')))]"
    using fst_speak_index[OF nb, of rt svc env] sp by simp
  have run: "try_index rt svc env request =
       (cs1 @ cs2 @ cs3, snd (package_index rt b (own_prop b (js ''text'')) u r))"
    by (simp add: try_index_def au l u lg th b sp x xr and_then_simps fst_package_index)
  from tr run have p: "snd (package_index rt b (own_prop b (js ''text'')) u r) = Inr ?resp"
    by simp
  have "fst (fetch_index rt svc env request) = cs1 @ cs2 @ cs3"
    using post by (simp add: fetch_index_POST fst_finish run)
  with a l u th b r p cs3 show ?thesis by auto
qed

lemma reply_of_unusable:
  assumes "json_of rt g = Inr geminiJson" and "up_ok g"
    and "candidate_text rt geminiJson = Inr t" and "\<not> truthy t"
  shows "reply_of rt (Fulfilled g) d = Inr d"
  using assms by (simp add: reply_of_def or_else_def)

lemma think_part002_called:
  assumes "GEN q \<in> set (fst (think_part002 rt svc env h u))"
  shows "\<exists>s. u = JStr s
     \<and> think_part002 rt svc env h u = ([GEN q], reply_of rt (gemini svc q) (JStr NOT_HEARD))"
  using assms
  by (auto simp: think_part002_def Let_def pure_of_def split: jsval.splits if_splits sum.splits)

text \<open>The turn whose reply is a string fixed by the generation step.\<close>

lemma part002_reply:
  assumes "req_method request = js ''POST''"
    and "audio_of request = Some a"
    and "snd (listen_part002 rt svc env a) = Inr (JStr s)"
    and "think_part002 rt svc env (history_of request) (JStr s) = (cs, Inr (JStr t))"
  shows "fetch_part002 rt svc env request =
     (fst (listen_part002 rt svc env a) @ cs @ [TTS (tts_request_of env (JStr t))],
      case tts svc (tts_request_of env (JStr t)) of
        Rejected reason \<Rightarrow>
          \<lparr>status = 500, headers = getCorsHeaders_part002, body = ErrorJson (TypeError reason)\<rparr>
      | Fulfilled r \<Rightarrow>
          if up_ok r then
            (case header_value rt t of
               Inl e \<Rightarrow> \<lparr>status = 500, headers = getCorsHeaders_part002, body = ErrorJson e\<rparr>
             | Inr reply \<Rightarrow>
                (case header_value rt s of
                   Inl e \<Rightarrow> \<lparr>status = 500, headers = getCorsHeaders_part002, body = ErrorJson e\<rparr>
                 | Inr user \<Rightarrow>
                     \<lparr>status = 200,
                      headers = hput ''Access-Control-Expose-Headers'' (js ''X-Ai-Text, X-User-Text'')
                               (hput ''X-User-Text'' user
                                 (hput ''X-Ai-Text'' reply
                                   (hput ''Content-Type'' (js ''audio/mpeg'') getCorsHeaders_part002))),
                      body = AudioStream (up_body r)\<rparr>))
          else \<lparr>status = 500, headers = getCorsHeaders_part002,
                 body = ErrorJson (Error TTS_FAILED)\<rparr>)"
proof -
  have h: "audio_part002 rt request = pure_of (Inr (a, history_of request))"
    using assms(2) by (rule audio_part002_ok)
  obtain cs1 where l: "listen_part002 rt svc env a = (cs1, Inr (JStr s))"
    using assms(3) by (cases "listen_part002 rt svc env a") auto
  show ?thesis
    using assms(1)
    by (simp add: fetch_POST try_part002_def h l assms(4) and_then_simps)
       (simp add: speak_def Let_def package_unfold to_string_def finish_def
          pure_of_def and_then_def split: fetched.splits sum.splits)
qed

text \<open>
  C8 (as amended). The response of every successful turn (a POST request answered with
  status 200) carries the recognized text and the reply text, each as the header value
  that \<^verbatim>\<open>headers.set\<close> makes of it (converted to a string, trimmed of HTTP whitespace).
  In part\_002 (raw-text generation contract) the recognized text is the transcript and the
  reply text is the reply of the generation step, on which the synthesis was called; the
  reply is the fixed sentence "I couldn't hear you, Officer. Say again?" when the transcript
  has at most one code unit once trimmed, and when the generation service answered with a
  success whose first candidate text is absent or empty; the response carries no
  compliance score. In
  index.ts (structured-JSON contract) the recognized text is the \<^verbatim>\<open>text\<close> of the
  transcription, the reply text is the \<^verbatim>\<open>text\<close> of the parsed model output, on which the
  synthesis was called, and the response carries the \<^verbatim>\<open>compliance\<close> of the parsed model
  output as its score; the texts have no default there.
\<close>

theorem turn_output_metadata:
  "(req_method request = js ''POST'' \<and> status (snd (fetch_part002 rt svc env request)) = 200
    \<longrightarrow> (\<exists>a s aiText ai user reply.
            audio_of request = Some a
          \<and> snd (listen_part002 rt svc env a) = Inr (JStr s)
          \<and> snd (think_part002 rt svc env (history_of request) (JStr s)) = Inr aiText
          \<and> TTS (tts_request_of env aiText) \<in> set (fst (fetch_part002 rt svc env request))
          \<and> header_value rt s = Inr user
          \<and> recognized_text (snd (fetch_part002 rt svc env request)) = Some user
          \<and> to_string rt aiText = Inr ai \<and> header_value rt ai = Inr reply
          \<and> reply_text (snd (fetch_part002 rt svc env request)) = Some reply)
        \<and> compliance_score (snd (fetch_part002 rt svc env request)) = None)
   \<and> (req_method request = js ''POST'' \<and> status (snd (fetch_part002 rt svc env request)) = 200
      \<and> audio_of request = Some a \<and> snd (listen_part002 rt svc env a) = Inr (JStr s)
      \<and> length (trim s) \<le> 1
    \<longrightarrow> reply_text (snd (fetch_part002 rt svc env request)) = Some NOT_HEARD)
   \<and> (req_method request = js ''POST'' \<and> status (snd (fetch_part002 rt svc env request)) = 200
      \<and> GEN q \<in> set (fst (fetch_part002 rt svc env request))
      \<and> gemini svc q = Fulfilled g \<and> up_ok g \<and> json_of rt g = Inr geminiJson
      \<and> candidate_text rt geminiJson = Inr t \<and> \<not> truthy t
    \<longrightarrow> reply_text (snd (fetch_part002 rt svc env request)) = Some NOT_HEARD)
   \<and> (req_method request = js ''POST'' \<and> status (snd (fetch_index rt svc env request)) = 200
    \<longrightarrow> (\<exists>a userText brainData u user ai reply n score.
            audio_of request = Some a
          \<and> snd (hear_index rt svc env a) = Inr userText
          \<and> snd (think_index rt svc env (history_of request) userText) = Inr brainData
          \<and> TTS (tts_request_of env (own_prop brainData (js ''text'')))
              \<in> set (fst (fetch_index rt svc env request))
          \<and> to_string rt userText = Inr u \<and> header_value rt u = Inr user
          \<and> recognized_text (snd (fetch_index rt svc env request)) = Some user
          \<and> to_string rt (own_prop brainData (js ''text'')) = Inr ai
          \<and> header_value rt ai = Inr reply
          \<and> reply_text (snd (fetch_index rt svc env request)) = Some reply
          \<and> toString rt (own_prop brainData (js ''compliance'')) = Inr n
          \<and> header_value rt n = Inr score
          \<and> compliance_score (snd (fetch_index rt svc env request)) = Some score))"
proof (intro conjI impI)
  assume h: "req_method request = js ''POST''
      \<and> status (snd (fetch_part002 rt svc env request)) = 200"
  then obtain a s aiText r where a: "audio_of request = Some a"
    and l: "snd (listen_part002 rt svc env a) = Inr (JStr s)"
    and th: "snd (think_part002 rt svc env (history_of request) (JStr s)) = Inr aiText"
    and p: "snd (package rt getCorsHeaders_part002 aiText (JStr s) r)
         = Inr (snd (fetch_part002 rt svc env request))"
    and cs: "fst (fetch_part002 rt svc env request)
         = fst (listen_part002 rt svc env a)
           @ fst (think_part002 rt svc env (history_of request) (JStr s))
           @ [TTS (tts_request_of env aiText)]"
    using part002_success[of request rt svc env] by blast
  from package_success[OF p] obtain ai reply user where
    ai: "to_string rt aiText = Inr ai" "header_value rt ai = Inr reply"
    and user: "header_value rt s = Inr user"
    and resp: "snd (fetch_part002 rt svc env request) =
        \<lparr>status = 200,
         headers = hput ''Access-Control-Expose-Headers'' (js ''X-Ai-Text, X-User-Text'')
                    (hput ''X-User-Text'' user
                      (hput ''X-Ai-Text'' reply
                        (hput ''Content-Type'' (js ''audio/mpeg'') getCorsHeaders_part002))),
         body = AudioStream (up_body r)\<rparr>"
    by (auto simp: to_string_def)
  have "recognized_text (snd (fetch_part002 rt svc env request)) = Some user"
    and "reply_text (snd (fetch_part002 rt svc env request)) = Some reply"
    by (simp_all add: resp packaged_texts)
  moreover have "TTS (tts_request_of env aiText) \<in> set (fst (fetch_part002 rt svc env request))"
    by (simp add: cs)
  ultimately show "\<exists>a s aiText ai user reply.
            audio_of request = Some a
          \<and> snd (listen_part002 rt svc env a) = Inr (JStr s)
          \<and> snd (think_part002 rt svc env (history_of request) (JStr s)) = Inr aiText
          \<and> TTS (tts_request_of env aiText) \<in> set (fst (fetch_part002 rt svc env request))
          \<and> header_value rt s = Inr user
          \<and> recognized_text (snd (fetch_part002 rt svc env request)) = Some user
          \<and> to_string rt aiText = Inr ai \<and> header_value rt ai = Inr reply
          \<and> reply_text (snd (fetch_part002 rt svc env request)) = Some reply"
    using a l th ai user by blast
  show "compliance_score (snd (fetch_part002 rt svc env request)) = None"
    by (simp add: resp packaged_score) (simp add: hget_def getCorsHeaders_part002_def)
next
  assume h: "req_method request = js ''POST''
      \<and> status (snd (fetch_part002 rt svc env request)) = 200
      \<and> audio_of request = Some a \<and> snd (listen_part002 rt svc env a) = Inr (JStr s)
      \<and> length (trim s) \<le> 1"
  then have th: "think_part002 rt svc env (history_of request) (JStr s)
                   = ([], Inr (JStr NOT_HEARD))"
    by (simp add: think_part002_def Let_def pure_of_def)
  from h have p: "req_method request = js ''POST''" and a: "audio_of request = Some a"
    and l: "snd (listen_part002 rt svc env a) = Inr (JStr s)"
    and ok: "status (snd (fetch_part002 rt svc env request)) = 200"
    by simp_all
  from ok show "reply_text (snd (fetch_part002 rt svc env request)) = Some NOT_HEARD"
    by (simp add: part002_reply[OF p a l th] header_value_fixed packaged_texts
        split: fetched.splits if_splits sum.splits)
next
  assume h: "req_method request = js ''POST''
      \<and> status (snd (fetch_part002 rt svc env request)) = 200
      \<and> GEN q \<in> set (fst (fetch_part002 rt svc env request))
      \<and> gemini svc q = Fulfilled g \<and> up_ok g \<and> json_of rt g = Inr geminiJson
      \<and> candidate_text rt geminiJson = Inr t \<and> \<not> truthy t"
  then have p: "req_method request = js ''POST''"
    and ok: "status (snd (fetch_part002 rt svc env request)) = 200"
    and gen: "GEN q \<in> set (fst (fetch_part002 rt svc env request))"
    by simp_all
  from part002_generation_called[OF p gen] obtain a u where
    a: "audio_of request = Some a" and u: "snd (listen_part002 rt svc env a) = Inr u"
    and c: "GEN q \<in> set (fst (think_part002 rt svc env (history_of request) u))"
    by blast
  from think_part002_called[OF c] obtain s where s: "u = JStr s"
    and th: "think_part002 rt svc env (history_of request) u
               = ([GEN q], reply_of rt (gemini svc q) (JStr NOT_HEARD))"
    by blast
  have r: "reply_of rt (gemini svc q) (JStr NOT_HEARD) = Inr (JStr NOT_HEARD)"
    using h reply_of_unusable[of rt g geminiJson t "JStr NOT_HEARD"] by simp
  have l: "snd (listen_part002 rt svc env a) = Inr (JStr s)"
    using u s by simp
  have th': "think_part002 rt svc env (history_of request) (JStr s)
               = ([GEN q], Inr (JStr NOT_HEARD))"
    using th s r by simp
  from ok show "reply_text (snd (fetch_part002 rt svc env request)) = Some NOT_HEARD"
    by (simp add: part002_reply[OF p a l th'] header_value_fixed packaged_texts
        split: fetched.splits if_splits sum.splits)
next
  assume h: "req_method request = js ''POST''
      \<and> status (snd (fetch_index rt svc env request)) = 200"
  then obtain a userText brainData r where a: "audio_of request = Some a"
    and l: "snd (hear_index rt svc env a) = Inr userText"
    and th: "snd (think_index rt svc env (history_of request) userText) = Inr brainData"
    and p: "snd (package_index rt brainData (own_prop brainData (js ''text'')) userText r)
         = Inr (snd (fetch_index rt svc env request))"
    and cs: "fst (fetch_index rt svc env request)
         = fst (hear_index rt svc env a)
           @ fst (think_index rt svc env (history_of request) userText)
           @ [TTS (tts_request_of env (own_prop brainData (js ''text'')))]"
    using index_success[of request rt svc env] by blast
  from package_index_success[OF p] obtain ai reply u user n score where
    v: "to_string rt (own_prop brainData (js ''text'')) = Inr ai" "header_value rt ai = Inr reply"
      "to_string rt userText = Inr u" "header_value rt u = Inr user"
      "toString rt (own_prop brainData (js ''compliance'')) = Inr n"
      "header_value rt n = Inr score"
    and resp: "snd (fetch_index rt svc env request) =
        \<lparr>status = 200,
         headers = hput ''X-Compliance-Score'' score
                    (hput ''X-User-Text'' user
                      (hput ''X-Ai-Text'' reply
                        (hput ''Content-Type'' (js ''audio/mpeg'') getCorsHeaders_index))),
         body = AudioStream (up_body r)\<rparr>"
    by blast
  have "recognized_text (snd (fetch_index rt svc env request)) = Some user"
    and "reply_text (snd (fetch_index rt svc env request)) = Some reply"
    and "compliance_score (snd (fetch_index rt svc env request)) = Some score"
    by (simp_all add: resp packaged_index_texts)
  moreover have "TTS (tts_request_of env (own_prop brainData (js ''text'')))
              \<in> set (fst (fetch_index rt svc env request))"
    by (simp add: cs)
  ultimately show "\<exists>a userText brainData u user ai reply n score.
            audio_of request = Some a
          \<and> snd (hear_index rt svc env a) = Inr userText
          \<and> snd (think_index rt svc env (history_of request) userText) = Inr brainData
          \<and> TTS (tts_request_of env (own_prop brainData (js ''text'')))
              \<in> set (fst (fetch_index rt svc env request))
          \<and> to_string rt userText = Inr u \<and> header_value rt u = Inr user
          \<and> recognized_text (snd (fetch_index rt svc env request)) = Some user
          \<and> to_string rt (own_prop brainData (js ''text'')) = Inr ai
          \<and> header_value rt ai = Inr reply
          \<and> reply_text (snd (fetch_index rt svc env request)) = Some reply
          \<and> toString rt (own_prop brainData (js ''compliance'')) = Inr n
          \<and> header_value rt n = Inr score
          \<and> compliance_score (snd (fetch_index rt svc env request)) = Some score"
    using a l th v by blast
qed

text \<open>The turn of index.ts when the model output \<open>raw\<close> parses to a value that is not
  \<^verbatim>\<open>null\<close>, and when it does not parse.\<close>

lemma think_index_parsed:
  assumes "geminiPayload rt (history_index rt h) u = Inr p"
    and "gemini svc \<lparr>gemini_url = js ''https://generativelanguage.googleapis.com/v1beta/models/gemini-2.0-flash-exp:generateContent?key='' @ GEMINI_API_KEY env,
            gemini_payload = p\<rparr> = Fulfilled g"
    and "json_of rt g = Inr geminiData"
    and "candidate_text rt geminiData = Inr (JStr raw)" and "raw \<noteq> []"
  shows "think_index rt svc env h u =
     ([GEN \<lparr>gemini_url = js ''https://generativelanguage.googleapis.com/v1beta/models/gemini-2.0-flash-exp:generateContent?key='' @ GEMINI_API_KEY env,
            gemini_payload = p\<rparr>],
      parse rt raw)"
  using assms by (simp add: think_index_def Let_def to_string_def)

lemma no_history_payload:
  "geminiPayload rt (history_index rt None) u = Inr (JObj
                 [(js ''contents'',
                     JArr [turn (js ''user'') (JStr systemPrompt), turn (js ''user'') u]),
                  (js ''generationConfig'',
                     JObj [(js ''response_mime_type'', JStr (js ''application/json''))])])"
  by (simp add: geminiPayload_def history_index_def)

lemma index_turn:
  assumes "req_method request = js ''POST''" and "audio_of request = Some a"
    and "snd (hear_index rt svc env a) = Inr (JStr u)"
    and "think_index rt svc env (history_of request) (JStr u) = ([GEN q], res)"
  shows "fetch_index rt svc env request =
     finish (hput ''Content-Type'' (js ''application/json'') getCorsHeaders_index)
       (and_then
          ([STT \<lparr>stt_key = ELEVENLABS_API_KEY env, stt_model_id = js ''scribble_google_v1'',
             stt_file = a\<rparr>, GEN q], res)
          (\<lambda>brainData. and_then (speak_index rt svc env brainData)
             (\<lambda>(reply, ttsResponse). package_index rt brainData reply (JStr u) ttsResponse)))"
proof -
  obtain l where l: "hear_index rt svc env a =
     ([STT \<lparr>stt_key = ELEVENLABS_API_KEY env, stt_model_id = js ''scribble_google_v1'',
             stt_file = a\<rparr>], l)"
    using hear_index_shape by blast
  with assms(3) have res: "l = Inr (JStr u)" by simp
  show ?thesis
    using assms(1)
    by (cases res)
       (simp_all add: fetch_index_POST try_index_def audio_index_ok[OF assms(2)] l res
        and_then_simps assms(4))
qed

lemma index_spoken:
  assumes "req_method request = js ''POST''" and "audio_of request = Some a"
    and "snd (hear_index rt svc env a) = Inr (JStr u)"
    and "think_index rt svc env (history_of request) (JStr u) = ([GEN q], Inr brainData)"
    and "\<not> nullish brainData"
    and "tts svc (tts_request_of env (own_prop brainData (js ''text''))) = Fulfilled r"
    and "up_ok r"
    and "to_string rt (own_prop brainData (js ''text'')) = Inr ai"
    and "header_value rt ai = Inr reply" and "header_value rt u = Inr user"
    and "toString rt (own_prop brainData (js ''compliance'')) = Inr n"
    and "header_value rt n = Inr score"
  shows "fetch_index rt svc env request =
     ([STT \<lparr>stt_key = ELEVENLABS_API_KEY env, stt_model_id = js ''scribble_google_v1'',
             stt_file = a\<rparr>,
       GEN q, TTS (tts_request_of env (own_prop brainData (js ''text'')))],
      \<lparr>status = 200,
       headers = hput ''X-Compliance-Score'' score
                  (hput ''X-User-Text'' user
                    (hput ''X-Ai-Text'' reply
                      (hput ''Content-Type'' (js ''audio/mpeg'') getCorsHeaders_index))),
       body = AudioStream (up_body r)\<rparr>)"
  using assms(8-12)
  by (simp add: index_turn[OF assms(1-4)] and_then_simps speak_index_ok[OF assms(5-7)])
     (simp add: package_index_unfold to_string_def pure_of_def finish_def)

lemma index_unparsable:
  assumes "req_method request = js ''POST''" and "audio_of request = Some a"
    and "snd (hear_index rt svc env a) = Inr (JStr u)"
    and "think_index rt svc env (history_of request) (JStr u) = ([GEN q], Inl e)"
  shows "fetch_index rt svc env request =
     ([STT \<lparr>stt_key = ELEVENLABS_API_KEY env, stt_model_id = js ''scribble_google_v1'',
             stt_file = a\<rparr>, GEN q],
      \<lparr>status = 500,
       headers = hput ''Content-Type'' (js ''application/json'') getCorsHeaders_index,
       body = ErrorJson e\<rparr>)"
  by (simp add: index_turn[OF assms(1-4)] and_then_simps finish_def)

lemma structured_think:
  assumes "JSON_parse example_runtime (gemini_body raw) = Some (candidates raw)" and "raw \<noteq> []"
  shows "think_index example_runtime (structured_services raw) example_env
      (history_of (post (Some (FFile example_audio)) None))
      (JStr (js ''is my account unfrozen'')) =
     ([GEN \<lparr>gemini_url = js ''https://generativelanguage.googleapis.com/v1beta/models/gemini-2.0-flash-exp:generateContent?key='' @ GEMINI_API_KEY example_env,
            gemini_payload = JObj
                 [(js ''contents'',
                     JArr [turn (js ''user'') (JStr systemPrompt),
                           turn (js ''user'') (JStr (js ''is my account unfrozen''))]),
                  (js ''generationConfig'',
                     JObj [(js ''response_mime_type'', JStr (js ''application/json''))])]\<rparr>],
      parse example_runtime raw)"
  by (simp add: history_of_post think_index_parsed[OF no_history_payload example_services(3)
        generated_json[OF assms(1)] candidate_text_candidates assms(2)])

lemma js_text_neq_compliance: "js ''text'' \<noteq> js ''compliance''" "js ''compliance'' \<noteq> js ''text''"
  by (simp_all add: js_def)


lemma structured_turn:
  assumes "JSON_parse example_runtime (gemini_body raw) = Some (candidates raw)" and "raw \<noteq> []"
    and "JSON_parse example_runtime raw = Some brainData" and "\<not> nullish brainData"
    and "to_string example_runtime (own_prop brainData (js ''text'')) = Inr ai"
    and "header_value example_runtime ai = Inr reply"
    and "toString example_runtime (own_prop brainData (js ''compliance'')) = Inr n"
    and "header_value example_runtime n = Inr score"
  shows "fetch_index example_runtime (structured_services raw) example_env
      (post (Some (FFile example_audio)) None) =
   ([STT \<lparr>stt_key = ELEVENLABS_API_KEY example_env, stt_model_id = js ''scribble_google_v1'',
           stt_file = example_audio\<rparr>,
     GEN \<lparr>gemini_url = js ''https://generativelanguage.googleapis.com/v1beta/models/gemini-2.0-flash-exp:generateContent?key='' @ GEMINI_API_KEY example_env,
           gemini_payload = JObj
                 [(js ''contents'',
                     JArr [turn (js ''user'') (JStr systemPrompt),
                           turn (js ''user'') (JStr (js ''is my account unfrozen''))]),
                  (js ''generationConfig'',
                     JObj [(js ''response_mime_type'', JStr (js ''application/json''))])]\<rparr>,
     TTS (tts_request_of example_env (own_prop brainData (js ''text'')))],
    \<lparr>status = 200,
     headers = hput ''X-Compliance-Score'' score
                 (hput ''X-User-Text'' (js ''is my account unfrozen'')
                   (hput ''X-Ai-Text'' reply
                     (hput ''Content-Type'' (js ''audio/mpeg'') getCorsHeaders_index))),
     body = AudioStream (up_body spoken)\<rparr>)"
proof -
  have th: "think_index example_runtime (structured_services raw) example_env
      (history_of (post (Some (FFile example_audio)) None))
      (JStr (js ''is my account unfrozen'')) =
     ([GEN \<lparr>gemini_url = js ''https://generativelanguage.googleapis.com/v1beta/models/gemini-2.0-flash-exp:generateContent?key='' @ GEMINI_API_KEY example_env,
            gemini_payload = JObj
                 [(js ''contents'',
                     JArr [turn (js ''user'') (JStr systemPrompt),
                           turn (js ''user'') (JStr (js ''is my account unfrozen''))]),
                  (js ''generationConfig'',
                     JObj [(js ''response_mime_type'', JStr (js ''application/json''))])]\<rparr>],
      Inr brainData)"
    by (simp add: structured_think[OF assms(1,2)] parse_def assms(3))
  show ?thesis
    by (rule index_spoken[OF example_audio_valid(3) example_audio_valid(1)
          example_transcripts(7) th assms(4) example_services(7) spoken_facts(1)
          assms(5,6) example_header_values(2) assms(7,8)])
qed

lemma structured_index_with_text:
  \<open>fetch_index example_runtime
      (structured_services (js ''{"text":"Still locked.","compliance":40}'')) example_env
      (post (Some (FFile example_audio)) None) =
   ([STT \<lparr>stt_key = ELEVENLABS_API_KEY example_env, stt_model_id = js ''scribble_google_v1'',
           stt_file = example_audio\<rparr>,
     GEN \<lparr>gemini_url = js ''https://generativelanguage.googleapis.com/v1beta/models/gemini-2.0-flash-exp:generateContent?key='' @ GEMINI_API_KEY example_env,
           gemini_payload = JObj
                 [(js ''contents'',
                     JArr [turn (js ''user'') (JStr systemPrompt),
                           turn (js ''user'') (JStr (js ''is my account unfrozen''))]),
                  (js ''generationConfig'',
                     JObj [(js ''response_mime_type'', JStr (js ''application/json''))])]\<rparr>,
     TTS (tts_request_of example_env (JStr (js ''Still locked.'')))],
    \<lparr>status = 200,
     headers = hput ''X-Compliance-Score'' (js ''40'')
                 (hput ''X-User-Text'' (js ''is my account unfrozen'')
                   (hput ''X-Ai-Text'' (js ''Still locked.'')
                     (hput ''Content-Type'' (js ''audio/mpeg'') getCorsHeaders_index))),
     body = AudioStream [1, 2, 3]\<rparr>)\<close>
proof -
  let ?b = "JObj [(js ''text'', JStr (js ''Still locked.'')), (js ''compliance'', JNum 40)]"
  have v: "\<not> nullish ?b"
    "to_string example_runtime (own_prop ?b (js ''text'')) = Inr (js ''Still locked.'')"
    "header_value example_runtime (js ''Still locked.'') = Inr (js ''Still locked.'')"
    "toString example_runtime (own_prop ?b (js ''compliance'')) = Inr (js ''40'')"
    "header_value example_runtime (js ''40'') = Inr (js ''40'')"
    by (simp_all add: js_text_neq_compliance to_string_def toString_def example_prints
        example_header_values)
  have p: "own_prop ?b (js ''text'') = JStr (js ''Still locked.'')"
    by simp
  show ?thesis
    using structured_turn[OF example_parses_gemini(2) example_texts(3) example_parses(4) v]
    by (simp only: p spoken_facts)
qed

lemma structured_index_without_text:
  \<open>fetch_index example_runtime (structured_services (js ''{"compliance":50}'')) example_env
      (post (Some (FFile example_audio)) None) =
   ([STT \<lparr>stt_key = ELEVENLABS_API_KEY example_env, stt_model_id = js ''scribble_google_v1'',
           stt_file = example_audio\<rparr>,
     GEN \<lparr>gemini_url = js ''https://generativelanguage.googleapis.com/v1beta/models/gemini-2.0-flash-exp:generateContent?key='' @ GEMINI_API_KEY example_env,
           gemini_payload = JObj
                 [(js ''contents'',
                     JArr [turn (js ''user'') (JStr systemPrompt),
                           turn (js ''user'') (JStr (js ''is my account unfrozen''))]),
                  (js ''generationConfig'',
                     JObj [(js ''response_mime_type'', JStr (js ''application/json''))])]\<rparr>,
     TTS (tts_request_of example_env JUndefined)],
    \<lparr>status = 200,
     headers = hput ''X-Compliance-Score'' (js ''50'')
                 (hput ''X-User-Text'' (js ''is my account unfrozen'')
                   (hput ''X-Ai-Text'' (js ''undefined'')
                     (hput ''Content-Type'' (js ''audio/mpeg'') getCorsHeaders_index))),
     body = AudioStream [1, 2, 3]\<rparr>)\<close>
proof -
  let ?b = "JObj [(js ''compliance'', JNum 50)]"
  have v: "\<not> nullish ?b"
    "to_string example_runtime (own_prop ?b (js ''text'')) = Inr (js ''undefined'')"
    "header_value example_runtime (js ''undefined'') = Inr (js ''undefined'')"
    "toString example_runtime (own_prop ?b (js ''compliance'')) = Inr (js ''50'')"
    "header_value example_runtime (js ''50'') = Inr (js ''50'')"
    by (simp_all add: js_text_neq_compliance to_string_def toString_def example_prints
        example_header_values)
  have p: "own_prop ?b (js ''text'') = JUndefined"
    by (simp add: js_text_neq_compliance)
  show ?thesis
    using structured_turn[OF example_parses_gemini(3) example_texts(4) example_parses(5) v]
    by (simp only: p spoken_facts)
qed

lemma structured_index_empty_text:
  \<open>fetch_index example_runtime (structured_services (js ''{"text":"","compliance":50}''))
      example_env (post (Some (FFile example_audio)) None) =
   ([STT \<lparr>stt_key = ELEVENLABS_API_KEY example_env, stt_model_id = js ''scribble_google_v1'',
           stt_file = example_audio\<rparr>,
     GEN \<lparr>gemini_url = js ''https://generativelanguage.googleapis.com/v1beta/models/gemini-2.0-flash-exp:generateContent?key='' @ GEMINI_API_KEY example_env,
           gemini_payload = JObj
                 [(js ''contents'',
                     JArr [turn (js ''user'') (JStr systemPrompt),
                           turn (js ''user'') (JStr (js ''is my account unfrozen''))]),
                  (js ''generationConfig'',
                     JObj [(js ''response_mime_type'', JStr (js ''application/json''))])]\<rparr>,
     TTS (tts_request_of example_env (JStr []))],
    \<lparr>status = 200,
     headers = hput ''X-Compliance-Score'' (js ''50'')
                 (hput ''X-User-Text'' (js ''is my account unfrozen'')
                   (hput ''X-Ai-Text'' []
                     (hput ''Content-Type'' (js ''audio/mpeg'') getCorsHeaders_index))),
     body = AudioStream [1, 2, 3]\<rparr>)\<close>
proof -
  let ?b = "JObj [(js ''text'', JStr []), (js ''compliance'', JNum 50)]"
  have v: "\<not> nullish ?b"
    "to_string example_runtime (own_prop ?b (js ''text'')) = Inr []"
    "header_value example_runtime [] = Inr []"
    "toString example_runtime (own_prop ?b (js ''compliance'')) = Inr (js ''50'')"
    "header_value example_runtime (js ''50'') = Inr (js ''50'')"
    by (simp_all add: js_text_neq_compliance to_string_def toString_def example_prints
        example_header_values)
  have p: "own_prop ?b (js ''text'') = JStr []"
    by simp
  show ?thesis
    using structured_turn[OF example_parses_gemini(4) example_texts(5) example_parses(6) v]
    by (simp only: p spoken_facts)
qed

lemma structured_index_unparsable:
  \<open>fetch_index example_runtime (structured_services (js ''Still locked.'')) example_env
      (post (Some (FFile example_audio)) None) =
   ([STT \<lparr>stt_key = ELEVENLABS_API_KEY example_env, stt_model_id = js ''scribble_google_v1'',
           stt_file = example_audio\<rparr>,
     GEN \<lparr>gemini_url = js ''https://generativelanguage.googleapis.com/v1beta/models/gemini-2.0-flash-exp:generateContent?key='' @ GEMINI_API_KEY example_env,
           gemini_payload = JObj
                 [(js ''contents'',
                     JArr [turn (js ''user'') (JStr systemPrompt),
                           turn (js ''user'') (JStr (js ''is my account unfrozen''))]),
                  (js ''generationConfig'',
                     JObj [(js ''response_mime_type'', JStr (js ''application/json''))])]\<rparr>],
    \<lparr>status = 500,
     headers = hput ''Content-Type'' (js ''application/json'') getCorsHeaders_index,
     body = ErrorJson (thrown example_runtime (NotJSON (js ''Still locked.'')))\<rparr>)\<close>
  by (rule index_unparsable[OF example_audio_valid(3) example_audio_valid(1)
        example_transcripts(7)])
     (simp add: structured_think[OF example_parses_gemini(5) example_texts(6)] parse_def
        example_rejects)

lemma wordless_reply:
  "reply_of example_runtime (gemini wordless_services q) (JStr NOT_HEARD) = Inr (JStr NOT_HEARD)"
  "json_of example_runtime (answered (js ''{}'')) = Inr (JObj [])"
  "candidate_text example_runtime (JObj []) = Inr JUndefined"
proof -
  show j: "json_of example_runtime (answered (js ''{}'')) = Inr (JObj [])"
    by (simp add: json_of_def answered_def parse_def example_parses)
  show c: "candidate_text example_runtime (JObj []) = Inr JUndefined"
    by (simp add: candidate_text_def get_def opt_get_def opt_elem0_def)
  show "reply_of example_runtime (gemini wordless_services q) (JStr NOT_HEARD)
          = Inr (JStr NOT_HEARD)"
    by (simp add: example_services reply_of_unusable[OF j spoken_facts(6) c])
qed

lemma wordless_part002:
  "fetch_part002 example_runtime wordless_services example_env
      (post (Some (FFile example_audio)) None) =
     ([STT \<lparr>stt_key = ELEVENLABS_API_KEY example_env, stt_model_id = STT_MODEL,
             stt_file = example_audio\<rparr>,
       GEN \<lparr>gemini_url = GEMINI_25_URL @ GEMINI_API_KEY example_env,
             gemini_payload = payload_part002 [] (js ''is my account unfrozen'')\<rparr>,
       TTS (tts_request_of example_env (JStr NOT_HEARD))],
      \<lparr>status = 200,
       headers = hput ''Access-Control-Expose-Headers'' (js ''X-Ai-Text, X-User-Text'')
                  (hput ''X-User-Text'' (js ''is my account unfrozen'')
                    (hput ''X-Ai-Text'' NOT_HEARD
                      (hput ''Content-Type'' (js ''audio/mpeg'') getCorsHeaders_part002))),
       body = AudioStream (up_body spoken)\<rparr>)"
  by (rule part002_spoken[OF example_audio_valid(3) example_audio_valid(1)
        example_transcripts(8) example_lengths(2) no_history wordless_reply(1)
        example_services(9) spoken_facts(1) header_value_fixed(3)
        example_header_values(2)])

text \<open>A transcript that is refused as a header value fails the turn after the synthesis:
  the response is the error object of the TypeError.\<close>

lemma part002_refused_transcript:
  assumes "req_method request = js ''POST''"
    and "audio_of request = Some a"
    and "snd (listen_part002 rt svc env a) = Inr (JStr s)"
    and "think_part002 rt svc env (history_of request) (JStr s) = (cs, Inr (JStr t))"
    and "tts svc (tts_request_of env (JStr t)) = Fulfilled r" and "up_ok r"
    and "header_value rt t = Inr reply" and "header_value rt s = Inl e"
  shows "fetch_part002 rt svc env request =
     (fst (listen_part002 rt svc env a) @ cs @ [TTS (tts_request_of env (JStr t))],
      \<lparr>status = 500, headers = getCorsHeaders_part002, body = ErrorJson e\<rparr>)"
  using assms(5-8) by (simp add: part002_reply[OF assms(1-4)])

lemma talking_think:
  "snd (think_part002 example_runtime talking_services example_env
          (history_of (post x None)) (JStr (js ''is my account unfrozen'')))
     = Inr (JStr (js ''Nah man, still locked. You know anything?''))"
  by (simp add: think_part002_speech[OF example_lengths(2) no_history] example_services
      reply_of_generated example_parses_gemini example_texts)

theorem turn_output_metadata_witness:
  \<open>status (snd (fetch_part002 example_runtime talking_services example_env
      (post (Some (FFile example_audio)) None))) = 200
   \<and> recognized_text (snd (fetch_part002 example_runtime talking_services example_env
      (post (Some (FFile example_audio)) None))) = Some (js ''is my account unfrozen'')
   \<and> reply_text (snd (fetch_part002 example_runtime talking_services example_env
      (post (Some (FFile example_audio)) None)))
       = Some (js ''Nah man, still locked. You know anything?'')
   \<and> compliance_score (snd (fetch_part002 example_runtime talking_services example_env
      (post (Some (FFile example_audio)) None))) = None
   \<and> status (snd (fetch_part002 example_runtime quiet_services example_env
      (post (Some (FFile example_audio)) None))) = 200
   \<and> reply_text (snd (fetch_part002 example_runtime quiet_services example_env
      (post (Some (FFile example_audio)) None))) = Some NOT_HEARD
   \<and> status (snd (fetch_part002 example_runtime wordless_services example_env
      (post (Some (FFile example_audio)) None))) = 200
   \<and> reply_text (snd (fetch_part002 example_runtime wordless_services example_env
      (post (Some (FFile example_audio)) None))) = Some NOT_HEARD
   \<and> status (snd (fetch_index example_runtime
        (structured_services (js ''{"text":"Still locked.","compliance":40}''))
        example_env (post (Some (FFile example_audio)) None))) = 200
   \<and> recognized_text (snd (fetch_index example_runtime
        (structured_services (js ''{"text":"Still locked.","compliance":40}''))
        example_env (post (Some (FFile example_audio)) None)))
       = Some (js ''is my account unfrozen'')
   \<and> reply_text (snd (fetch_index example_runtime
        (structured_services (js ''{"text":"Still locked.","compliance":40}''))
        example_env (post (Some (FFile example_audio)) None))) = Some (js ''Still locked.'')
   \<and> compliance_score (snd (fetch_index example_runtime
        (structured_services (js ''{"text":"Still locked.","compliance":40}''))
        example_env (post (Some (FFile example_audio)) None))) = Some (js ''40'')\<close>
proof -
  let ?request = "post (Some (FFile example_audio)) None"
  let ?raw = \<open>js ''{"text":"Still locked.","compliance":40}''\<close>
  let ?q = "\<lparr>gemini_url = GEMINI_25_URL @ GEMINI_API_KEY example_env,
             gemini_payload = payload_part002 [] (js ''is my account unfrozen'')\<rparr>"
  have post: "req_method ?request = js ''POST''"
    by (rule example_audio_valid)
  have talking: "status (snd (fetch_part002 example_runtime talking_services example_env
      ?request)) = 200"
    by (simp add: talking_part002[OF example_contexts(1)])
  have quiet: "status (snd (fetch_part002 example_runtime quiet_services example_env
      ?request)) = 200"
    by (simp add: quiet_turns)
  have wordless: "status (snd (fetch_part002 example_runtime wordless_services example_env
      ?request)) = 200"
    "GEN ?q \<in> set (fst (fetch_part002 example_runtime wordless_services example_env ?request))"
    by (simp_all add: wordless_part002)
  have structured: "status (snd (fetch_index example_runtime (structured_services ?raw)
      example_env ?request)) = 200"
    by (simp add: structured_index_with_text)
  from turn_output_metadata
    [where request = ?request and rt = example_runtime and svc = talking_services
       and env = example_env] post talking
  obtain a s aiText ai user reply where
    "audio_of ?request = Some a"
    "snd (listen_part002 example_runtime talking_services example_env a) = Inr (JStr s)"
    "snd (think_part002 example_runtime talking_services example_env (history_of ?request)
            (JStr s)) = Inr aiText"
    "header_value example_runtime s = Inr user"
    "recognized_text (snd (fetch_part002 example_runtime talking_services example_env
        ?request)) = Some user"
    "to_string example_runtime aiText = Inr ai" "header_value example_runtime ai = Inr reply"
    "reply_text (snd (fetch_part002 example_runtime talking_services example_env
        ?request)) = Some reply"
    and none: "compliance_score (snd (fetch_part002 example_runtime talking_services
        example_env ?request)) = None"
    by blast
  then have heard: "recognized_text (snd (fetch_part002 example_runtime talking_services
        example_env ?request)) = Some (js ''is my account unfrozen'')"
    and answered: "reply_text (snd (fetch_part002 example_runtime talking_services
        example_env ?request)) = Some (js ''Nah man, still locked. You know anything?'')"
    by (auto simp: example_transcripts talking_think example_header_values to_string_def)
  have silent: "audio_of ?request = Some example_audio
      \<and> snd (listen_part002 example_runtime quiet_services example_env example_audio)
          = Inr (JStr (js ''  ''))
      \<and> length (trim (js ''  '')) \<le> 1"
    by (intro conjI example_audio_valid example_transcripts example_lengths)
  from turn_output_metadata
    [where request = ?request and rt = example_runtime and svc = quiet_services
       and env = example_env and a = example_audio and s = "js ''  ''"] post quiet silent
  have fallback: "reply_text (snd (fetch_part002 example_runtime quiet_services example_env
      ?request)) = Some NOT_HEARD"
    by blast
  have unusable: "gemini wordless_services ?q = Fulfilled (answered (js ''{}''))
      \<and> up_ok (answered (js ''{}''))
      \<and> json_of example_runtime (answered (js ''{}'')) = Inr (JObj [])
      \<and> candidate_text example_runtime (JObj []) = Inr JUndefined
      \<and> \<not> truthy JUndefined"
    by (intro conjI example_services spoken_facts wordless_reply) simp
  from turn_output_metadata
    [where request = ?request and rt = example_runtime and svc = wordless_services
       and env = example_env and q = ?q and g = "answered (js ''{}'')"
       and geminiJson = "JObj []" and t = JUndefined] post wordless unusable
  have defaulted: "reply_text (snd (fetch_part002 example_runtime wordless_services
      example_env ?request)) = Some NOT_HEARD"
    by blast
  from turn_output_metadata
    [where request = ?request and rt = example_runtime
       and svc = "structured_services ?raw" and env = example_env] post structured
  have "\<exists>a userText brainData u user ai reply n score.
            audio_of ?request = Some a
          \<and> snd (hear_index example_runtime (structured_services ?raw) example_env a)
              = Inr userText
          \<and> snd (think_index example_runtime (structured_services ?raw) example_env
                   (history_of ?request) userText) = Inr brainData
          \<and> TTS (tts_request_of example_env (own_prop brainData (js ''text'')))
              \<in> set (fst (fetch_index example_runtime (structured_services ?raw)
                     example_env ?request))
          \<and> to_string example_runtime userText = Inr u
          \<and> header_value example_runtime u = Inr user
          \<and> recognized_text (snd (fetch_index example_runtime (structured_services ?raw)
                example_env ?request)) = Some user
          \<and> to_string example_runtime (own_prop brainData (js ''text'')) = Inr ai
          \<and> header_value example_runtime ai = Inr reply
          \<and> reply_text (snd (fetch_index example_runtime (structured_services ?raw)
                example_env ?request)) = Some reply
          \<and> toString example_runtime (own_prop brainData (js ''compliance'')) = Inr n
          \<and> header_value example_runtime n = Inr score
          \<and> compliance_score (snd (fetch_index example_runtime (structured_services ?raw)
                example_env ?request)) = Some score"
    by blast
  then obtain userText brainData u user ai reply n score where
    "snd (hear_index example_runtime (structured_services ?raw) example_env example_audio)
       = Inr userText"
    "snd (think_index example_runtime (structured_services ?raw) example_env
            (history_of ?request) userText) = Inr brainData"
    "to_string example_runtime userText = Inr u" "header_value example_runtime u = Inr user"
    "recognized_text (snd (fetch_index example_runtime (structured_services ?raw)
        example_env ?request)) = Some user"
    "to_string example_runtime (own_prop brainData (js ''text'')) = Inr ai"
    "header_value example_runtime ai = Inr reply"
    "reply_text (snd (fetch_index example_runtime (structured_services ?raw)
        example_env ?request)) = Some reply"
    "toString example_runtime (own_prop brainData (js ''compliance'')) = Inr n"
    "header_value example_runtime n = Inr score"
    "compliance_score (snd (fetch_index example_runtime (structured_services ?raw)
        example_env ?request)) = Some score"
    by (auto simp: example_audio_valid)
  then have scored: "recognized_text (snd (fetch_index example_runtime
        (structured_services ?raw) example_env ?request)) = Some (js ''is my account unfrozen'')"
    "reply_text (snd (fetch_index example_runtime (structured_services ?raw)
        example_env ?request)) = Some (js ''Still locked.'')"
    "compliance_score (snd (fetch_index example_runtime (structured_services ?raw)
        example_env ?request)) = Some (js ''40'')"
    by (auto simp: example_transcripts structured_think[OF example_parses_gemini(2)
          example_texts(3)] parse_def example_parses js_text_neq_compliance to_string_def
        toString_def example_prints example_header_values)
  from talking heard answered none quiet fallback wordless(1) defaulted structured scored
  show ?thesis by blast
qed

lemma wordless_index:
  "fetch_index example_runtime wordless_services example_env
      (post (Some (FFile example_audio)) None) =
   ([STT \<lparr>stt_key = ELEVENLABS_API_KEY example_env, stt_model_id = js ''scribble_google_v1'',
           stt_file = example_audio\<rparr>,
     GEN \<lparr>gemini_url = js ''https://generativelanguage.googleapis.com/v1beta/models/gemini-2.0-flash-exp:generateContent?key='' @ GEMINI_API_KEY example_env,
           gemini_payload = JObj
                 [(js ''contents'',
                     JArr [turn (js ''user'') (JStr systemPrompt),
                           turn (js ''user'') (JStr (js ''is my account unfrozen''))]),
                  (js ''generationConfig'',
                     JObj [(js ''response_mime_type'', JStr (js ''application/json''))])]\<rparr>],
    \<lparr>status = 500,
     headers = hput ''Content-Type'' (js ''application/json'') getCorsHeaders_index,
     body = ErrorJson (Error (js ''Gemini returned empty response''))\<rparr>)"
proof -
  have h: "snd (hear_index example_runtime wordless_services example_env example_audio)
             = Inr (JStr (js ''is my account unfrozen''))"
    by (simp add: hear_heard example_parses_stt wordless_services_def hears_def)
  have th: "think_index example_runtime wordless_services example_env
      (history_of (post (Some (FFile example_audio)) None))
      (JStr (js ''is my account unfrozen'')) =
     ([GEN \<lparr>gemini_url = js ''https://generativelanguage.googleapis.com/v1beta/models/gemini-2.0-flash-exp:generateContent?key='' @ GEMINI_API_KEY example_env,
            gemini_payload = JObj
                 [(js ''contents'',
                     JArr [turn (js ''user'') (JStr systemPrompt),
                           turn (js ''user'') (JStr (js ''is my account unfrozen''))]),
                  (js ''generationConfig'',
                     JObj [(js ''response_mime_type'', JStr (js ''application/json''))])]\<rparr>],
      Inl (Error (js ''Gemini returned empty response'')))"
    by (simp add: think_index_def history_of_post no_history_payload Let_def
        example_services wordless_reply)
  show ?thesis
    by (rule index_unparsable[OF example_audio_valid(3) example_audio_valid(1) h th])
qed

text \<open>In index.ts a reply without usable text is not replaced by a fallback sentence. When
  the generation service answers without a candidate text, the handler throws: the turn
  ends with status 500 and the synthesis is not called. When the model output has an empty
  \<^verbatim>\<open>text\<close>, the synthesis is called on the empty text and the reply text of the
  successful response is empty.\<close>

theorem reply_default_counterexample:
  \<open>status (snd (fetch_index example_runtime wordless_services example_env
        (post (Some (FFile example_audio)) None))) = 500
   \<and> body (snd (fetch_index example_runtime wordless_services example_env
        (post (Some (FFile example_audio)) None)))
       = ErrorJson (Error (js ''Gemini returned empty response''))
   \<and> filter is_TTS (fst (fetch_index example_runtime wordless_services example_env
        (post (Some (FFile example_audio)) None))) = []
   \<and> status (snd (fetch_index example_runtime
        (structured_services (js ''{"text":"","compliance":50}''))
        example_env (post (Some (FFile example_audio)) None))) = 200
   \<and> TTS (tts_request_of example_env (JStr []))
       \<in> set (fst (fetch_index example_runtime
             (structured_services (js ''{"text":"","compliance":50}''))
             example_env (post (Some (FFile example_audio)) None)))
   \<and> reply_text (snd (fetch_index example_runtime
        (structured_services (js ''{"text":"","compliance":50}''))
        example_env (post (Some (FFile example_audio)) None))) = Some []\<close>
  by (simp add: structured_index_empty_text wordless_index packaged_index_texts is_TTS_def)

section \<open>The structured generation contract\<close>

lemma think_index_called:
  assumes "GEN q \<in> set (fst (think_index rt svc env h u))"
    and "gemini svc q = Fulfilled g" and "json_of rt g = Inr geminiData"
    and "candidate_text rt geminiData = Inr (JStr raw)" and "raw \<noteq> []"
  shows "think_index rt svc env h u = ([GEN q], parse rt raw)"
  using assms
  by (auto simp: think_index_def Let_def to_string_def pure_of_def split: sum.splits)

lemma no_GEN_speak_index: "GEN q \<notin> set (fst (speak_index rt svc env b))"
  by (auto simp: speak_index_def pure_of_def Let_def split: sum.splits)

lemma index_generation_called:
  assumes post: "req_method request = js ''POST''"
    and gen: "GEN q \<in> set (fst (fetch_index rt svc env request))"
  shows "\<exists>a u. audio_of request = Some a \<and> snd (hear_index rt svc env a) = Inr u
     \<and> logged rt u = pure_of (Inr u)
     \<and> GEN q \<in> set (fst (think_index rt svc env (history_of request) u))"
proof -
  have "GEN q \<in> set (fst (try_index rt svc env request))"
    using post gen by (simp add: fetch_index_POST fst_finish)
  then obtain a u x where "audio_of request = Some a"
    and "snd (hear_index rt svc env a) = Inr u" and "snd (logged rt u) = Inr x"
    and "GEN q \<in> set (fst (think_index rt svc env (history_of request) u))"
    unfolding try_index_def
    by (auto dest!: in_and_then audio_index_pure
        simp: fst_audio fst_hear_index fst_logged no_GEN_speak_index fst_package_index)
  then show ?thesis using snd_logged by blast
qed

text \<open>A model output that \<^verbatim>\<open>JSON.parse\<close> rejects fails the turn: for every POST request,
  if the handler called the generation service with \<open>q\<close>, the service answered with a
  first candidate text \<open>raw\<close> that is a non-empty string, and \<open>raw\<close> is not JSON, the
  response has status 500 and the error object of the SyntaxError, and the synthesis is
  not called.\<close>

lemma unparsable_output_rejected:
  assumes post: "req_method request = js ''POST''"
    and gen: "GEN q \<in> set (fst (fetch_index rt svc env request))"
    and g: "gemini svc q = Fulfilled g" "json_of rt g = Inr geminiData"
      "candidate_text rt geminiData = Inr (JStr raw)" "raw \<noteq> []"
    and raw: "JSON_parse rt raw = None"
  shows "status (snd (fetch_index rt svc env request)) = 500"
    and "body (snd (fetch_index rt svc env request))
           = ErrorJson (SyntaxError (message rt (NotJSON raw)))"
    and "filter is_TTS (fst (fetch_index rt svc env request)) = []"
proof -
  from index_generation_called[OF post gen] obtain a u where
    a: "audio_of request = Some a" and u: "snd (hear_index rt svc env a) = Inr u"
    and lg: "logged rt u = pure_of (Inr u)"
    and th: "GEN q \<in> set (fst (think_index rt svc env (history_of request) u))"
    by blast
  have t: "think_index rt svc env (history_of request) u
             = ([GEN q], Inl (SyntaxError (message rt (NotJSON raw))))"
    using think_index_called[OF th g] raw by (simp add: parse_def thrown_def)
  obtain l where l: "hear_index rt svc env a =
     ([STT \<lparr>stt_key = ELEVENLABS_API_KEY env, stt_model_id = js ''scribble_google_v1'',
             stt_file = a\<rparr>], l)"
    using hear_index_shape by blast
  with u have res: "l = Inr u" by simp
  have f: "fetch_index rt svc env request =
     ([STT \<lparr>stt_key = ELEVENLABS_API_KEY env, stt_model_id = js ''scribble_google_v1'',
             stt_file = a\<rparr>, GEN q],
      \<lparr>status = 500,
       headers = hput ''Content-Type'' (js ''application/json'') getCorsHeaders_index,
       body = ErrorJson (SyntaxError (message rt (NotJSON raw)))\<rparr>)"
    using post
    by (simp add: fetch_index_POST try_index_def audio_index_ok[OF a] l res lg t
        and_then_simps finish_def)
  show "status (snd (fetch_index rt svc env request)) = 500"
    and "body (snd (fetch_index rt svc env request))
           = ErrorJson (SyntaxError (message rt (NotJSON raw)))"
    and "filter is_TTS (fst (fetch_index rt svc env request)) = []"
    by (simp_all add: f is_TTS_def)
qed

text \<open>
  C5. The handler of index.ts parses the raw model output as JSON and fails the turn when
  the parsing fails, but it never checks the \<^verbatim>\<open>text\<close> field that its own declaration of
  the model output (\<^verbatim>\<open>interface BrainResponse\<close>, \<^verbatim>\<open>text: string\<close>) requires. The model
  output "Still locked." (not JSON) ends the turn with status 500 and no synthesis call;
  the model output \<^verbatim>\<open>{"compliance":50}\<close>, which parses to an object without
  \<^verbatim>\<open>text\<close>, does not: the synthesis is called on an undefined text, and with a synthesis
  that succeeds the response is a success whose reply text is the string "undefined".
\<close>

theorem missing_text_not_rejected:
  \<open>JSON_parse example_runtime (js ''Still locked.'') = None
   \<and> status (snd (fetch_index example_runtime (structured_services (js ''Still locked.''))
        example_env (post (Some (FFile example_audio)) None))) = 500
   \<and> filter is_TTS (fst (fetch_index example_runtime
        (structured_services (js ''Still locked.''))
        example_env (post (Some (FFile example_audio)) None))) = []
   \<and> JSON_parse example_runtime (js ''{"compliance":50}'')
       = Some (JObj [(js ''compliance'', JNum 50)])
   \<and> own_prop (JObj [(js ''compliance'', JNum 50)]) (js ''text'') = JUndefined
   \<and> status (snd (fetch_index example_runtime
        (structured_services (js ''{"compliance":50}'')) example_env
        (post (Some (FFile example_audio)) None))) = 200
   \<and> TTS (tts_request_of example_env JUndefined)
       \<in> set (fst (fetch_index example_runtime
             (structured_services (js ''{"compliance":50}'')) example_env
             (post (Some (FFile example_audio)) None)))
   \<and> reply_text (snd (fetch_index example_runtime
        (structured_services (js ''{"compliance":50}'')) example_env
        (post (Some (FFile example_audio)) None))) = Some (js ''undefined'')
   \<and> compliance_score (snd (fetch_index example_runtime
        (structured_services (js ''{"compliance":50}'')) example_env
        (post (Some (FFile example_audio)) None))) = Some (js ''50'')\<close>
  by (simp add: structured_index_without_text structured_index_unparsable example_parses
      example_rejects packaged_index_texts is_TTS_def js_text_neq_compliance)

section \<open>The cross-origin policy\<close>








section \<open>Failure responses\<close>

lemma thrown_errors: "thrown rt f \<in> errors_part002"
  by (cases f) (simp_all add: thrown_def errors_part002_def)

lemma audio_part002_errors: "snd (audio_part002 rt request) = Inl e \<Longrightarrow> e \<in> errors_part002"
  using thrown_errors[of rt NotAForm]
  by (auto simp: audio_part002_def pure_of_def errors_part002_def
      split: option.splits formval.splits)

lemma get_errors: "get rt v k = Inl e \<Longrightarrow> e \<in> errors_part002"
  using thrown_errors[of rt "ReadOfNullish v k"] by (auto simp: get_def split: if_splits)

lemma parse_errors: "parse rt s = Inl e \<Longrightarrow> e \<in> errors_part002"
  using thrown_errors[of rt "NotJSON s"] by (auto simp: parse_def split: option.splits)

lemma json_of_errors: "json_of rt r = Inl e \<Longrightarrow> e \<in> errors_part002"
  using thrown_errors[of rt BodyUnreadable]
  by (auto simp: json_of_def dest: parse_errors split: option.splits)

lemma text_of_errors: "text_of rt r = Inl e \<Longrightarrow> e \<in> errors_part002"
  using thrown_errors[of rt BodyUnreadable] by (auto simp: text_of_def split: option.splits)

lemma listen_part002_errors:
  "snd (listen_part002 rt svc env a) = Inl e \<Longrightarrow> e \<in> errors_part002"
  by (auto simp: listen_part002_def Let_def dest: get_errors json_of_errors
      split: fetched.splits if_splits sum.splits)
     (simp_all add: errors_part002_def)

lemma candidate_text_errors: "candidate_text rt g = Inl e \<Longrightarrow> e \<in> errors_part002"
  by (auto simp: candidate_text_def dest: get_errors split: sum.splits)

lemma reply_of_errors: "reply_of rt f d = Inl e \<Longrightarrow> e \<in> errors_part002"
  by (auto simp: reply_of_def dest: candidate_text_errors json_of_errors text_of_errors
      split: fetched.splits if_splits sum.splits)
     (simp_all add: errors_part002_def)

lemma spread_errors: "spread rt v = Inl e \<Longrightarrow> e \<in> errors_part002"
  using thrown_errors[of rt "NotIterable v"] by (auto simp: spread_def split: jsval.splits)

lemma think_part002_errors:
  "snd (think_part002 rt svc env h u) = Inl e \<Longrightarrow> e \<in> errors_part002"
  using thrown_errors[of rt "NotAFunction u (js ''trim'')"]
  by (auto simp: think_part002_def Let_def pure_of_def
      dest: spread_errors reply_of_errors
      split: jsval.splits if_splits sum.splits)

lemma speak_errors: "snd (speak svc env t) = Inl e \<Longrightarrow> e \<in> errors_part002"
  by (auto simp: speak_def Let_def errors_part002_def split: fetched.splits if_splits)

lemma to_string_errors: "to_string rt v = Inl e \<Longrightarrow> e \<in> errors_part002"
  using thrown_errors[of rt "NotConvertible v"]
  by (auto simp: to_string_def split: jsval.splits option.splits)

lemma header_value_errors: "header_value rt v = Inl e \<Longrightarrow> e \<in> errors_part002"
  using thrown_errors[of rt "InvalidHeaderValue v"]
  by (auto simp: header_value_def split: option.splits if_splits)

lemma logged_errors: "snd (logged rt v) = Inl e \<Longrightarrow> e \<in> errors_part002"
  using logged_cases[of rt v] thrown_errors[of rt "NotConvertible v"]
  by (auto simp: pure_of_def)

lemma package_errors: "snd (package rt cors t u r) = Inl e \<Longrightarrow> e \<in> errors_part002"
  by (auto simp: package_unfold pure_of_def dest: to_string_errors header_value_errors
      split: sum.splits)

lemma try_part002_errors:
  assumes "snd (try_part002 rt svc env request) = Inl e"
  shows "e \<in> errors_part002"
  using assms unfolding try_part002_def
  by (auto dest!: snd_and_then_Inl
      dest: audio_part002_errors listen_part002_errors think_part002_errors speak_errors
        package_errors logged_errors)

text \<open>A transcription that answers with a success whose body is not JSON.\<close>

lemma part002_garbled:
  assumes "req_method request = js ''POST''" and "audio_of request = Some a"
    and "stt svc \<lparr>stt_key = ELEVENLABS_API_KEY env, stt_model_id = STT_MODEL, stt_file = a\<rparr>
           = Fulfilled r"
    and "up_ok r" and "up_text r = Some t" and "JSON_parse rt t = None"
  shows "fetch_part002 rt svc env request =
    ([STT \<lparr>stt_key = ELEVENLABS_API_KEY env, stt_model_id = STT_MODEL, stt_file = a\<rparr>],
     \<lparr>status = 500, headers = getCorsHeaders_part002,
      body = ErrorJson (SyntaxError (message rt (NotJSON t)))\<rparr>)"
  using assms(1,3-6)
  by (simp add: fetch_POST try_part002_def audio_part002_ok[OF assms(2)] listen_part002_def
      Let_def json_of_def parse_def thrown_def and_then_simps finish_def)

text \<open>
  C7 (as amended). In part\_002, every response to a POST request that is not a success
  has status 500 and as body the error object of one of: the three errors with a fixed
  message ("No audio file provided", "ElevenLabs STT Failed", "ElevenLabs TTS Failed"), or
  an exception thrown by the runtime (a TypeError or a SyntaxError), whose message is
  returned as the runtime made it. When the transcription service answers with a success
  whose body \<open>t\<close> is not JSON, that message is the one of the parser for \<open>t\<close>. A request
  with another method than POST and OPTIONS gets status 405 with the plain text "Method
  not allowed".
\<close>

theorem failures_are_terse:
  "(req_method request = js ''POST'' \<and> status (snd (fetch_part002 rt svc env request)) \<noteq> 200
    \<longrightarrow> status (snd (fetch_part002 rt svc env request)) = 500
        \<and> body (snd (fetch_part002 rt svc env request)) \<in> ErrorJson ` errors_part002)
   \<and> (req_method request = js ''POST'' \<and> audio_of request = Some a
      \<and> stt svc \<lparr>stt_key = ELEVENLABS_API_KEY env, stt_model_id = STT_MODEL, stt_file = a\<rparr>
          = Fulfilled r
      \<and> up_ok r \<and> up_text r = Some t \<and> JSON_parse rt t = None
    \<longrightarrow> status (snd (fetch_part002 rt svc env request)) = 500
        \<and> body (snd (fetch_part002 rt svc env request))
            = ErrorJson (SyntaxError (message rt (NotJSON t))))
   \<and> (req_method request \<noteq> js ''POST'' \<and> req_method request \<noteq> js ''OPTIONS''
    \<longrightarrow> status (snd (fetch_part002 rt svc env request)) = 405
        \<and> body (snd (fetch_part002 rt svc env request)) = PlainText (js ''Method not allowed''))"
proof -
  have failed: "status (snd (fetch_part002 rt svc env request)) = 500
        \<and> body (snd (fetch_part002 rt svc env request)) \<in> ErrorJson ` errors_part002"
    if a: "req_method request = js ''POST''
           \<and> status (snd (fetch_part002 rt svc env request)) \<noteq> 200"
  proof -
    have f: "snd (fetch_part002 rt svc env request)
         = (case snd (try_part002 rt svc env request) of
              Inl e \<Rightarrow> \<lparr>status = 500, headers = getCorsHeaders_part002, body = ErrorJson e\<rparr>
            | Inr resp \<Rightarrow> resp)"
      using a by (simp add: fetch_POST finish_headers)
    show ?thesis
    proof (cases "snd (try_part002 rt svc env request)")
      case (Inl e)
      then show ?thesis
        using try_part002_errors[OF Inl] by (simp add: f)
    next
      case (Inr resp)
      then obtain aiText userText r where
        "snd (package rt getCorsHeaders_part002 aiText userText r) = Inr resp"
        unfolding try_part002_def
        by (auto dest!: snd_and_then_Inr split: prod.splits)
      from package_success[OF this] a Inr show ?thesis
        by (auto simp: f)
    qed
  qed
  have garbled: "status (snd (fetch_part002 rt svc env request)) = 500
        \<and> body (snd (fetch_part002 rt svc env request))
            = ErrorJson (SyntaxError (message rt (NotJSON t)))"
    if "req_method request = js ''POST'' \<and> audio_of request = Some a
      \<and> stt svc \<lparr>stt_key = ELEVENLABS_API_KEY env, stt_model_id = STT_MODEL, stt_file = a\<rparr>
          = Fulfilled r
      \<and> up_ok r \<and> up_text r = Some t \<and> JSON_parse rt t = None"
    using that part002_garbled[of request a svc env r t rt] by simp
  have other: "status (snd (fetch_part002 rt svc env request)) = 405
        \<and> body (snd (fetch_part002 rt svc env request)) = PlainText (js ''Method not allowed'')"
    if "req_method request \<noteq> js ''POST'' \<and> req_method request \<noteq> js ''OPTIONS''"
    using that by (simp add: fetch_part002_def)
  from failed garbled other show ?thesis
    by blast
qed

lemma deaf_part002:
  "fetch_part002 rt deaf_services example_env (post (Some (FFile example_audio)) None) =
    ([STT \<lparr>stt_key = ELEVENLABS_API_KEY example_env, stt_model_id = STT_MODEL,
            stt_file = example_audio\<rparr>],
     \<lparr>status = 500, headers = getCorsHeaders_part002, body = ErrorJson (Error STT_FAILED)\<rparr>)"
  by (simp add: fetch_POST example_audio_valid try_part002_def audio_part002_ok
      listen_part002_def deaf_services_def fails_with_def failure_def Let_def and_then_simps
      finish_def)

lemma garbled_facts:
  "stt garbled_services q = Fulfilled (answered (js ''upstream overloaded''))"
  \<open>message example_runtime (NotJSON (js ''upstream overloaded''))
     = js ''Unexpected token, "upstream overloaded" is not valid JSON''\<close>
  by (simp_all add: garbled_services_def example_runtime_def example_message_def
      js_append[symmetric])

theorem failures_are_terse_witness:
  \<open>status (snd (fetch_part002 example_runtime deaf_services example_env
       (post (Some (FFile example_audio)) None))) = 500
   \<and> body (snd (fetch_part002 example_runtime deaf_services example_env
       (post (Some (FFile example_audio)) None))) \<in> ErrorJson ` errors_part002
   \<and> body (snd (fetch_part002 example_runtime deaf_services example_env
       (post (Some (FFile example_audio)) None))) = ErrorJson (Error (js ''ElevenLabs STT Failed''))
   \<and> status (snd (fetch_part002 example_runtime garbled_services example_env
       (post (Some (FFile example_audio)) None))) = 500
   \<and> body (snd (fetch_part002 example_runtime garbled_services example_env
       (post (Some (FFile example_audio)) None)))
      = ErrorJson (SyntaxError
          (js ''Unexpected token, "upstream overloaded" is not valid JSON''))
   \<and> status (snd (fetch_part002 example_runtime deaf_services example_env
       \<lparr>req_method = js ''GET'', req_origin = None, req_formData = None\<rparr>)) = 405
   \<and> body (snd (fetch_part002 example_runtime deaf_services example_env
       \<lparr>req_method = js ''GET'', req_origin = None, req_formData = None\<rparr>))
      = PlainText (js ''Method not allowed'')\<close>
proof -
  let ?request = "post (Some (FFile example_audio)) None"
  have failed: "req_method ?request = js ''POST''
     \<and> status (snd (fetch_part002 example_runtime deaf_services example_env ?request)) \<noteq> 200"
    by (simp add: deaf_part002 example_audio_valid)
  have garbled: "req_method ?request = js ''POST'' \<and> audio_of ?request = Some example_audio
      \<and> stt garbled_services \<lparr>stt_key = ELEVENLABS_API_KEY example_env,
            stt_model_id = STT_MODEL, stt_file = example_audio\<rparr>
          = Fulfilled (answered (js ''upstream overloaded''))
      \<and> up_ok (answered (js ''upstream overloaded''))
      \<and> up_text (answered (js ''upstream overloaded'')) = Some (js ''upstream overloaded'')
      \<and> JSON_parse example_runtime (js ''upstream overloaded'') = None"
    by (intro conjI example_audio_valid garbled_facts spoken_facts example_rejects)
  have other: "req_method \<lparr>req_method = js ''GET'', req_origin = None, req_formData = None\<rparr>
       \<noteq> js ''POST''
     \<and> req_method \<lparr>req_method = js ''GET'', req_origin = None, req_formData = None\<rparr>
       \<noteq> js ''OPTIONS''"
    by (simp add: js_GET)
  from failures_are_terse
    [of ?request example_runtime deaf_services example_env]
    failed
  have "status (snd (fetch_part002 example_runtime deaf_services example_env ?request)) = 500
   \<and> body (snd (fetch_part002 example_runtime deaf_services example_env ?request))
       \<in> ErrorJson ` errors_part002"
    by blast
  moreover from failures_are_terse
    [of ?request example_runtime garbled_services example_env example_audio
        "answered (js ''upstream overloaded'')" "js ''upstream overloaded''"]
    garbled
  have "status (snd (fetch_part002 example_runtime garbled_services example_env ?request)) = 500
   \<and> body (snd (fetch_part002 example_runtime garbled_services example_env ?request))
       = ErrorJson (SyntaxError (message example_runtime
           (NotJSON (js ''upstream overloaded''))))"
    by blast
  moreover from failures_are_terse
    [of "\<lparr>req_method = js ''GET'', req_origin = None, req_formData = None\<rparr>"
        example_runtime deaf_services example_env]
    other
  have "status (snd (fetch_part002 example_runtime deaf_services example_env
       \<lparr>req_method = js ''GET'', req_origin = None, req_formData = None\<rparr>)) = 405
   \<and> body (snd (fetch_part002 example_runtime deaf_services example_env
       \<lparr>req_method = js ''GET'', req_origin = None, req_formData = None\<rparr>))
      = PlainText (js ''Method not allowed'')"
    by blast
  ultimately show ?thesis
    by (simp add: deaf_part002 STT_FAILED_def garbled_facts)
qed

text \<open>In part\_001 (lines 237-240) the message of a transcription failure carries the
  body of the upstream response.\<close>

theorem failure_message_counterexample:
  "stt deaf_services \<lparr>stt_key = ELEVENLABS_API_KEY example_env, stt_model_id = STT_MODEL,
                       stt_file = example_audio\<rparr> = Fulfilled (failure (js ''quota exceeded''))
   \<and> up_text (failure (js ''quota exceeded'')) = Some (js ''quota exceeded'')
   \<and> status (snd (fetch_part001b example_runtime deaf_services example_env
       (post (Some (FFile example_audio)) None))) = 500
   \<and> body (snd (fetch_part001b example_runtime deaf_services example_env
       (post (Some (FFile example_audio)) None)))
      = ErrorJson (Error (js ''ElevenLabs STT Failed: quota exceeded''))"
  by (simp add: fetch_POST example_audio_valid try_part001b_def audio_part001b_file
      listen_part001b_def deaf_services_def fails_with_def failure_def text_of_def Let_def
      and_then_simps finish_def js_append[symmetric])

section \<open>A history that is not JSON\<close>

text \<open>
  C10. In the two revisions that read the history field (index.ts and part\_002), a
  request whose history field is a string that \<^verbatim>\<open>JSON.parse\<close> rejects gets the same
  calls and the same response as the request without the history field.
\<close>

theorem malformed_history_discarded:
  "(req_formData request = Some formData \<and> form_history formData = Some (FString h)
      \<and> JSON_parse rt h = None
    \<longrightarrow> fetch_index rt svc env request
        = fetch_index rt svc env
            (request\<lparr>req_formData := Some (formData\<lparr>form_history := None\<rparr>)\<rparr>))
   \<and> (req_formData request = Some formData \<and> form_history formData = Some (FString h)
      \<and> JSON_parse rt h = None
    \<longrightarrow> fetch_part002 rt svc env request
        = fetch_part002 rt svc env
            (request\<lparr>req_formData := Some (formData\<lparr>form_history := None\<rparr>)\<rparr>))"
proof -
  have i: "history_index rt (Some (FString h)) = history_index rt None"
    if "JSON_parse rt h = None"
    using that by (simp add: history_index_def)
  have p: "previousContext_part002 rt (Some (FString h)) = previousContext_part002 rt None"
    if "JSON_parse rt h = None"
    using that by (simp add: previousContext_part002_def)
  have t: "think_part002 rt svc env (Some (FString h)) u = think_part002 rt svc env None u"
    if "JSON_parse rt h = None" for u
    unfolding think_part002_def p[OF that] ..
  show ?thesis
    apply (intro conjI impI)
    subgoal
      by (auto simp: fetch_index_def try_index_def audio_index_def and_then_simps pure_of_def
          think_index_def i split: option.splits formval.splits)
    subgoal
      by (auto simp: fetch_part002_def try_part002_def audio_part002_def and_then_simps
          pure_of_def t split: option.splits formval.splits)
    done
qed

theorem malformed_history_discarded_witness:
  "JSON_parse structured_runtime (js ''[{bad'') = None
   \<and> fetch_index structured_runtime
        (structured_services (js ''{\"text\":\"Still locked.\",\"compliance\":40}'')) example_env
        (post (Some (FFile example_audio)) (Some (FString (js ''[{bad''))))
     = fetch_index structured_runtime
        (structured_services (js ''{\"text\":\"Still locked.\",\"compliance\":40}'')) example_env
        (post (Some (FFile example_audio)) None)
   \<and> status (snd (fetch_index structured_runtime
        (structured_services (js ''{\"text\":\"Still locked.\",\"compliance\":40}'')) example_env
        (post (Some (FFile example_audio)) (Some (FString (js ''[{bad'')))))) = 200
   \<and> fetch_part002 structured_runtime talking_services example_env
        (post (Some (FFile example_audio)) (Some (FString (js ''[{bad''))))
     = fetch_part002 structured_runtime talking_services example_env
        (post (Some (FFile example_audio)) None)
   \<and> status (snd (fetch_part002 structured_runtime talking_services example_env
        (post (Some (FFile example_audio)) (Some (FString (js ''[{bad'')))))) = 200"
proof -
  let ?request = "post (Some (FFile example_audio)) (Some (FString (js ''[{bad'')))"
  let ?form = "\<lparr>form_audio = Some (FFile example_audio),
                form_history = Some (FString (js ''[{bad''))\<rparr>"
  have reject: "JSON_parse structured_runtime (js ''[{bad'') = None"
    by (simp add: structured_runtime_def example_rejects)
  have same: "?request\<lparr>req_formData := Some (?form\<lparr>form_history := None\<rparr>)\<rparr>
                = post (Some (FFile example_audio)) None"
    by (simp add: post_def)
  have hyp: "req_formData ?request = Some ?form
      \<and> form_history ?form = Some (FString (js ''[{bad''))
      \<and> JSON_parse structured_runtime (js ''[{bad'') = None"
    by (simp add: post_def reject)
  from malformed_history_discarded
    [of ?request ?form "js ''[{bad''" structured_runtime
        "structured_services (js ''{\"text\":\"Still locked.\",\"compliance\":40}'')"
        example_env] hyp
  have i: "fetch_index structured_runtime
        (structured_services (js ''{\"text\":\"Still locked.\",\"compliance\":40}'')) example_env
        ?request
     = fetch_index structured_runtime
        (structured_services (js ''{\"text\":\"Still locked.\",\"compliance\":40}'')) example_env
        (post (Some (FFile example_audio)) None)"
    unfolding same by blast
  from malformed_history_discarded
    [of ?request ?form "js ''[{bad''" structured_runtime talking_services example_env] hyp
  have p: "fetch_part002 structured_runtime talking_services example_env ?request
     = fetch_part002 structured_runtime talking_services example_env
        (post (Some (FFile example_audio)) None)"
    unfolding same by blast
  have ok: "status (snd (fetch_index structured_runtime
        (structured_services (js ''{\"text\":\"Still locked.\",\"compliance\":40}'')) example_env
        (post (Some (FFile example_audio)) None))) = 200"
    "status (snd (fetch_part002 structured_runtime talking_services example_env
        (post (Some (FFile example_audio)) None))) = 200"
    unfolding structured_runtime_def
    by (simp_all add: structured_index_with_text talking_part002[OF example_contexts(1)])
  show ?thesis
    by (simp add: reject i p ok)
qed

end
